theory Spec2Isabelle
  imports Main "HOL-Library.Sublist"
begin

section \<open>Go strings\<close>

text \<open>
  A Go string is a sequence of bytes; it is modelled as a \<open>string\<close>. The functions of
  package \<open>strings\<close> that \<open>pkg/cmd/run.go\<close> calls are written out.
\<close>

definition HasPrefix :: "string \<Rightarrow> string \<Rightarrow> bool" where
  "HasPrefix s p = (take (length p) s = p)"

definition HasSuffix :: "string \<Rightarrow> string \<Rightarrow> bool" where
  "HasSuffix s p = (length p \<le> length s \<and> drop (length s - length p) s = p)"

definition TrimPrefix :: "string \<Rightarrow> string \<Rightarrow> string" where
  "TrimPrefix s p = (if HasPrefix s p then drop (length p) s else s)"

fun Contains :: "string \<Rightarrow> string \<Rightarrow> bool" where
  "Contains [] substr = (substr = [])"
| "Contains (c # cs) substr = (HasPrefix (c # cs) substr \<or> Contains cs substr)"

text \<open>
  \<open>strings.Split(s, sep)\<close> for a non-empty separator cuts \<open>s\<close> at the leftmost,
  non-overlapping occurrences of \<open>sep\<close>; \<open>cur\<close> is the piece read so far. With an empty
  separator Go returns the string cut into its characters.
\<close>

function genSplit :: "string \<Rightarrow> string \<Rightarrow> string \<Rightarrow> string list" where
  "genSplit sep cur [] = [cur]"
| "genSplit sep cur (c # cs) =
     (if sep \<noteq> [] \<and> HasPrefix (c # cs) sep
      then cur # genSplit sep [] (drop (length sep) (c # cs))
      else genSplit sep (cur @ [c]) cs)"
  by pat_completeness auto
termination
  by (relation "measure (\<lambda>(sep, cur, s). length s)") auto

definition Split :: "string \<Rightarrow> string \<Rightarrow> string list" where
  "Split s sep = (if sep = [] then map (\<lambda>c. [c]) s else genSplit sep [] s)"

fun Join :: "string list \<Rightarrow> string \<Rightarrow> string" where
  "Join [] sep = []"
| "Join [a] sep = a"
| "Join (a # b # rest) sep = a @ sep @ Join (b # rest) sep"

section \<open>Conditional steps: \<open>skipStep\<close>\<close>

text \<open>
  \<open>config.StepConfig\<close>, with the fields that \<open>runSteps\<close> and \<open>skipStep\<close> read.
\<close>

record StepConfig =
  Name :: string
  Script :: string
  Run :: string
  If :: string
  Timeout :: string

text \<open>A run-time panic of the Go program.\<close>

datatype panic = IndexOutOfRange | PanicError string

text \<open>
  The loop of \<open>skipStep\<close> over the conditions. \<open>goos\<close> is \<open>runtime.GOOS\<close>, \<open>lookupEnv\<close>
  is \<open>os.LookupEnv\<close> (\<open>None\<close>: the variable is not set). The variable \<open>skipStep\<close> of the
  source is declared before the loop and is threaded through the iterations.
  \<open>keyValue[1]\<close> on a one-element slice panics.
\<close>

fun skipStep_loop ::
  "string \<Rightarrow> (string \<Rightarrow> string option) \<Rightarrow> bool \<Rightarrow> string list \<Rightarrow> panic + bool" where
  "skipStep_loop goos lookupEnv skipStep [] = Inr False"
| "skipStep_loop goos lookupEnv skipStep (condition # conditions) =
     (let keyValue = (if Contains condition ''='' then Split condition ''='' else [condition]) in
      if keyValue ! 0 = ''os'' \<and> length keyValue < 2 then Inl IndexOutOfRange
      else
        let skipStep1 = (if keyValue ! 0 = ''os'' then keyValue ! 1 \<noteq> goos else skipStep) in
        if HasPrefix (keyValue ! 0) ''env:'' then
          (case lookupEnv (TrimPrefix (keyValue ! 0) ''env:'') of
             Some v \<Rightarrow>
               if length keyValue = 1 then skipStep_loop goos lookupEnv skipStep1 conditions
               else if keyValue ! 1 \<noteq> v then Inr True
               else skipStep_loop goos lookupEnv False conditions
           | None \<Rightarrow> Inr True)
        else if skipStep1 then Inr True
        else skipStep_loop goos lookupEnv skipStep1 conditions)"

definition skipStep ::
  "string \<Rightarrow> (string \<Rightarrow> string option) \<Rightarrow> StepConfig \<Rightarrow> panic + bool" where
  "skipStep goos lookupEnv step =
     (if If step = '''' then Inr False
      else skipStep_loop goos lookupEnv False (Split (If step) '' && ''))"

section \<open>Errors\<close>

text \<open>
  A Go \<open>error\<close> value: the status reason and the HTTP status code that package
  \<open>k8serrors\<close> reads from it (the empty string, \<open>StatusReasonUnknown\<close>, and the code 0
  for an error that is not an API status) and the text of \<open>err.Error()\<close>.
  \<open>error option\<close> is an \<open>error\<close> that may be \<open>nil\<close>.
\<close>

datatype error = Error string int string

fun ReasonForError :: "error \<Rightarrow> string" where
  "ReasonForError (Error reason code msg) = reason"

fun CodeForError :: "error \<Rightarrow> int" where
  "CodeForError (Error reason code msg) = code"

fun ErrorString :: "error \<Rightarrow> string" where
  "ErrorString (Error reason code msg) = msg"

definition errors_New :: "string \<Rightarrow> error" where
  "errors_New msg = Error [] 0 msg"

text \<open>
  \<open>k8serrors.IsAlreadyExists\<close> compares the reason. \<open>k8serrors.IsNotFound\<close> holds for
  the reason \<open>NotFound\<close> and also for a reason that the package does not know when the
  code is 404; \<open>knownReasons\<close> is the table of the reasons it knows.
\<close>

definition IsAlreadyExists :: "error \<Rightarrow> bool" where
  "IsAlreadyExists err = (ReasonForError err = ''AlreadyExists'')"

definition knownReasons :: "string list" where
  "knownReasons =
     [''Unauthorized'', ''Forbidden'', ''NotFound'', ''AlreadyExists'', ''Conflict'', ''Gone'',
      ''Invalid'', ''ServerTimeout'', ''Timeout'', ''TooManyRequests'', ''BadRequest'',
      ''MethodNotAllowed'', ''NotAcceptable'', ''RequestEntityTooLarge'',
      ''UnsupportedMediaType'', ''InternalError'', ''Expired'', ''ServiceUnavailable'']"

definition IsNotFound :: "error \<Rightarrow> bool" where
  "IsNotFound err =
     (ReasonForError err = ''NotFound''
      \<or> (ReasonForError err \<notin> set knownReasons \<and> CodeForError err = 404))"

section \<open>Run configuration and command options\<close>

text \<open>
  \<open>config.RunConfig\<close> with the fields that \<open>run.go\<close> reads. The entries of the runtime
  settings (dependencies, repositories, loggers) are only counted and marshalled, so
  they are kept as strings.
\<close>

record NamespaceConfig =
  ns_Name :: string
  Temporary :: bool
  AutoRemove :: bool

record EnvConfig =
  env_Name :: string
  env_Value :: string

record SettingsConfig =
  Dependencies :: "string list"
  Repositories :: "string list"
  Loggers :: "string list"

record CucumberConfig =
  Tags :: "string list"
  Glue :: "string list"
  Options :: string

record RuntimeConfig =
  Resources :: "string list"
  Env :: "EnvConfig list"
  Secret :: string
  Selenium_Image :: string
  TestContainers_Enabled :: bool
  Settings :: SettingsConfig
  Cucumber :: CucumberConfig

record Config =
  Namespace :: NamespaceConfig
  Recursive :: bool
  Operator_Roles :: "string list"
  Runtime :: RuntimeConfig
  cfg_Timeout :: string

record RunConfig =
  Config :: Config
  BaseDir :: string
  Pre :: "StepConfig list"
  Post :: "StepConfig list"

text \<open>
  \<open>runCmdOptions\<close>. A string-array flag that the code compares with \<open>nil\<close> is an
  optional list (\<open>None\<close> is the nil slice); the flags that are only measured with \<open>len\<close>
  are lists. \<open>o_Namespace\<close> is the \<open>Namespace\<close> of the embedded \<open>RootCmdOptions\<close>.
\<close>

record runCmdOptions =
  o_Namespace :: string
  o_Repositories :: "string list"
  o_Dependencies :: "string list"
  o_Logger :: "string list"
  o_Uploads :: "string list"
  o_Settings :: string
  o_Env :: "string list option"
  o_Tags :: "string list option"
  o_Features :: "string list option"
  o_Resources :: "string list"
  o_PropertyFiles :: "string list"
  o_Glue :: "string list option"
  o_Options :: string
  o_DumpFormat :: string
  o_ReportFormat :: string
  o_Timeout :: string
  o_Wait :: bool
  o_Logs :: bool
  o_Dev :: bool

section \<open>The Test resource\<close>

text \<open>
  Modelled from the spec: the types of package \<open>v1alpha1\<close> are not part of the sources.
  The phase is the enumeration of the data model (\<open>None\<close> is the zero value), with the
  constants that \<open>run.go\<close> names; a suite holds the per-test results that the cluster
  reports and the error strings; the status holds the phase and the results. The
  one-field structs \<open>SeleniumSpec\<close> and \<open>KubeDockSpec\<close> are kept as their \<open>Image\<close>.
\<close>

datatype TestPhase =
    TestPhaseNone | TestPhaseNew | TestPhasePending | TestPhaseRunning | TestPhasePassed
  | TestPhaseFailed | TestPhaseError | TestPhaseDeleting | TestPhaseUpdating

record TestSuite =
  Tests :: "string list"
  Errors :: "string list"

record TestResults =
  Suites :: "TestSuite list"

record TestStatus =
  Phase :: TestPhase
  Results :: TestSuite

definition TestSuite_zero :: TestSuite where
  "TestSuite_zero = \<lparr>Tests = [], Errors = []\<rparr>"

definition TestStatus_zero :: TestStatus where
  "TestStatus_zero = \<lparr>Phase = TestPhaseNone, Results = TestSuite_zero\<rparr>"

record SourceSpec =
  src_Name :: string
  src_Content :: string
  src_Language :: string

record ResourceSpec =
  res_Name :: string
  res_Content :: string

record SettingsSpec =
  set_Name :: string
  set_Content :: string

record TestSpec =
  Source :: SourceSpec
  spec_Resources :: "ResourceSpec list"
  spec_Settings :: SettingsSpec
  spec_Env :: "string list"
  spec_Secret :: string
  spec_Selenium_Image :: string
  spec_KubeDock_Image :: string
  spec_Dev :: bool

record Test =
  test_Namespace :: string
  test_Name :: string
  ResourceVersion :: string
  Spec :: TestSpec
  Status :: TestStatus

definition NamespaceEnv :: string where "NamespaceEnv = ''YAKS_NAMESPACE''"
definition RepositoriesEnv :: string where "RepositoriesEnv = ''YAKS_REPOSITORIES''"
definition DependenciesEnv :: string where "DependenciesEnv = ''YAKS_DEPENDENCIES''"
definition LoggersEnv :: string where "LoggersEnv = ''YAKS_LOGGERS''"
definition CucumberOptions :: string where "CucumberOptions = ''CUCUMBER_OPTIONS''"
definition CucumberGlue :: string where "CucumberGlue = ''CUCUMBER_GLUE''"
definition CucumberFeatures :: string where "CucumberFeatures = ''CUCUMBER_FEATURES''"
definition CucumberFilterTags :: string where "CucumberFilterTags = ''CUCUMBER_FILTER_TAGS''"
definition FileSuffix :: string where "FileSuffix = ''.feature''"
definition ConfigFile :: string where "ConfigFile = ''yaks-config.yaml''"

section \<open>\<open>setupEnvSettings\<close>\<close>

text \<open>
  The environment of the test, built by appending to \<open>env\<close> in the order of the source.
  The function always returns a \<open>nil\<close> error.
\<close>

definition setupEnvSettings :: "runCmdOptions \<Rightarrow> Test \<Rightarrow> RunConfig \<Rightarrow> error option \<times> Test" where
  "setupEnvSettings o' test runConfig =
     (let cucumber = Cucumber (Runtime (Config runConfig));
          env = [NamespaceEnv @ ''='' @ ns_Name (Namespace (Config runConfig))];
          env = env @ (case o_Tags o' of
                         Some tags \<Rightarrow> [CucumberFilterTags @ ''='' @ Join tags '','']
                       | None \<Rightarrow>
                           if length (Tags cucumber) > 0
                           then [CucumberFilterTags @ ''='' @ Join (Tags cucumber) '','']
                           else []);
          env = env @ (case o_Features o' of
                         Some features \<Rightarrow> [CucumberFeatures @ ''='' @ Join features '','']
                       | None \<Rightarrow> []);
          env = env @ (case o_Glue o' of
                         Some glue \<Rightarrow> [CucumberGlue @ ''='' @ Join glue '','']
                       | None \<Rightarrow>
                           if length (Glue cucumber) > 0
                           then [CucumberGlue @ ''='' @ Join (Glue cucumber) '','']
                           else []);
          env = env @ (if length (o_Options o') > 0 then [CucumberOptions @ ''='' @ o_Options o']
                       else if length (Options cucumber) > 0
                       then [CucumberOptions @ ''='' @ Options cucumber]
                       else []);
          env = env @ (if length (o_Repositories o') > 0
                       then [RepositoriesEnv @ ''='' @ Join (o_Repositories o') '','']
                       else []);
          env = env @ (if length (o_Dependencies o') > 0
                       then [DependenciesEnv @ ''='' @ Join (o_Dependencies o') '','']
                       else []);
          env = env @ (if length (o_Logger o') > 0
                       then [LoggersEnv @ ''='' @ Join (o_Logger o') '','']
                       else []);
          env = env @ map (\<lambda>envConfig. env_Name envConfig @ ''='' @ env_Value envConfig)
                        (Env (Runtime (Config runConfig)));
          env = env @ (case o_Env o' of Some cli \<Rightarrow> cli | None \<Rightarrow> [])
      in (None, if length env > 0 then test\<lparr>Spec := (Spec test)\<lparr>spec_Env := env\<rparr>\<rparr> else test))"

section \<open>The world outside the program\<close>

text \<open>
  The program acts on a cluster, a file system and its standard output. The state of
  the cluster and of the file system is a value of an arbitrary type \<open>'x\<close>, changed only
  by the operations below; next to it the world records, in order, the calls that the
  program issues for Test resources, the namespaces it deletes, the scripts it runs and
  the text it prints. \<open>PrintLater\<close> is a text that a goroutine still running has yet to
  print when its caller goes on without waiting for it: the text is printed at some
  later moment that nothing in the program fixes, if the process lives until then.
\<close>

datatype event =
    ClientCreate Test
  | ClientGet string string
  | ClientUpdate Test
  | ClientStatusUpdate Test
  | DeleteTempNamespace string
  | RunScript string string string string string
  | PrintErr string
  | Print string
  | PrintLater string

record 'x world =
  ext :: 'x
  trace :: "event list"

definition emit :: "event \<Rightarrow> 'x world \<Rightarrow> 'x world" where
  "emit e w = w\<lparr>trace := trace w @ [e]\<rparr>"

definition Println :: "string \<Rightarrow> 'x world \<Rightarrow> 'x world" where
  "Println line w = emit (Print (line @ [CHR 0x0A])) w"

definition quoted :: "string \<Rightarrow> string" where
  "quoted name = [CHR 0x27] @ name @ [CHR 0x27]"

text \<open>
  Functions of this repository and of libraries that \<open>run.go\<close> calls and that are not
  part of the sources; they are parameters of the model. \<open>ParseDuration\<close> is
  \<open>time.ParseDuration\<close> (a duration is a number of nanoseconds), \<open>AsError\<close> is the method
  of \<open>TestPhase\<close>, \<open>DefaultTimeout\<close> the constant of package \<open>config\<close>. \<open>Errorf\<close> is
  \<open>fmt.Errorf\<close> called with a format and no operand: the error whose text is the format
  with every verb in it written as a missing operand.
\<close>

record Helpers =
  SanitizeFileName :: "string \<Rightarrow> string"
  SanitizeName :: "string \<Rightarrow> string"
  resolvePath :: "RunConfig \<Rightarrow> string \<Rightarrow> string"
  path_Base :: "string \<Rightarrow> string"
  yaml_Marshal :: "SettingsConfig \<Rightarrow> error + string"
  ToYAML :: "Test \<Rightarrow> error + string"
  ToJSON :: "Test \<Rightarrow> error + string"
  LanguageGherkin :: string
  DefaultTimeout :: string
  ParseDuration :: "string \<Rightarrow> error + int"
  AsError :: "TestPhase \<Rightarrow> string \<Rightarrow> error option"
  Errorf :: "string \<Rightarrow> error"

text \<open>
  What the program reaches while one test is submitted. \<open>loadData\<close> reads a file or a
  URL. The four client operations act on a Test resource, return the error and the
  object as the call leaves it (the client writes the server's answer into the object
  it is given). \<open>logPrint\<close> is \<open>k8slog.Print\<close>. \<open>polls\<close> gives the objects that the
  polling of \<open>kubernetes.WaitCondition\<close> reads within the time bound, up to the moment
  the caller reads the status (all of them when the caller waits). \<open>routeWait\<close> is the
  wait point of the development mode: \<open>None\<close> when the context is never cancelled.
  \<open>ahead\<close> is the choice of the scheduler for the watcher goroutine, which runs beside
  its caller: the number of its steps (the choice of the timeout, then the polling) that
  are made before the caller goes on to the statement after the \<open>go\<close> statement.
\<close>

record 'x Cluster =
  loadData :: "string \<Rightarrow> 'x \<Rightarrow> error + string"
  c_Create :: "Test \<Rightarrow> 'x \<Rightarrow> (error option \<times> Test) \<times> 'x"
  c_Get :: "string \<Rightarrow> string \<Rightarrow> Test \<Rightarrow> 'x \<Rightarrow> (error option \<times> Test) \<times> 'x"
  c_Update :: "Test \<Rightarrow> 'x \<Rightarrow> (error option \<times> Test) \<times> 'x"
  c_StatusUpdate :: "Test \<Rightarrow> 'x \<Rightarrow> (error option \<times> Test) \<times> 'x"
  logPrint :: "string \<Rightarrow> string \<Rightarrow> 'x \<Rightarrow> error option \<times> 'x"
  polls :: "Test \<Rightarrow> int \<Rightarrow> bool \<Rightarrow> 'x \<Rightarrow> Test list \<times> 'x"
  routeWait :: "Test \<Rightarrow> 'x \<Rightarrow> 'x option"
  ahead :: "Test \<Rightarrow> 'x \<Rightarrow> nat"

text \<open>The client calls, each recorded in the trace before it acts on the cluster.\<close>

definition call_Create :: "'x Cluster \<Rightarrow> Test \<Rightarrow> 'x world \<Rightarrow> (error option \<times> Test) \<times> 'x world" where
  "call_Create c test w =
     (case c_Create c test (ext w) of
        (r, x) \<Rightarrow> (r, (emit (ClientCreate test) w)\<lparr>ext := x\<rparr>))"

definition call_Get ::
  "'x Cluster \<Rightarrow> string \<Rightarrow> string \<Rightarrow> Test \<Rightarrow> 'x world \<Rightarrow> (error option \<times> Test) \<times> 'x world" where
  "call_Get c namespace name obj w =
     (case c_Get c namespace name obj (ext w) of
        (r, x) \<Rightarrow> (r, (emit (ClientGet namespace name) w)\<lparr>ext := x\<rparr>))"

definition call_Update :: "'x Cluster \<Rightarrow> Test \<Rightarrow> 'x world \<Rightarrow> (error option \<times> Test) \<times> 'x world" where
  "call_Update c test w =
     (case c_Update c test (ext w) of
        (r, x) \<Rightarrow> (r, (emit (ClientUpdate test) w)\<lparr>ext := x\<rparr>))"

definition call_StatusUpdate ::
  "'x Cluster \<Rightarrow> Test \<Rightarrow> 'x world \<Rightarrow> (error option \<times> Test) \<times> 'x world" where
  "call_StatusUpdate c test w =
     (case c_StatusUpdate c test (ext w) of
        (r, x) \<Rightarrow> (r, (emit (ClientStatusUpdate test) w)\<lparr>ext := x\<rparr>))"

section \<open>\<open>createAndRunTest\<close>: building the resource\<close>

text \<open>
  The three loops over resource names: each name is resolved and loaded, the first
  failure is returned, otherwise a \<open>ResourceSpec\<close> is appended.
\<close>

fun loadResources ::
  "Helpers \<Rightarrow> 'x Cluster \<Rightarrow> RunConfig \<Rightarrow> 'x \<Rightarrow> string list \<Rightarrow> ResourceSpec list
     \<Rightarrow> error + ResourceSpec list" where
  "loadResources h c runConfig x [] resources = Inr resources"
| "loadResources h c runConfig x (resource # rest) resources =
     (case loadData c (resolvePath h runConfig resource) x of
        Inl err \<Rightarrow> Inl err
      | Inr data \<Rightarrow>
          loadResources h c runConfig x rest
            (resources @ [\<lparr>res_Name = path_Base h resource, res_Content = data\<rparr>]))"

definition newSettings ::
  "Helpers \<Rightarrow> 'x Cluster \<Rightarrow> runCmdOptions \<Rightarrow> RunConfig \<Rightarrow> 'x \<Rightarrow> error + SettingsSpec option" where
  "newSettings h c o' runConfig x =
     (if o_Settings o' \<noteq> [] then
        (let rawName = o_Settings o' in
         case loadData c (resolvePath h runConfig rawName) x of
           Inl err \<Rightarrow> Inl err
         | Inr configData \<Rightarrow>
             Inr (Some \<lparr>set_Name = SanitizeFileName h rawName, set_Content = configData\<rparr>))
      else if length (Dependencies (Settings (Runtime (Config runConfig)))) > 0
            \<or> length (Repositories (Settings (Runtime (Config runConfig)))) > 0
            \<or> length (Loggers (Settings (Runtime (Config runConfig)))) > 0 then
        (case yaml_Marshal h (Settings (Runtime (Config runConfig))) of
           Inl err \<Rightarrow> Inl err
         | Inr configData \<Rightarrow>
             Inr (Some \<lparr>set_Name = ''yaks.settings.yaml'', set_Content = configData\<rparr>))
      else Inr None)"

text \<open>
  Lines 408 to 503 of \<open>createAndRunTest\<close>: the Test resource is built from the source,
  the resources, the settings and the environment. Nothing is written and no client
  call is made; the files are read in the state \<open>x\<close>.
\<close>

definition createAndRunTest_build ::
  "Helpers \<Rightarrow> 'x Cluster \<Rightarrow> runCmdOptions \<Rightarrow> string \<Rightarrow> RunConfig \<Rightarrow> 'x \<Rightarrow> error + Test" where
  "createAndRunTest_build h c o' rawName runConfig x =
     (let namespace = ns_Name (Namespace (Config runConfig));
          fileName = SanitizeFileName h rawName;
          name = SanitizeName h rawName
      in
      if name = [] then Inl (errors_New ''unable to determine test name'')
      else
        case loadData c rawName x of
          Inl err \<Rightarrow> Inl err
        | Inr data \<Rightarrow>
            (let test = \<lparr>test_Namespace = namespace, test_Name = name, ResourceVersion = [],
                         Spec = \<lparr>Source = \<lparr>src_Name = fileName, src_Content = data,
                                            src_Language = LanguageGherkin h\<rparr>,
                                 spec_Resources = [],
                                 spec_Settings = \<lparr>set_Name = [], set_Content = []\<rparr>,
                                 spec_Env = [], spec_Secret = [], spec_Selenium_Image = [],
                                 spec_KubeDock_Image = [], spec_Dev = False\<rparr>,
                         Status = TestStatus_zero\<rparr>;
                 test = (if o_Dev o' then test\<lparr>Spec := (Spec test)\<lparr>spec_Dev := True\<rparr>\<rparr> else test)
             in
             case loadResources h c runConfig x (Resources (Runtime (Config runConfig)))
                    (spec_Resources (Spec test)) of
               Inl err \<Rightarrow> Inl err
             | Inr resources1 \<Rightarrow>
             case loadResources h c runConfig x (o_Resources o') resources1 of
               Inl err \<Rightarrow> Inl err
             | Inr resources2 \<Rightarrow>
             case loadResources h c runConfig x (o_PropertyFiles o') resources2 of
               Inl err \<Rightarrow> Inl err
             | Inr resources3 \<Rightarrow>
             (let test = test\<lparr>Spec := (Spec test)\<lparr>spec_Resources := resources3\<rparr>\<rparr> in
              case newSettings h c o' runConfig x of
                Inl err \<Rightarrow> Inl err
              | Inr settings \<Rightarrow>
              (let test = (case settings of
                             Some st \<Rightarrow> test\<lparr>Spec := (Spec test)\<lparr>spec_Settings := st\<rparr>\<rparr>
                           | None \<Rightarrow> test)
               in
               case setupEnvSettings o' test runConfig of
                 (Some err, test) \<Rightarrow> Inl err
               | (None, test) \<Rightarrow>
               (let test = (if Secret (Runtime (Config runConfig)) \<noteq> []
                            then test\<lparr>Spec := (Spec test)
                                   \<lparr>spec_Secret := Secret (Runtime (Config runConfig))\<rparr>\<rparr>
                            else test);
                    test = (if Selenium_Image (Runtime (Config runConfig)) \<noteq> []
                            then test\<lparr>Spec := (Spec test)
                                   \<lparr>spec_Selenium_Image :=
                                      Selenium_Image (Runtime (Config runConfig))\<rparr>\<rparr>
                            else test);
                    test = (if TestContainers_Enabled (Runtime (Config runConfig))
                            then test\<lparr>Spec := (Spec test)
                                   \<lparr>spec_KubeDock_Image := ''joyrex2001/kubedock:0.7.0''\<rparr>\<rparr>
                            else test)
                in Inr test)))))"

section \<open>\<open>createAndRunTest\<close>: dump, create or update, wait\<close>

text \<open>
  The result of \<open>createAndRunTest\<close>: the pointer to the Test (\<open>None\<close> for \<open>nil\<close>) and the
  error (\<open>None\<close> for \<open>nil\<close>).
\<close>

type_synonym outcome = "Test option \<times> error option"

text \<open>
  Lines 505 to 526, for a dump format that is not empty: the resource is serialized and
  printed, or the format is rejected.
\<close>

definition createAndRunTest_dump ::
  "Helpers \<Rightarrow> runCmdOptions \<Rightarrow> Test \<Rightarrow> 'x world \<Rightarrow> outcome \<times> 'x world" where
  "createAndRunTest_dump h o' test w =
     (if o_DumpFormat o' = ''yaml'' then
        (case ToYAML h test of
           Inl err \<Rightarrow> ((None, Some err), w)
         | Inr data \<Rightarrow> ((None, None), emit (Print data) w))
      else if o_DumpFormat o' = ''json'' then
        (case ToJSON h test of
           Inl err \<Rightarrow> ((None, Some err), w)
         | Inr data \<Rightarrow> ((None, None), emit (Print data) w))
      else
        ((None, Some (errors_New (''invalid dump output format option '' @ quoted (o_DumpFormat o')
                                   @ '', should be one of: yaml|json''))), w))"

text \<open>
  Lines 528 to 558: create, and on \<open>already exists\<close> get, hold, update and reset. The
  result is the error, or the Test as the calls left it with the flag \<open>existed\<close>.
  \<open>clone\<close> is the deep copy of \<open>test\<close> that \<open>Get\<close> and the first status update write to.
\<close>

definition createAndRunTest_apply ::
  "'x Cluster \<Rightarrow> Test \<Rightarrow> 'x world \<Rightarrow> (error + Test \<times> bool) \<times> 'x world" where
  "createAndRunTest_apply c test0 w0 =
     (case call_Create c test0 w0 of
        ((None, test), w) \<Rightarrow> (Inr (test, False), w)
      | ((Some err, test), w) \<Rightarrow>
          if IsAlreadyExists err then
            (let clone = test in
             case call_Get c (test_Namespace clone) (test_Name clone) clone w of
               ((Some err, clone), w) \<Rightarrow> (Inl err, w)
             | ((None, clone), w) \<Rightarrow>
             (let clone = clone\<lparr>Status := (Status clone)\<lparr>Phase := TestPhaseUpdating\<rparr>\<rparr> in
              case call_StatusUpdate c clone w of
                ((Some err, clone), w) \<Rightarrow> (Inl err, w)
              | ((None, clone), w) \<Rightarrow>
              (let test = test\<lparr>ResourceVersion := ResourceVersion clone\<rparr> in
               case call_Update c test w of
                 ((Some err, test), w) \<Rightarrow> (Inl err, w)
               | ((None, test), w) \<Rightarrow>
               (let test = test\<lparr>Status := TestStatus_zero\<rparr> in
                case call_StatusUpdate c test w of
                  ((Some err, test), w) \<Rightarrow> (Inl err, w)
                | ((None, test), w) \<Rightarrow> (Inr (test, True), w)))))
          else (Inl err, w))"

text \<open>The text of a phase, \<open>string(status)\<close>.\<close>

fun TestPhase_string :: "TestPhase \<Rightarrow> string" where
  "TestPhase_string TestPhaseNone = []"
| "TestPhase_string TestPhaseNew = ''New''"
| "TestPhase_string TestPhasePending = ''Pending''"
| "TestPhase_string TestPhaseRunning = ''Running''"
| "TestPhase_string TestPhasePassed = ''Passed''"
| "TestPhase_string TestPhaseFailed = ''Failed''"
| "TestPhase_string TestPhaseError = ''Error''"
| "TestPhase_string TestPhaseDeleting = ''Deleting''"
| "TestPhase_string TestPhaseUpdating = ''Updating''"

text \<open>
  Lines 602 to 615: the timeout that the watcher uses. The result is the duration and
  the line that is printed when the chosen text does not parse.
\<close>

definition chooseTimeout :: "Helpers \<Rightarrow> runCmdOptions \<Rightarrow> RunConfig \<Rightarrow> string" where
  "chooseTimeout h o' runConfig =
     (if o_Timeout o' \<noteq> [] then o_Timeout o'
      else if cfg_Timeout (Config runConfig) \<noteq> [] then cfg_Timeout (Config runConfig)
      else DefaultTimeout h)"

definition waitTimeout :: "Helpers \<Rightarrow> runCmdOptions \<Rightarrow> RunConfig \<Rightarrow> int \<times> string option" where
  "waitTimeout h o' runConfig =
     (case ParseDuration h (chooseTimeout h o' runConfig) of
        Inr d \<Rightarrow> (d, None)
      | Inl parseErr \<Rightarrow>
          (case ParseDuration h (DefaultTimeout h) of Inr d \<Rightarrow> d | Inl _ \<Rightarrow> 0,
           Some (''Failed to parse test timeout setting - '' @ ErrorString parseErr)))"

text \<open>
  Lines 617 to 631: the condition that the watcher passes to \<open>WaitCondition\<close>. The
  variable \<open>status\<close> that the closure writes is its second argument and result.
\<close>

datatype obj = TestObj Test | OtherObj

definition phaseCondition :: "obj \<Rightarrow> TestPhase \<Rightarrow> bool \<times> TestPhase" where
  "phaseCondition obj status =
     (case obj of
        TestObj val \<Rightarrow>
          (let status = (if Phase (Status val) \<noteq> TestPhaseNone then Phase (Status val) else status)
           in if Phase (Status val) = TestPhaseDeleting \<or> Phase (Status val) = TestPhaseError
                 \<or> Phase (Status val) = TestPhasePassed \<or> Phase (Status val) = TestPhaseFailed
              then (True, status) else (False, status))
      | OtherObj \<Rightarrow> (False, status))"

text \<open>
  Modelled from the spec: \<open>kubernetes.WaitCondition\<close> is not part of the sources. By
  section 4.5 it polls the resource until the condition predicate holds or the time
  bound is reached. Each poll reads the resource into the object it was given and applies
  the condition to it; \<open>polled\<close> are the reads that the time bound allows.
\<close>

fun WaitCondition ::
  "(obj \<Rightarrow> 's \<Rightarrow> bool \<times> 's) \<Rightarrow> Test list \<Rightarrow> Test \<Rightarrow> 's \<Rightarrow> Test \<times> 's" where
  "WaitCondition condition [] obj s = (obj, s)"
| "WaitCondition condition (polled # rest) obj s =
     (case condition (TestObj polled) s of
        (satisfied, s') \<Rightarrow>
          if satisfied then (polled, s') else WaitCondition condition rest polled s')"

text \<open>
  Lines 601 to 634, the watcher. It is a goroutine that chooses its timeout (lines 602
  to 615, printing a line when the text does not parse), polls the resource with the
  condition (lines 617 to 631) and cancels the context. Its progress is: started, the
  timeout chosen, or finished, with the Test as the last poll left it and the status
  that the condition wrote. A step of the watcher that has finished changes nothing.
\<close>

datatype watcher = WatcherStarted | TimeoutChosen int | Polled Test TestPhase

fun watcher_step ::
  "Helpers \<Rightarrow> 'x Cluster \<Rightarrow> runCmdOptions \<Rightarrow> RunConfig \<Rightarrow> Test \<Rightarrow> watcher \<Rightarrow> 'x world
     \<Rightarrow> watcher \<times> 'x world" where
  "watcher_step h c o' runConfig test WatcherStarted w =
     (case waitTimeout h o' runConfig of
        (timeout, Some line) \<Rightarrow> (TimeoutChosen timeout, Println line w)
      | (timeout, None) \<Rightarrow> (TimeoutChosen timeout, w))"
| "watcher_step h c o' runConfig test (TimeoutChosen timeout) w =
     (case polls c test timeout (o_Wait o') (ext w) of
        (polled, x) \<Rightarrow>
          (case WaitCondition phaseCondition polled test TestPhaseNew of
             (test, status) \<Rightarrow> (Polled test status, w\<lparr>ext := x\<rparr>)))"
| "watcher_step h c o' runConfig test (Polled val status) w = (Polled val status, w)"

fun watcher_steps ::
  "Helpers \<Rightarrow> 'x Cluster \<Rightarrow> runCmdOptions \<Rightarrow> RunConfig \<Rightarrow> Test \<Rightarrow> nat \<Rightarrow> watcher \<Rightarrow> 'x world
     \<Rightarrow> watcher \<times> 'x world" where
  "watcher_steps h c o' runConfig test 0 ws w = (ws, w)"
| "watcher_steps h c o' runConfig test (Suc n) ws w =
     (case watcher_step h c o' runConfig test ws w of
        (ws, w) \<Rightarrow> watcher_steps h c o' runConfig test n ws w)"

text \<open>
  What the caller reads of the variables that it shares with the watcher: \<open>status\<close>,
  which is \<open>New\<close> until the condition writes it, and \<open>test\<close>, which the polls write. When
  the caller goes on for good before the watcher has chosen its timeout, the line about
  a text that does not parse is still to be printed.
\<close>

fun watcher_status :: "watcher \<Rightarrow> TestPhase" where
  "watcher_status (Polled val status) = status"
| "watcher_status ws = TestPhaseNew"

fun watcher_test :: "Test \<Rightarrow> watcher \<Rightarrow> Test" where
  "watcher_test test (Polled val status) = val"
| "watcher_test test ws = test"

fun watcher_later ::
  "Helpers \<Rightarrow> runCmdOptions \<Rightarrow> RunConfig \<Rightarrow> watcher \<Rightarrow> 'x world \<Rightarrow> 'x world" where
  "watcher_later h o' runConfig WatcherStarted w =
     (case snd (waitTimeout h o' runConfig) of
        Some line \<Rightarrow> emit (PrintLater (line @ [CHR 0x0A])) w
      | None \<Rightarrow> w)"
| "watcher_later h o' runConfig ws w = w"

text \<open>
  Lines 566 to 652. The watcher is started, and makes as many steps as the scheduler
  gives it before the caller goes on. The caller starts the log printer when logs and
  wait are set and returns its error. When it waits, it blocks until the watcher has
  cancelled the context, so the watcher makes its remaining steps first; the caller
  then prints the final line and returns the Test with \<open>status.AsError(name)\<close>. When it
  does not wait, it prints and returns with what the watcher has written so far. In
  development mode the route is polled instead and the status stays \<open>New\<close>; when the
  caller waits it returns only if the context is cancelled. \<open>name\<close> is the sanitized
  name of the source.
\<close>

definition createAndRunTest_wait ::
  "Helpers \<Rightarrow> 'x Cluster \<Rightarrow> runCmdOptions \<Rightarrow> RunConfig \<Rightarrow> string \<Rightarrow> Test \<Rightarrow> 'x world
     \<Rightarrow> (outcome \<times> 'x world) option" where
  "createAndRunTest_wait h c o' runConfig name test w =
     (let namespace = ns_Name (Namespace (Config runConfig)) in
      if o_Dev o' then
        (case (if o_Logs o' \<and> o_Wait o' then logPrint c namespace name (ext w)
               else (None, ext w)) of
           (Some err, x) \<Rightarrow> Some ((None, Some err), w\<lparr>ext := x\<rparr>)
         | (None, x) \<Rightarrow>
             if o_Wait o' then
               (case routeWait c test x of
                  None \<Rightarrow> None
                | Some x' \<Rightarrow>
                    Some ((Some test, AsError h TestPhaseNew name),
                          Println (''Test '' @ quoted name @ '' finished with status: ''
                                   @ TestPhase_string TestPhaseNew) (w\<lparr>ext := x'\<rparr>)))
             else
               Some ((Some test, AsError h TestPhaseNew name),
                     Println (''Test '' @ quoted name @ '' started'') (w\<lparr>ext := x\<rparr>)))
      else
        (case watcher_steps h c o' runConfig test (ahead c test (ext w)) WatcherStarted w of
           (ws, w) \<Rightarrow>
             (case (if o_Logs o' \<and> o_Wait o' then logPrint c namespace name (ext w)
                    else (None, ext w)) of
                (Some err, x) \<Rightarrow>
                  Some ((None, Some err), watcher_later h o' runConfig ws (w\<lparr>ext := x\<rparr>))
              | (None, x) \<Rightarrow>
                  if o_Wait o' then
                    (case watcher_steps h c o' runConfig test 2 ws (w\<lparr>ext := x\<rparr>) of
                       (ws, w) \<Rightarrow>
                         Some ((Some (watcher_test test ws),
                                AsError h (watcher_status ws) name),
                               Println (''Test '' @ quoted name @ '' finished with status: ''
                                        @ TestPhase_string (watcher_status ws)) w))
                  else
                    Some ((Some (watcher_test test ws), AsError h (watcher_status ws) name),
                          watcher_later h o' runConfig ws
                            (Println (''Test '' @ quoted name @ '' started'')
                               (w\<lparr>ext := x\<rparr>))))))"

text \<open>The whole of \<open>createAndRunTest\<close>. \<open>None\<close>: the call does not return.\<close>

definition createAndRunTest ::
  "Helpers \<Rightarrow> 'x Cluster \<Rightarrow> runCmdOptions \<Rightarrow> string \<Rightarrow> RunConfig \<Rightarrow> 'x world
     \<Rightarrow> (outcome \<times> 'x world) option" where
  "createAndRunTest h c o' rawName runConfig w =
     (case createAndRunTest_build h c o' rawName runConfig (ext w) of
        Inl err \<Rightarrow> Some ((None, Some err), w)
      | Inr test \<Rightarrow>
          if o_DumpFormat o' \<noteq> [] then Some (createAndRunTest_dump h o' test w)
          else
            (case createAndRunTest_apply c test w of
               (Inl err, w) \<Rightarrow> Some ((None, Some err), w)
             | (Inr (test, existed), w) \<Rightarrow>
                 createAndRunTest_wait h c o' runConfig (SanitizeName h rawName) test
                   (Println (''Test '' @ quoted (SanitizeName h rawName)
                             @ (if existed then '' updated'' else '' created'')) w)))"

section \<open>A reference API server and example inputs\<close>

text \<open>
  An API server for Test resources with the behaviour of the Kubernetes API: objects are
  stored under (namespace, name); \<open>Create\<close> refuses an existing key with the reason
  \<open>AlreadyExists\<close>; \<open>Update\<close> and the status update need the stored resource version,
  write the spec or the status only, and give the object a new version; every call
  returns the stored object. It instantiates the parameters in the examples.
\<close>

type_synonym store = "string \<times> string \<Rightarrow> Test option"

definition next_version :: "string \<Rightarrow> string" where
  "next_version rv = CHR ''1'' # rv"

definition api_Create :: "Test \<Rightarrow> store \<Rightarrow> (error option \<times> Test) \<times> store" where
  "api_Create t s =
     (case s (test_Namespace t, test_Name t) of
        Some cur \<Rightarrow> ((Some (Error ''AlreadyExists'' 409 ''already exists''), t), s)
      | None \<Rightarrow>
          (let t' = t\<lparr>ResourceVersion := ''1''\<rparr>
           in ((None, t'), s((test_Namespace t, test_Name t) \<mapsto> t'))))"

definition api_Get :: "string \<Rightarrow> string \<Rightarrow> Test \<Rightarrow> store \<Rightarrow> (error option \<times> Test) \<times> store" where
  "api_Get namespace name obj s =
     (case s (namespace, name) of
        Some cur \<Rightarrow> ((None, cur), s)
      | None \<Rightarrow> ((Some (Error ''NotFound'' 404 ''not found''), obj), s))"

definition api_Update :: "Test \<Rightarrow> store \<Rightarrow> (error option \<times> Test) \<times> store" where
  "api_Update t s =
     (case s (test_Namespace t, test_Name t) of
        None \<Rightarrow> ((Some (Error ''NotFound'' 404 ''not found''), t), s)
      | Some cur \<Rightarrow>
          if ResourceVersion t \<noteq> ResourceVersion cur
          then ((Some (Error ''Conflict'' 409 ''the object has been modified''), t), s)
          else
            (let t' = t\<lparr>Status := Status cur,
                         ResourceVersion := next_version (ResourceVersion cur)\<rparr>
             in ((None, t'), s((test_Namespace t, test_Name t) \<mapsto> t'))))"

definition api_StatusUpdate :: "Test \<Rightarrow> store \<Rightarrow> (error option \<times> Test) \<times> store" where
  "api_StatusUpdate t s =
     (case s (test_Namespace t, test_Name t) of
        None \<Rightarrow> ((Some (Error ''NotFound'' 404 ''not found''), t), s)
      | Some cur \<Rightarrow>
          if ResourceVersion t \<noteq> ResourceVersion cur
          then ((Some (Error ''Conflict'' 409 ''the object has been modified''), t), s)
          else
            (let t' = cur\<lparr>Status := Status t,
                           ResourceVersion := next_version (ResourceVersion cur)\<rparr>
             in ((None, t'), s((test_Namespace t, test_Name t) \<mapsto> t'))))"

text \<open>
  The example cluster: every file but \<open>missing.feature\<close> can be read, the log printer
  starts, the polls see the test running and then passed, and the watcher has chosen
  its timeout when its caller goes on.
\<close>

definition api_Cluster :: "store Cluster" where
  "api_Cluster =
     \<lparr>loadData = (\<lambda>path s. if path = ''missing.feature''
                             then Inl (errors_New ''no such file'')
                             else Inr ''Feature: example''),
      c_Create = api_Create,
      c_Get = api_Get,
      c_Update = api_Update,
      c_StatusUpdate = api_StatusUpdate,
      logPrint = (\<lambda>namespace name s. (None, s)),
      polls = (\<lambda>t timeout wait s.
                 ([t\<lparr>Status := (Status t)\<lparr>Phase := TestPhaseRunning\<rparr>\<rparr>,
                   t\<lparr>Status := (Status t)\<lparr>Phase := TestPhasePassed\<rparr>\<rparr>], s)),
      routeWait = (\<lambda>t s. Some s),
      ahead = (\<lambda>t s. 1)\<rparr>"

definition example_Helpers :: Helpers where
  "example_Helpers =
     \<lparr>SanitizeFileName = filter (\<lambda>ch. ch \<noteq> CHR ''/''),
      SanitizeName = filter (\<lambda>ch. ch \<noteq> CHR ''/'' \<and> ch \<noteq> CHR ''.''),
      resolvePath = (\<lambda>runConfig path. path),
      path_Base = (\<lambda>path. path),
      yaml_Marshal = (\<lambda>settings. Inr ''settings''),
      ToYAML = (\<lambda>t. Inr (''kind: Test name: '' @ test_Name t)),
      ToJSON = (\<lambda>t. Inr (''{kind: Test, name: '' @ test_Name t @ ''}'')),
      LanguageGherkin = ''feature'',
      DefaultTimeout = ''30m'',
      ParseDuration = (\<lambda>text. if text = ''30m'' then Inr 1800000000000
                              else if text = ''5s'' then Inr 5000000000
                              else Inl (errors_New (''time: invalid duration '' @ text))),
      AsError = (\<lambda>phase name.
                   if phase = TestPhaseFailed \<or> phase = TestPhaseError
                   then Some (errors_New (''Test '' @ name @ '' failed''))
                   else None),
      Errorf = errors_New\<rparr>"

definition example_options :: runCmdOptions where
  "example_options =
     \<lparr>o_Namespace = ''default'', o_Repositories = [], o_Dependencies = [], o_Logger = [],
      o_Uploads = [], o_Settings = [], o_Env = Some [''FOO=cli''], o_Tags = None,
      o_Features = None, o_Resources = [], o_PropertyFiles = [], o_Glue = None,
      o_Options = [], o_DumpFormat = [], o_ReportFormat = ''junit'', o_Timeout = [],
      o_Wait = True, o_Logs = True, o_Dev = False\<rparr>"

definition example_RunConfig :: RunConfig where
  "example_RunConfig =
     \<lparr>Config =
        \<lparr>Namespace = \<lparr>ns_Name = ''tests'', Temporary = False, AutoRemove = False\<rparr>,
         Recursive = False,
         Operator_Roles = [],
         Runtime = \<lparr>Resources = [], Env = [\<lparr>env_Name = ''FOO'', env_Value = ''config''\<rparr>],
                    Secret = [], Selenium_Image = [], TestContainers_Enabled = False,
                    Settings = \<lparr>Dependencies = [], Repositories = [], Loggers = []\<rparr>,
                    Cucumber = \<lparr>Tags = [], Glue = [], Options = []\<rparr>\<rparr>,
         cfg_Timeout = []\<rparr>,
      BaseDir = ''.'', Pre = [], Post = []\<rparr>"

definition example_Test :: Test where
  "example_Test =
     \<lparr>test_Namespace = ''tests'', test_Name = ''afeature'', ResourceVersion = [],
      Spec = \<lparr>Source = \<lparr>src_Name = ''a.feature'', src_Content = ''Feature: example'',
                         src_Language = ''feature''\<rparr>,
              spec_Resources = [], spec_Settings = \<lparr>set_Name = [], set_Content = []\<rparr>,
              spec_Env = [''YAKS_NAMESPACE=tests'', ''FOO=config'', ''FOO=cli''],
              spec_Secret = [], spec_Selenium_Image = [], spec_KubeDock_Image = [],
              spec_Dev = False\<rparr>,
      Status = TestStatus_zero\<rparr>"

section \<open>The tracked status, in the words of the specification\<close>

text \<open>
  The terminal phases, the last phase other than \<open>None\<close> in a list of observed phases
  (\<open>status\<close> when there is none), and the polls that the watcher observes: those up to
  and including the first one in a terminal phase.
\<close>

definition spec_terminal :: "TestPhase \<Rightarrow> bool" where
  "spec_terminal phase =
     (phase \<in> {TestPhaseDeleting, TestPhaseError, TestPhasePassed, TestPhaseFailed})"

definition spec_lastPhase :: "TestPhase \<Rightarrow> TestPhase list \<Rightarrow> TestPhase" where
  "spec_lastPhase status phases =
     (case filter (\<lambda>phase. phase \<noteq> TestPhaseNone) phases of
        [] \<Rightarrow> status
      | seen \<Rightarrow> last seen)"

fun spec_observed :: "Test list \<Rightarrow> Test list" where
  "spec_observed [] = []"
| "spec_observed (polled # rest) =
     (if spec_terminal (Phase (Status polled)) then [polled] else polled # spec_observed rest)"

section \<open>Steps: \<open>runScript\<close> and \<open>runSteps\<close>\<close>

text \<open>
  The operating system as the steps see it: \<open>runtime.GOOS\<close> and \<open>GOARCH\<close>, the
  environment, \<open>ioutil.TempFile\<close> for the script of an inline command, the filling of
  that file (the two writes, \<open>Close\<close> and \<open>Chmod\<close>, the first failure returned), its
  removal, and \<open>command.Run\<close> of the executor on a script with the namespace in the
  environment, the working directory and the time bound.
\<close>

record 'x Steps =
  GOOS :: string
  GOARCH :: string
  LookupEnv :: "'x \<Rightarrow> string \<Rightarrow> string option"
  TempFile :: "'x \<Rightarrow> (error + string) \<times> 'x"
  writeScript :: "string \<Rightarrow> string \<Rightarrow> 'x \<Rightarrow> error option \<times> 'x"
  removeFile :: "string \<Rightarrow> 'x \<Rightarrow> 'x"
  commandRun :: "string \<Rightarrow> string \<Rightarrow> string \<Rightarrow> string \<Rightarrow> int \<Rightarrow> 'x \<Rightarrow> error option \<times> 'x"

text \<open>\<open>strings.ReplaceAll\<close> for a pattern that is not empty.\<close>

definition ReplaceAll :: "string \<Rightarrow> string \<Rightarrow> string \<Rightarrow> string" where
  "ReplaceAll s old new = (if old = [] then s else Join (Split s old) new)"

definition resolve :: "'x Steps \<Rightarrow> string \<Rightarrow> string" where
  "resolve st fileName =
     (let resolved = ReplaceAll fileName ''{{os.type}}'' (GOOS st);
          resolved = ReplaceAll resolved ''{{os.arch}}'' (GOARCH st)
      in resolved)"

definition runScript ::
  "Helpers \<Rightarrow> 'x Steps \<Rightarrow> string \<Rightarrow> string \<Rightarrow> string \<Rightarrow> string \<Rightarrow> string \<Rightarrow> 'x world
     \<Rightarrow> error option \<times> 'x world" where
  "runScript h st scriptFile desc namespace baseDir timeout w =
     (let timeout = (if timeout = [] then DefaultTimeout h else timeout) in
      case ParseDuration h timeout of
        Inl err \<Rightarrow> (Some err, w)
      | Inr actualTimeout \<Rightarrow>
          (let executor = (if GOOS st = ''windows'' then ''powershell.exe'' else ''/bin/bash'');
               w = Println (''Running '' @ desc @ '':'') w;
               w = emit (RunScript (resolve st scriptFile) desc namespace baseDir timeout) w
           in
           case commandRun st executor (resolve st scriptFile) namespace baseDir actualTimeout
                  (ext w) of
             (Some err, x) \<Rightarrow>
               (Some err,
                Println (''Failed to run '' @ desc @ '': '' @ [CHR 0x0A] @ ErrorString err)
                  (w\<lparr>ext := x\<rparr>))
           | (None, x) \<Rightarrow> (None, w\<lparr>ext := x\<rparr>)))"

text \<open>The decimal text of an index, \<open>%d\<close>.\<close>

function string_of_nat :: "nat \<Rightarrow> string" where
  "string_of_nat n =
     (if n < 10 then [''0123456789'' ! n]
      else string_of_nat (n div 10) @ [''0123456789'' ! (n mod 10)])"
  by pat_completeness auto
termination
  by (relation "measure id") auto

text \<open>
  One iteration of the loop of \<open>runSteps\<close>. The result is the error that ends the
  loop (\<open>None\<close> to go on) with the temporary file whose removal was deferred; the whole
  is \<open>None\<close> when \<open>skipStep\<close> panics. An error of \<open>runScript\<close> is wrapped: the text
  \<open>Failed to run <desc>: <err>\<close> is handed to \<open>fmt.Errorf\<close> as its format. An error of
  the temporary file is returned as it is.
\<close>

definition runSteps_step ::
  "Helpers \<Rightarrow> 'x Steps \<Rightarrow> string \<Rightarrow> string \<Rightarrow> nat \<Rightarrow> StepConfig \<Rightarrow> 'x world
     \<Rightarrow> ((error option \<times> string list) \<times> 'x world) option" where
  "runSteps_step h st namespace baseDir idx step0 w =
     (let step = (if length (Name step0) = 0
                  then step0\<lparr>Name := ''step-'' @ string_of_nat idx\<rparr> else step0)
      in
      case skipStep (GOOS st) (LookupEnv st (ext w)) step of
        Inl p \<Rightarrow> None
      | Inr True \<Rightarrow> Some ((None, []), emit (Print (''Skip '' @ Name step @ [CHR 0x0A])) w)
      | Inr False \<Rightarrow>
          (case (if length (Script step) > 0 then
                   (let desc = (if Name step = [] then ''script '' @ Script step else Name step)
                    in case runScript h st (Script step) desc namespace baseDir (Timeout step) w of
                         (Some err, w) \<Rightarrow>
                           (Some (Errorf h (''Failed to run '' @ desc @ '': ''
                                            @ ErrorString err)), w)
                       | (None, w) \<Rightarrow> (None, w))
                 else (None, w)) of
             (Some err, w) \<Rightarrow> Some ((Some err, []), w)
           | (None, w) \<Rightarrow>
               if length (Run step) > 0 then
                 (case TempFile st (ext w) of
                    (Inl err, x) \<Rightarrow> Some ((Some err, []), w\<lparr>ext := x\<rparr>)
                  | (Inr file, x) \<Rightarrow>
                      (case writeScript st file
                              (''#!/bin/bash'' @ [CHR 0x0A, CHR 0x0A] @ ''set -e''
                               @ [CHR 0x0A, CHR 0x0A] @ Run step) x of
                         (Some err, x) \<Rightarrow> Some ((Some err, [file]), w\<lparr>ext := x\<rparr>)
                       | (None, x) \<Rightarrow>
                           (let desc = (if Name step = []
                                        then ''inline command '' @ string_of_nat idx
                                        else Name step)
                            in case runScript h st file desc namespace baseDir (Timeout step)
                                      (w\<lparr>ext := x\<rparr>) of
                                 (Some err, w) \<Rightarrow>
                                   Some ((Some (Errorf h (''Failed to run '' @ desc @ '': ''
                                                          @ ErrorString err)), [file]), w)
                               | (None, w) \<Rightarrow> Some ((None, [file]), w))))
               else Some ((None, []), w)))"

text \<open>
  The loop from index \<open>idx\<close>; \<open>files\<close> are the temporary files whose removal is
  deferred, the latest first.
\<close>

fun runSteps_loop ::
  "Helpers \<Rightarrow> 'x Steps \<Rightarrow> string \<Rightarrow> string \<Rightarrow> nat \<Rightarrow> StepConfig list \<Rightarrow> string list
     \<Rightarrow> 'x world \<Rightarrow> ((error option \<times> string list) \<times> 'x world) option" where
  "runSteps_loop h st namespace baseDir idx [] files w = Some ((None, files), w)"
| "runSteps_loop h st namespace baseDir idx (step # steps) files w =
     (case runSteps_step h st namespace baseDir idx step w of
        None \<Rightarrow> None
      | Some ((Some err, created), w) \<Rightarrow> Some ((Some err, created @ files), w)
      | Some ((None, created), w) \<Rightarrow>
          runSteps_loop h st namespace baseDir (Suc idx) steps (created @ files) w)"

definition runSteps ::
  "Helpers \<Rightarrow> 'x Steps \<Rightarrow> StepConfig list \<Rightarrow> string \<Rightarrow> string \<Rightarrow> 'x world
     \<Rightarrow> (error option \<times> 'x world) option" where
  "runSteps h st steps namespace baseDir w =
     (case runSteps_loop h st namespace baseDir 0 steps [] w of
        None \<Rightarrow> None
      | Some ((err, files), w) \<Rightarrow>
          Some (err, w\<lparr>ext := fold (removeFile st) files (ext w)\<rparr>))"


section \<open>Results of a run\<close>

text \<open>
  Modelled from the spec: \<open>report.AppendTestResults\<close> is not part of the sources. By
  section 4.6 it attaches the reported per-test results to the suite; the suite keeps
  what it holds and receives the tests and the errors of the reported results.
\<close>

definition AppendTestResults :: "TestSuite \<Rightarrow> TestSuite \<Rightarrow> TestSuite" where
  "AppendTestResults suite reported =
     suite\<lparr>Tests := Tests suite @ Tests reported, Errors := Errors suite @ Errors reported\<rparr>"

text \<open>
  Modelled from the spec: \<open>hasErrors\<close> is not part of the sources. By section 4.6 the run
  fails if any suite recorded errors.
\<close>

definition hasErrors :: "TestResults \<Rightarrow> bool" where
  "hasErrors results = list_ex (\<lambda>suite. length (Errors suite) > 0) (Suites results)"

text \<open>The other functions of package \<open>report\<close> that \<open>run.go\<close> calls; they are parameters.\<close>

record 'x Report =
  SaveTestResults :: "Test \<Rightarrow> 'x \<Rightarrow> error option \<times> 'x"
  GetErrorResult :: "string \<Rightarrow> string \<Rightarrow> error \<Rightarrow> Test"
  PrintSummaryReport :: "TestResults \<Rightarrow> 'x \<Rightarrow> 'x"
  GenerateReport :: "TestResults \<Rightarrow> string \<Rightarrow> 'x \<Rightarrow> 'x"
  DefaultOutput :: string
  SummaryOutput :: string

definition handleTestResult ::
  "'x Report \<Rightarrow> Test \<Rightarrow> TestSuite \<Rightarrow> 'x world \<Rightarrow> TestSuite \<times> 'x world" where
  "handleTestResult rp test suite w =
     (let suite = AppendTestResults suite (Results (Status test)) in
      case SaveTestResults rp test (ext w) of
        (Some saveErr, x) \<Rightarrow>
          (suite, Println (''Failed to save test results: '' @ ErrorString saveErr)
                    (w\<lparr>ext := x\<rparr>))
      | (None, x) \<Rightarrow> (suite, w\<lparr>ext := x\<rparr>))"

definition handleTestError ::
  "'x Report \<Rightarrow> string \<Rightarrow> string \<Rightarrow> TestResults \<Rightarrow> error \<Rightarrow> 'x world
     \<Rightarrow> TestResults \<times> 'x world" where
  "handleTestError rp namespace source results err w =
     (let suite = \<lparr>Tests = [], Errors = [ReasonForError err @ '' - '' @ ErrorString err]\<rparr> in
      case handleTestResult rp (GetErrorResult rp namespace source err) suite w of
        (suite, w) \<Rightarrow> (results\<lparr>Suites := Suites results @ [suite]\<rparr>, w))"

text \<open>
  What \<open>runTest\<close> (lines 203 to 212) and the loop of \<open>runTestGroup\<close> (lines 262 to 271) do
  with the result of \<open>createAndRunTest\<close>. The suite is appended to the results by value;
  the error that is appended to \<open>suite.Errors\<close> afterwards changes the local variable
  only.
\<close>

definition handleOutcome ::
  "'x Report \<Rightarrow> string \<Rightarrow> string \<Rightarrow> outcome \<Rightarrow> TestResults \<Rightarrow> 'x world
     \<Rightarrow> TestResults \<times> 'x world" where
  "handleOutcome rp namespace source out results w =
     (case out of
        (Some test, err) \<Rightarrow>
          (case handleTestResult rp test TestSuite_zero w of
             (suite, w) \<Rightarrow>
               (let results = results\<lparr>Suites := Suites results @ [suite]\<rparr>;
                    suite = (case err of
                               Some e \<Rightarrow> suite\<lparr>Errors := Errors suite @ [ErrorString e]\<rparr>
                             | None \<Rightarrow> suite)
                in (results, w)))
      | (None, Some err) \<Rightarrow> handleTestError rp namespace source results err w
      | (None, None) \<Rightarrow> (results, w))"

section \<open>Run configuration, uploads and the temporary namespace\<close>

text \<open>
  The command client, the files and the paths: \<open>GetCmdClient\<close> (its error), the
  functions of package \<open>config\<close> and \<open>path\<close>, the error of \<open>ioutil.ReadDir\<close>, and
  \<open>uploadLocalArtifact\<close>.
\<close>

record 'x Setup =
  GetCmdClient :: "'x \<Rightarrow> error option"
  isRemoteFile :: "string \<Rightarrow> bool"
  NewWithDefaults :: RunConfig
  LoadConfig :: "string \<Rightarrow> 'x \<Rightarrow> error + RunConfig"
  getBaseDir :: "string \<Rightarrow> string"
  path_Join :: "string \<Rightarrow> string \<Rightarrow> string"
  path_Dir :: "string \<Rightarrow> string"
  ReadDir_error :: "string \<Rightarrow> 'x \<Rightarrow> error option"
  uploadLocalArtifact :: "string \<Rightarrow> string \<Rightarrow> 'x \<Rightarrow> (error + string) \<times> 'x"

definition setNamespaceName :: "string \<Rightarrow> RunConfig \<Rightarrow> RunConfig" where
  "setNamespaceName name runConfig =
     runConfig\<lparr>Config := (Config runConfig)
       \<lparr>Namespace := (Namespace (Config runConfig))\<lparr>ns_Name := name\<rparr>\<rparr>\<rparr>"

text \<open>\<open>getRunConfig\<close>; \<open>isDir\<close> tells whether the source is a directory.\<close>

definition getRunConfig ::
  "'x Setup \<Rightarrow> runCmdOptions \<Rightarrow> string \<Rightarrow> bool \<Rightarrow> 'x \<Rightarrow> error + RunConfig" where
  "getRunConfig su o' source isDir x =
     (if isRemoteFile su source then Inr (NewWithDefaults su)
      else
        (let configFile = (if isDir then path_Join su source ConfigFile
                           else path_Join su (path_Dir su source) ConfigFile)
         in
         case LoadConfig su configFile x of
           Inl err \<Rightarrow> Inl err
         | Inr runConfig \<Rightarrow>
             (let runConfig = (if BaseDir runConfig = []
                               then runConfig\<lparr>BaseDir := getBaseDir su source\<rparr>
                               else runConfig);
                  runConfig = (if ns_Name (Namespace (Config runConfig)) = []
                                  \<and> \<not> Temporary (Namespace (Config runConfig))
                               then setNamespaceName (o_Namespace o') runConfig
                               else runConfig)
              in Inr runConfig)))"

text \<open>\<open>uploadArtifacts\<close>: every uploaded library is added to the dependencies of \<open>o\<close>.\<close>

fun uploadArtifacts_loop ::
  "Helpers \<Rightarrow> 'x Setup \<Rightarrow> RunConfig \<Rightarrow> string list \<Rightarrow> runCmdOptions \<Rightarrow> 'x
     \<Rightarrow> (error option \<times> runCmdOptions) \<times> 'x" where
  "uploadArtifacts_loop h su runConfig [] o' x = ((None, o'), x)"
| "uploadArtifacts_loop h su runConfig (lib # libs) o' x =
     (case uploadLocalArtifact su (resolvePath h runConfig lib)
             (ns_Name (Namespace (Config runConfig))) x of
        (Inl err, x) \<Rightarrow> ((Some err, o'), x)
      | (Inr additionalDep, x) \<Rightarrow>
          uploadArtifacts_loop h su runConfig libs
            (o'\<lparr>o_Dependencies := o_Dependencies o' @ [additionalDep]\<rparr>) x)"

definition uploadArtifacts ::
  "Helpers \<Rightarrow> 'x Setup \<Rightarrow> runCmdOptions \<Rightarrow> RunConfig \<Rightarrow> 'x
     \<Rightarrow> (error option \<times> runCmdOptions) \<times> 'x" where
  "uploadArtifacts h su o' runConfig x = uploadArtifacts_loop h su runConfig (o_Uploads o') o' x"

text \<open>
  The cluster as the namespace and the operator see it: the UUID, \<open>openshift.IsOpenShift\<close>,
  the creation and deletion of the namespace object (a project on OpenShift),
  \<open>findInstance\<close> (the \<open>Global\<close> flag of the instance \<open>yaks\<close> in a namespace),
  \<open>listInstances\<close> (the \<open>Global\<close> flags of all instances), \<open>setupCluster\<close>,
  \<open>install.OperatorOrCollect\<close> and \<open>applyOperatorRole\<close>.
\<close>

record 'x Operator =
  newUUID :: "'x \<Rightarrow> string \<times> 'x"
  IsOpenShift :: "'x \<Rightarrow> error + bool"
  createNamespaceObject :: "bool \<Rightarrow> string \<Rightarrow> 'x \<Rightarrow> error option \<times> 'x"
  deleteNamespaceObject :: "bool \<Rightarrow> string \<Rightarrow> 'x \<Rightarrow> error option \<times> 'x"
  findInstance :: "string \<Rightarrow> 'x \<Rightarrow> error + bool"
  listInstances :: "'x \<Rightarrow> error + bool list"
  setupCluster :: "'x \<Rightarrow> error option \<times> 'x"
  OperatorOrCollect :: "string \<Rightarrow> bool \<Rightarrow> 'x \<Rightarrow> error option \<times> 'x"
  applyOperatorRole :: "string \<Rightarrow> string \<Rightarrow> 'x \<Rightarrow> error option \<times> 'x"

text \<open>
  \<open>initializeTempNamespace\<close>: the namespace object (its name) and the error of its
  creation; \<open>None\<close> when \<open>IsOpenShift\<close> fails and the function panics.
\<close>

definition initializeTempNamespace ::
  "'x Operator \<Rightarrow> string \<Rightarrow> 'x world \<Rightarrow> ((string \<times> error option) \<times> 'x world) option" where
  "initializeTempNamespace op name w =
     (case IsOpenShift op (ext w) of
        Inl err \<Rightarrow> None
      | Inr oc \<Rightarrow>
          (let w = Println (''Creating new test namespace '' @ name) w in
           case createNamespaceObject op oc name (ext w) of
             (err, x) \<Rightarrow> Some ((name, err), w\<lparr>ext := x\<rparr>)))"

definition deleteTempNamespace :: "'x Operator \<Rightarrow> string \<Rightarrow> 'x world \<Rightarrow> 'x world option" where
  "deleteTempNamespace op ns w =
     (case IsOpenShift op (ext w) of
        Inl err \<Rightarrow> None
      | Inr oc \<Rightarrow>
          (let w = emit (DeleteTempNamespace ns) w in
           case deleteNamespaceObject op oc ns (ext w) of
             (Some err, x) \<Rightarrow>
               Some (Println (''AutoRemove namespace '' @ ns)
                       (emit (PrintErr (''WARN: Failed to AutoRemove namespace '' @ ns
                                        @ [CHR 0x0A])) (w\<lparr>ext := x\<rparr>)))
           | (None, x) \<Rightarrow> Some (Println (''AutoRemove namespace '' @ ns) (w\<lparr>ext := x\<rparr>))))"

text \<open>
  The loop of \<open>setupOperator\<close> over the roles; \<open>err\<close> is the variable that the call of
  \<open>OperatorOrCollect\<close> sets and every role overwrites.
\<close>

fun applyRoles ::
  "Helpers \<Rightarrow> 'x Operator \<Rightarrow> RunConfig \<Rightarrow> string \<Rightarrow> string list \<Rightarrow> error option \<Rightarrow> 'x
     \<Rightarrow> error option \<times> 'x" where
  "applyRoles h op runConfig namespace [] err x = (err, x)"
| "applyRoles h op runConfig namespace (role # roles) err x =
     (case applyOperatorRole op (resolvePath h runConfig role) namespace x of
        (Some err, x) \<Rightarrow> (Some err, x)
      | (None, x) \<Rightarrow> applyRoles h op runConfig namespace roles None x)"

definition setupOperator ::
  "Helpers \<Rightarrow> 'x Operator \<Rightarrow> RunConfig \<Rightarrow> 'x world \<Rightarrow> error option \<times> 'x world" where
  "setupOperator h op runConfig w =
     (let namespace = ns_Name (Namespace (Config runConfig)) in
      case IsOpenShift op (ext w) of
        Inl err \<Rightarrow> (Some err, w)
      | Inr isOpenshift \<Rightarrow>
          (case OperatorOrCollect op namespace isOpenshift (ext w) of
             (err, x) \<Rightarrow>
               (case applyRoles h op runConfig namespace (Operator_Roles (Config runConfig))
                       err x of
                  (err, x) \<Rightarrow> (err, w\<lparr>ext := x\<rparr>))))"

text \<open>
  \<open>createTempNamespace\<close>: the namespace (\<open>None\<close> for \<open>nil\<close>), the error, and the run
  configuration, whose namespace name the function sets. \<open>decided\<close> tells that the
  function returns before the operator is installed.
\<close>

definition createTempNamespace ::
  "Helpers \<Rightarrow> 'x Operator \<Rightarrow> runCmdOptions \<Rightarrow> RunConfig \<Rightarrow> 'x world
     \<Rightarrow> ((string option \<times> error option) \<times> RunConfig \<times> 'x world) option" where
  "createTempNamespace h op o' runConfig w =
     (case newUUID op (ext w) of
        (uuid, x) \<Rightarrow>
          (let namespaceName = ''yaks-'' @ uuid in
           case initializeTempNamespace op namespaceName (w\<lparr>ext := x\<rparr>) of
             None \<Rightarrow> None
           | Some ((namespace, Some err), w) \<Rightarrow> Some ((None, Some err), runConfig, w)
           | Some ((namespace, None), w) \<Rightarrow>
               (let runConfig = setNamespaceName namespaceName runConfig in
                case (case findInstance op (o_Namespace o') (ext w) of
                        Inl err \<Rightarrow>
                          if IsNotFound err then
                            (case listInstances op (ext w) of
                               Inr items \<Rightarrow>
                                 if list_ex (\<lambda>global. global) items then (True, None, w)
                                 else (False, None,
                                       if length items = 0
                                       then Println (''Unable to find existing YAKS instance - ''
                                              @ ''adding new operator instance to temporary namespace by default'') w
                                       else w)
                             | Inl err \<Rightarrow> (True, Some err, w))
                          else (True, Some err, w)
                      | Inr global \<Rightarrow> if global then (True, None, w) else (False, None, w)) of
                  (True, err, w) \<Rightarrow> Some ((Some namespace, err), runConfig, w)
                | (False, err, w) \<Rightarrow>
                    (case setupCluster op (ext w) of
                       (Some err, x) \<Rightarrow> Some ((Some namespace, Some err), runConfig, w\<lparr>ext := x\<rparr>)
                     | (None, x) \<Rightarrow>
                         (case setupOperator h op runConfig (w\<lparr>ext := x\<rparr>) of
                            (Some err, w) \<Rightarrow> Some ((Some namespace, Some err), runConfig, w)
                          | (None, w) \<Rightarrow> Some ((Some namespace, None), runConfig, w))))))"

section \<open>\<open>runTest\<close>, \<open>runTestGroup\<close> and \<open>run\<close>\<close>

text \<open>
  A deferred call. The deferred calls of a function are kept with the latest first and
  run in that order when the function returns; the value that a deferred \<open>runSteps\<close>
  returns is dropped.
\<close>

datatype deferred = DeferDeleteTempNamespace string | DeferRunSteps "StepConfig list" string string

fun runDeferred ::
  "Helpers \<Rightarrow> 'x Operator \<Rightarrow> 'x Steps \<Rightarrow> deferred list \<Rightarrow> 'x world \<Rightarrow> 'x world option" where
  "runDeferred h op st [] w = Some w"
| "runDeferred h op st (DeferDeleteTempNamespace ns # rest) w =
     (case deleteTempNamespace op ns w of
        None \<Rightarrow> None
      | Some w \<Rightarrow> runDeferred h op st rest w)"
| "runDeferred h op st (DeferRunSteps steps namespace baseDir # rest) w =
     (case runSteps h st steps namespace baseDir w of
        None \<Rightarrow> None
      | Some (err, w) \<Rightarrow> runDeferred h op st rest w)"

text \<open>
  Lines 173 to 187 of \<open>runTest\<close>: the temporary namespace. The result is the error on
  which \<open>runTest\<close> returns (\<open>None\<close> to go on), the run configuration, the world and the
  deferred calls. The deletion is deferred whenever a namespace is returned, before the
  error is looked at.
\<close>

definition runTest_namespace ::
  "Helpers \<Rightarrow> 'x Operator \<Rightarrow> runCmdOptions \<Rightarrow> RunConfig \<Rightarrow> 'x world
     \<Rightarrow> (error option \<times> RunConfig \<times> 'x world \<times> deferred list) option" where
  "runTest_namespace h op o' runConfig w =
     (if Temporary (Namespace (Config runConfig)) then
        (case createTempNamespace h op o' runConfig w of
           None \<Rightarrow> None
         | Some ((Some namespace, err), runConfig, w) \<Rightarrow>
             Some (err, runConfig, w,
                   if AutoRemove (Namespace (Config runConfig)) \<and> o_Wait o'
                   then [DeferDeleteTempNamespace namespace] else [])
         | Some ((None, err), runConfig, w) \<Rightarrow> Some (err, runConfig, w, []))
      else Some (None, runConfig, w, []))"

text \<open>
  Lines 228 to 235 of \<open>runTestGroup\<close>: the same step, written differently. The error is
  looked at first, and the deletion is deferred only when there is none.
\<close>

definition runTestGroup_namespace ::
  "Helpers \<Rightarrow> 'x Operator \<Rightarrow> runCmdOptions \<Rightarrow> RunConfig \<Rightarrow> 'x world
     \<Rightarrow> (error option \<times> RunConfig \<times> 'x world \<times> deferred list) option" where
  "runTestGroup_namespace h op o' runConfig w =
     (if Temporary (Namespace (Config runConfig)) then
        (case createTempNamespace h op o' runConfig w of
           None \<Rightarrow> None
         | Some ((namespace, Some err), runConfig, w) \<Rightarrow> Some (Some err, runConfig, w, [])
         | Some ((Some namespace, None), runConfig, w) \<Rightarrow>
             Some (None, runConfig, w,
                   if AutoRemove (Namespace (Config runConfig)) \<and> o_Wait o'
                   then [DeferDeleteTempNamespace namespace] else [])
         | Some ((None, None), runConfig, w) \<Rightarrow> Some (None, runConfig, w, []))
      else Some (None, runConfig, w, []))"

text \<open>
  The body of \<open>runTest\<close>: the options (\<open>uploadArtifacts\<close> changes them), the results, the
  world and the deferred calls at the moment the function returns. \<open>None\<close>: the body
  panics or does not return.
\<close>

definition runTest_body ::
  "Helpers \<Rightarrow> 'x Cluster \<Rightarrow> 'x Setup \<Rightarrow> 'x Operator \<Rightarrow> 'x Steps \<Rightarrow> 'x Report
     \<Rightarrow> runCmdOptions \<Rightarrow> string \<Rightarrow> TestResults \<Rightarrow> 'x world
     \<Rightarrow> (runCmdOptions \<times> TestResults \<times> 'x world \<times> deferred list) option" where
  "runTest_body h c su op st rp o' source results w =
     (case GetCmdClient su (ext w) of
        Some err \<Rightarrow>
          (case handleTestError rp [] source results err w of
             (results, w) \<Rightarrow> Some (o', results, w, []))
      | None \<Rightarrow>
        (case getRunConfig su o' source False (ext w) of
           Inl err \<Rightarrow>
             (case handleTestError rp [] source results err w of
                (results, w) \<Rightarrow> Some (o', results, w, []))
         | Inr runConfig \<Rightarrow>
           (case runTest_namespace h op o' runConfig w of
              None \<Rightarrow> None
            | Some (Some err, runConfig, w, defers) \<Rightarrow>
                (case handleTestError rp (ns_Name (Namespace (Config runConfig))) source
                        results err w of
                   (results, w) \<Rightarrow> Some (o', results, w, defers))
            | Some (None, runConfig, w, defers) \<Rightarrow>
                (case uploadArtifacts h su o' runConfig (ext w) of
                   ((Some err, o'), x) \<Rightarrow>
                     (case handleTestError rp (ns_Name (Namespace (Config runConfig))) source
                             results err (w\<lparr>ext := x\<rparr>) of
                        (results, w) \<Rightarrow> Some (o', results, w, defers))
                 | ((None, o'), x) \<Rightarrow>
                     (let defers = DeferRunSteps (Post runConfig)
                                     (ns_Name (Namespace (Config runConfig)))
                                     (BaseDir runConfig) # defers
                      in
                      case runSteps h st (Pre runConfig) (ns_Name (Namespace (Config runConfig)))
                             (BaseDir runConfig) (w\<lparr>ext := x\<rparr>) of
                        None \<Rightarrow> None
                      | Some (Some err, w) \<Rightarrow>
                          (case handleTestError rp (ns_Name (Namespace (Config runConfig)))
                                  source results err w of
                             (results, w) \<Rightarrow> Some (o', results, w, defers))
                      | Some (None, w) \<Rightarrow>
                          (case createAndRunTest h c o' source runConfig w of
                             None \<Rightarrow> None
                           | Some (out, w) \<Rightarrow>
                               (case handleOutcome rp (ns_Name (Namespace (Config runConfig)))
                                       source out results w of
                                  (results, w) \<Rightarrow> Some (o', results, w, defers))))))))"

definition runTest ::
  "Helpers \<Rightarrow> 'x Cluster \<Rightarrow> 'x Setup \<Rightarrow> 'x Operator \<Rightarrow> 'x Steps \<Rightarrow> 'x Report
     \<Rightarrow> runCmdOptions \<Rightarrow> string \<Rightarrow> TestResults \<Rightarrow> 'x world
     \<Rightarrow> (runCmdOptions \<times> TestResults \<times> 'x world) option" where
  "runTest h c su op st rp o' source results w =
     (case runTest_body h c su op st rp o' source results w of
        None \<Rightarrow> None
      | Some (o', results, w, defers) \<Rightarrow>
          (case runDeferred h op st defers w of
             None \<Rightarrow> None
           | Some w \<Rightarrow> Some (o', results, w)))"


text \<open>
  A directory entry as \<open>ioutil.ReadDir\<close> returns it, with the entries below it when it
  is a directory; the string is \<open>f.Name()\<close>.
\<close>

datatype FileInfo = File string | Dir string "FileInfo list"

text \<open>
  \<open>runTestGroup\<close> up to the loop: an early return (\<open>Inl\<close>) or the state in which the
  loop starts (\<open>Inr\<close>), each with the deferred calls registered so far.
\<close>

definition runTestGroup_setup ::
  "Helpers \<Rightarrow> 'x Setup \<Rightarrow> 'x Operator \<Rightarrow> 'x Steps \<Rightarrow> 'x Report
     \<Rightarrow> runCmdOptions \<Rightarrow> string \<Rightarrow> TestResults \<Rightarrow> 'x world
     \<Rightarrow> ((runCmdOptions \<times> TestResults \<times> 'x world \<times> deferred list)
          + (runCmdOptions \<times> RunConfig \<times> TestResults \<times> 'x world \<times> deferred list)) option" where
  "runTestGroup_setup h su op st rp o' source results w =
     (case GetCmdClient su (ext w) of
        Some err \<Rightarrow>
          (case handleTestError rp [] source results err w of
             (results, w) \<Rightarrow> Some (Inl (o', results, w, [])))
      | None \<Rightarrow>
        (case getRunConfig su o' source True (ext w) of
           Inl err \<Rightarrow>
             (case handleTestError rp [] source results err w of
                (results, w) \<Rightarrow> Some (Inl (o', results, w, [])))
         | Inr runConfig \<Rightarrow>
           (case runTestGroup_namespace h op o' runConfig w of
              None \<Rightarrow> None
            | Some (Some err, runConfig, w, defers) \<Rightarrow>
                (case handleTestError rp (ns_Name (Namespace (Config runConfig))) source
                        results err w of
                   (results, w) \<Rightarrow> Some (Inl (o', results, w, defers)))
            | Some (None, runConfig, w, defers) \<Rightarrow>
                (case uploadArtifacts h su o' runConfig (ext w) of
                   ((Some err, o'), x) \<Rightarrow>
                     (case handleTestError rp (ns_Name (Namespace (Config runConfig))) source
                             results err (w\<lparr>ext := x\<rparr>) of
                        (results, w) \<Rightarrow> Some (Inl (o', results, w, defers)))
                 | ((None, o'), x) \<Rightarrow>
                     (case ReadDir_error su source x of
                        Some err \<Rightarrow>
                          (case handleTestError rp (ns_Name (Namespace (Config runConfig)))
                                  source results err (w\<lparr>ext := x\<rparr>) of
                             (results, w) \<Rightarrow> Some (Inl (o', results, w, defers)))
                      | None \<Rightarrow>
                          (let defers = DeferRunSteps (Post runConfig)
                                          (ns_Name (Namespace (Config runConfig)))
                                          (BaseDir runConfig) # defers
                           in
                           case runSteps h st (Pre runConfig)
                                  (ns_Name (Namespace (Config runConfig)))
                                  (BaseDir runConfig) (w\<lparr>ext := x\<rparr>) of
                             None \<Rightarrow> None
                           | Some (Some err, w) \<Rightarrow>
                               (case handleTestError rp (ns_Name (Namespace (Config runConfig)))
                                       source results err w of
                                  (results, w) \<Rightarrow> Some (Inl (o', results, w, defers)))
                           | Some (None, w) \<Rightarrow>
                               Some (Inr (o', runConfig, results, w, defers))))))))"

text \<open>
  The branch of the loop for an entry that is not a directory to recurse into: a name
  with the suffix \<open>.feature\<close> is submitted, any other is skipped.
\<close>

definition runTestGroup_file ::
  "Helpers \<Rightarrow> 'x Cluster \<Rightarrow> 'x Setup \<Rightarrow> 'x Report \<Rightarrow> runCmdOptions \<Rightarrow> RunConfig \<Rightarrow> string
     \<Rightarrow> string \<Rightarrow> TestResults \<Rightarrow> 'x world \<Rightarrow> (TestResults \<times> 'x world) option" where
  "runTestGroup_file h c su rp o' runConfig source fname results w =
     (let name = path_Join su source fname in
      if HasSuffix fname FileSuffix then
        (case createAndRunTest h c o' name runConfig w of
           None \<Rightarrow> None
         | Some (out, w) \<Rightarrow>
             Some (handleOutcome rp (ns_Name (Namespace (Config runConfig))) name out results w))
      else Some (results, w))"

text \<open>
  \<open>runTestGroup\<close> on a directory with the entries \<open>files\<close>, and its loop over the
  entries. The recursive call on a sub-directory starts again from the client and the
  run configuration of that directory.
\<close>

fun runTestGroup ::
  "Helpers \<Rightarrow> 'x Cluster \<Rightarrow> 'x Setup \<Rightarrow> 'x Operator \<Rightarrow> 'x Steps \<Rightarrow> 'x Report
     \<Rightarrow> runCmdOptions \<Rightarrow> string \<Rightarrow> FileInfo list \<Rightarrow> TestResults \<Rightarrow> 'x world
     \<Rightarrow> (runCmdOptions \<times> TestResults \<times> 'x world) option"
and runTestGroup_files ::
  "Helpers \<Rightarrow> 'x Cluster \<Rightarrow> 'x Setup \<Rightarrow> 'x Operator \<Rightarrow> 'x Steps \<Rightarrow> 'x Report
     \<Rightarrow> runCmdOptions \<Rightarrow> RunConfig \<Rightarrow> string \<Rightarrow> FileInfo list \<Rightarrow> TestResults \<Rightarrow> 'x world
     \<Rightarrow> (runCmdOptions \<times> TestResults \<times> 'x world) option" where
  "runTestGroup h c su op st rp o' source files results w =
     (case runTestGroup_setup h su op st rp o' source results w of
        None \<Rightarrow> None
      | Some (Inl (o', results, w, defers)) \<Rightarrow>
          (case runDeferred h op st defers w of
             None \<Rightarrow> None
           | Some w \<Rightarrow> Some (o', results, w))
      | Some (Inr (o', runConfig, results, w, defers)) \<Rightarrow>
          (case runTestGroup_files h c su op st rp o' runConfig source files results w of
             None \<Rightarrow> None
           | Some (o', results, w) \<Rightarrow>
               (case runDeferred h op st defers w of
                  None \<Rightarrow> None
                | Some w \<Rightarrow> Some (o', results, w))))"
| "runTestGroup_files h c su op st rp o' runConfig source [] results w = Some (o', results, w)"
| "runTestGroup_files h c su op st rp o' runConfig source (File fname # files) results w =
     (case runTestGroup_file h c su rp o' runConfig source fname results w of
        None \<Rightarrow> None
      | Some (results, w) \<Rightarrow>
          runTestGroup_files h c su op st rp o' runConfig source files results w)"
| "runTestGroup_files h c su op st rp o' runConfig source (Dir fname entries # files) results w =
     (if Recursive (Config runConfig) then
        (case runTestGroup h c su op st rp o' (path_Join su source fname) entries results w of
           None \<Rightarrow> None
         | Some (o', results, w) \<Rightarrow>
             runTestGroup_files h c su op st rp o' runConfig source files results w)
      else
        (case runTestGroup_file h c su rp o' runConfig source fname results w of
           None \<Rightarrow> None
         | Some (results, w) \<Rightarrow>
             runTestGroup_files h c su op st rp o' runConfig source files results w))"

text \<open>
  \<open>run\<close> on a source that is a file or a directory: the error it returns, the results,
  and the world after the deferred reports.
\<close>

definition run ::
  "Helpers \<Rightarrow> 'x Cluster \<Rightarrow> 'x Setup \<Rightarrow> 'x Operator \<Rightarrow> 'x Steps \<Rightarrow> 'x Report
     \<Rightarrow> runCmdOptions \<Rightarrow> FileInfo \<Rightarrow> 'x world
     \<Rightarrow> (error option \<times> TestResults \<times> 'x world) option" where
  "run h c su op st rp o' source w =
     (case (case source of
              Dir path files \<Rightarrow> runTestGroup h c su op st rp o' path files \<lparr>Suites = []\<rparr> w
            | File path \<Rightarrow> runTest h c su op st rp o' path \<lparr>Suites = []\<rparr> w) of
        None \<Rightarrow> None
      | Some (o1, results, w) \<Rightarrow>
          (let x = ext w;
               x = (if o_Wait o' \<and> o_ReportFormat o' \<noteq> DefaultOutput rp
                       \<and> o_ReportFormat o' \<noteq> SummaryOutput rp
                    then GenerateReport rp results (o_ReportFormat o') x else x);
               x = (if o_Wait o' then PrintSummaryReport rp results x else x)
           in Some (if hasErrors results then Some (errors_New ''There are test failures!'')
                    else None,
                    results, w\<lparr>ext := x\<rparr>)))"

section \<open>An example environment\<close>

text \<open>
  Instances of the remaining parameters for the examples: a Linux machine on which the
  script \<open>fail.sh\<close> fails, a directory whose run configuration is \<open>example_RunConfig\<close>,
  a cluster on which no operator instance is found and instances cannot be listed,
  and reports that are always saved.
\<close>

definition example_Steps :: "store Steps" where
  "example_Steps =
     \<lparr>GOOS = ''linux'', GOARCH = ''amd64'',
      LookupEnv = (\<lambda>s name. None),
      TempFile = (\<lambda>s. (Inr ''/tmp/yaks-script-1.sh'', s)),
      writeScript = (\<lambda>file content s. (None, s)),
      removeFile = (\<lambda>file s. s),
      commandRun = (\<lambda>executor script namespace dir timeout s.
                      (if script = ''fail.sh'' then Some (errors_New ''exit status 1'') else None,
                       s))\<rparr>"

definition example_Setup :: "store Setup" where
  "example_Setup =
     \<lparr>GetCmdClient = (\<lambda>s. None),
      isRemoteFile = (\<lambda>source. False),
      NewWithDefaults = example_RunConfig,
      LoadConfig = (\<lambda>file s. Inr example_RunConfig),
      getBaseDir = (\<lambda>source. ''.''),
      path_Join = (\<lambda>dir name. if dir = ''.'' then name else dir @ ''/'' @ name),
      path_Dir = (\<lambda>source. ''.''),
      ReadDir_error = (\<lambda>source s. None),
      uploadLocalArtifact = (\<lambda>lib namespace s. (Inr lib, s))\<rparr>"

definition example_Operator :: "store Operator" where
  "example_Operator =
     \<lparr>newUUID = (\<lambda>s. (''0001'', s)),
      IsOpenShift = (\<lambda>s. Inr False),
      createNamespaceObject = (\<lambda>oc name s. (None, s)),
      deleteNamespaceObject = (\<lambda>oc name s. (None, s)),
      findInstance = (\<lambda>namespace s. Inl (Error ''NotFound'' 404 ''instance yaks not found'')),
      listInstances = (\<lambda>s. Inl (Error ''Forbidden'' 403 ''instances is forbidden'')),
      setupCluster = (\<lambda>s. (None, s)),
      OperatorOrCollect = (\<lambda>namespace oc s. (None, s)),
      applyOperatorRole = (\<lambda>role namespace s. (None, s))\<rparr>"

definition example_Report :: "store Report" where
  "example_Report =
     \<lparr>SaveTestResults = (\<lambda>t s. (None, s)),
      GetErrorResult = (\<lambda>namespace source err.
                          example_Test\<lparr>Status := \<lparr>Phase = TestPhaseError,
                                                   Results = TestSuite_zero\<rparr>\<rparr>),
      PrintSummaryReport = (\<lambda>results s. s),
      GenerateReport = (\<lambda>results format s. s),
      DefaultOutput = [],
      SummaryOutput = ''summary''\<rparr>"



text \<open>A run configuration that asks for a temporary namespace that is removed.\<close>

definition example_RunConfig_temporary :: RunConfig where
  "example_RunConfig_temporary =
     example_RunConfig
       \<lparr>Config := (Config example_RunConfig)
          \<lparr>Namespace := \<lparr>ns_Name = [], Temporary = True, AutoRemove = True\<rparr>\<rparr>\<rparr>"



section \<open>Properties of the string functions\<close>

lemma Contains_single: "Contains s [c] \<longleftrightarrow> c \<in> set s"
  by (induction s) (auto simp: HasPrefix_def)

lemma genSplit_nonempty: "genSplit sep cur s \<noteq> []"
  by (induction sep cur s rule: genSplit.induct) auto

lemma genSplit_single_cut:
  "c \<notin> set a \<Longrightarrow> genSplit [c] cur (a @ c # v) = (cur @ a) # genSplit [c] [] v"
  by (induction a arbitrary: cur) (auto simp: HasPrefix_def)

lemma genSplit_length2: "c \<in> set s \<Longrightarrow> 2 \<le> length (genSplit [c] cur s)"
proof (induction s arbitrary: cur)
  case Nil
  then show ?case by simp
next
  case (Cons a s)
  then show ?case
    using genSplit_nonempty[of "[c]" "[]" s]
    by (cases "genSplit [c] [] s") (auto simp: HasPrefix_def)
qed

section \<open>Properties of \<open>skipStep\<close>\<close>

text \<open>
  The slice \<open>keyValue\<close> is the condition itself when it has no \<open>=\<close>, and has at least two
  elements otherwise.
\<close>

lemma keyValue_cases:
  "(if Contains c ''='' then Split c ''='' else [c]) = kv \<Longrightarrow>
     (CHR ''='' \<notin> set c \<and> kv = [c]) \<or> (CHR ''='' \<in> set c \<and> 2 \<le> length kv)"
  by (auto simp: Contains_single Split_def genSplit_length2 split: if_splits)

text \<open>The loop panics only on the condition \<open>os\<close> written without a value.\<close>

lemma skipStep_loop_panic_os:
  "skipStep_loop goos env b cs = Inl p \<Longrightarrow> ''os'' \<in> set cs"
proof (induction cs arbitrary: b)
  case Nil
  then show ?case by simp
next
  case (Cons c cs)
  obtain kv where kv: "(if Contains c ''='' then Split c ''='' else [c]) = kv"
    by simp
  from keyValue_cases[OF kv] Cons show ?case
    by (auto simp: kv Let_def split: if_splits option.splits)
qed

lemma skipStep_loop_Cons:
  "skipStep_loop goos env False (c # cs) =
     (case skipStep_loop goos env False [c] of
        Inr False \<Rightarrow> skipStep_loop goos env False cs
      | r \<Rightarrow> r)"
proof -
  obtain kv where kv: "(if Contains c ''='' then Split c ''='' else [c]) = kv"
    by simp
  show ?thesis
    by (simp add: kv Let_def split: option.splits)
qed

lemma skipStep_loop_conj:
  "skipStep_loop goos env False cs = Inr False \<longleftrightarrow>
     (\<forall>c \<in> set cs. skipStep_loop goos env False [c] = Inr False)"
proof (induction cs)
  case Nil
  show ?case by simp
next
  case (Cons c cs)
  show ?case
  proof (cases "skipStep_loop goos env False [c]")
    case (Inl p)
    then show ?thesis
      by (simp add: skipStep_loop_Cons[of goos env c cs] del: skipStep_loop.simps)
  next
    case (Inr b)
    with Cons show ?thesis
      by (cases b) (simp_all add: skipStep_loop_Cons[of goos env c cs] del: skipStep_loop.simps)
  qed
qed

lemma env_name_clause_passes:
  "CHR ''='' \<notin> set name \<Longrightarrow> env name = Some v \<Longrightarrow>
     skipStep_loop goos env False ((''env:'' @ name) # rest) = skipStep_loop goos env False rest"
  by (simp add: Contains_single HasPrefix_def TrimPrefix_def)

lemma env_name_clause_unset:
  assumes "CHR ''='' \<notin> set name" "env name = None"
    and "c = ''env:'' @ name \<or> c = ''env:'' @ name @ ''='' @ w"
  shows "skipStep_loop goos env False [c] = Inr True"
  using assms(3)
proof
  assume "c = ''env:'' @ name"
  with assms(1,2) show ?thesis
    by (simp add: Contains_single HasPrefix_def TrimPrefix_def)
next
  assume c: "c = ''env:'' @ name @ ''='' @ w"
  have "genSplit ''='' [] ((''env:'' @ name) @ CHR ''='' # w)
          = ([] @ ''env:'' @ name) # genSplit ''='' [] w"
    using assms(1) by (intro genSplit_single_cut) simp
  then have "Split c ''='' = (''env:'' @ name) # genSplit ''='' [] w"
    by (simp add: Split_def c)
  moreover have "Contains c ''=''"
    by (simp add: Contains_single c)
  ultimately show ?thesis
    using assms(2) by (simp add: HasPrefix_def TrimPrefix_def)
qed

lemma skipStep_example:
  "skipStep goos env (step\<lparr>If := ''os=linux && env:FOO=bar''\<rparr>)
     = Inr (\<not> (goos = ''linux'' \<and> env ''FOO'' = Some ''bar''))"
  by (auto simp: skipStep_def Split_def HasPrefix_def TrimPrefix_def Let_def
      split: option.splits)

lemma skipStep_env_present:
  "env ''FOO'' = Some v \<Longrightarrow> skipStep goos env (step\<lparr>If := ''env:FOO''\<rparr>) = Inr False"
  by (simp add: skipStep_def Split_def HasPrefix_def TrimPrefix_def)

lemma skipStep_all_pass:
  "skipStep goos env step = Inr False \<longleftrightarrow>
     (\<forall>c \<in> set (Split (If step) '' && ''). skipStep_loop goos env False [c] = Inr False)"
proof (cases "If step = []")
  case True
  then show ?thesis
    by (simp add: skipStep_def Split_def HasPrefix_def)
next
  case False
  then have "skipStep goos env step = skipStep_loop goos env False (Split (If step) '' && '')"
    by (simp add: skipStep_def)
  then show ?thesis
    by (simp only: skipStep_loop_conj[of goos env "Split (If step) '' && ''"])
qed

lemma skipStep_env_unset:
  assumes "CHR ''='' \<notin> set name" "env name = None"
    and "c = ''env:'' @ name \<or> c = ''env:'' @ name @ ''='' @ w"
    and "c \<in> set (Split (If step) '' && '')"
  shows "skipStep goos env step \<noteq> Inr False"
    and "''os'' \<notin> set (Split (If step) '' && '') \<Longrightarrow> skipStep goos env step = Inr True"
proof -
  have one: "skipStep_loop goos env False [c] = Inr True"
    using assms(1-3) by (rule env_name_clause_unset)
  show nF: "skipStep goos env step \<noteq> Inr False"
  proof
    assume "skipStep goos env step = Inr False"
    then have "skipStep_loop goos env False [c] = Inr False"
      using assms(4) skipStep_all_pass[of goos env step] by blast
    with one show False by (simp del: skipStep_loop.simps)
  qed
  assume os: "''os'' \<notin> set (Split (If step) '' && '')"
  have "If step \<noteq> []"
    using assms(3,4) by (auto simp: Split_def)
  then have eq: "skipStep goos env step = skipStep_loop goos env False (Split (If step) '' && '')"
    by (simp add: skipStep_def)
  show "skipStep goos env step = Inr True"
  proof (cases "skipStep goos env step")
    case (Inl p)
    with eq os show ?thesis
      using skipStep_loop_panic_os[of goos env False "Split (If step) '' && ''" p] by simp
  next
    case (Inr b)
    with nF show ?thesis by (cases b) auto
  qed
qed

text \<open>
  The loop over clauses that pass followed by other clauses, and the loop on the clause
  \<open>os\<close> written without a value: the indexing \<open>keyValue[1]\<close> of line 867 is not guarded
  by the length of the slice, unlike the one of line 877.
\<close>

lemma skipStep_loop_append:
  "skipStep_loop goos env False (pre @ cs) =
     (case skipStep_loop goos env False pre of
        Inr False \<Rightarrow> skipStep_loop goos env False cs
      | r \<Rightarrow> r)"
proof (induction pre)
  case Nil
  show ?case by simp
next
  case (Cons c pre)
  show ?case
  proof (cases "skipStep_loop goos env False [c]")
    case (Inl p)
    then show ?thesis
      using skipStep_loop_Cons[of goos env c "pre @ cs"] skipStep_loop_Cons[of goos env c pre]
      by (simp del: skipStep_loop.simps)
  next
    case (Inr b)
    with Cons show ?thesis
      using skipStep_loop_Cons[of goos env c "pre @ cs"] skipStep_loop_Cons[of goos env c pre]
      by (cases b) (simp_all del: skipStep_loop.simps)
  qed
qed

lemma skipStep_loop_bare_os:
  "skipStep_loop goos env False (''os'' # rest) = Inl IndexOutOfRange"
  by (simp add: HasPrefix_def)

lemma Split_nonempty_If:
  assumes "Split (If step) '' && '' = pre @ c # rest" and "c \<noteq> []"
  shows "If step \<noteq> []"
proof
  assume "If step = []"
  then have "pre @ c # rest = [[]]"
    using assms(1) by (simp add: Split_def)
  then have "c = []"
    by (cases pre) simp_all
  with assms(2) show False by simp
qed

lemma skipStep_env_unset_at:
  assumes "CHR ''='' \<notin> set name" "env name = None"
    and "c = ''env:'' @ name \<or> c = ''env:'' @ name @ ''='' @ w"
    and "Split (If step) '' && '' = pre @ c # rest" and "''os'' \<notin> set pre"
  shows "skipStep goos env step = Inr True"
proof -
  have "c \<noteq> []"
    using assms(3) by auto
  then have "If step \<noteq> []"
    using assms(4) by (rule Split_nonempty_If[rotated])
  then have eq: "skipStep goos env step = skipStep_loop goos env False (pre @ c # rest)"
    by (simp add: skipStep_def assms(4))
  have one: "skipStep_loop goos env False [c] = Inr True"
    using assms(1-3) by (rule env_name_clause_unset)
  have c: "skipStep_loop goos env False (c # rest) = Inr True"
    using skipStep_loop_Cons[of goos env c rest] one by (simp del: skipStep_loop.simps)
  show ?thesis
  proof (cases "skipStep_loop goos env False pre")
    case (Inl p)
    then show ?thesis
      using skipStep_loop_panic_os[of goos env False pre p] assms(5) by simp
  next
    case (Inr b)
    then show ?thesis
      unfolding eq skipStep_loop_append[of goos env pre "c # rest"] c
      by (cases b) simp_all
  qed
qed

lemma skipStep_bare_os:
  assumes "Split (If step) '' && '' = pre @ ''os'' # rest"
    and "\<forall>c \<in> set pre. skipStep_loop goos env False [c] = Inr False"
  shows "skipStep goos env step = Inl IndexOutOfRange"
proof -
  have "If step \<noteq> []"
    using assms(1) by (rule Split_nonempty_If) simp
  then have eq: "skipStep goos env step = skipStep_loop goos env False (pre @ ''os'' # rest)"
    by (simp add: skipStep_def assms(1))
  have "skipStep_loop goos env False pre = Inr False"
    using assms(2) by (simp only: skipStep_loop_conj[of goos env pre])
  then show ?thesis
    unfolding eq skipStep_loop_append[of goos env pre "''os'' # rest"] skipStep_loop_bare_os
    by simp
qed

lemma skipStep_os_env_panics:
  "skipStep goos env (step\<lparr>If := ''os && env:FOO''\<rparr>) = Inl IndexOutOfRange"
  by (simp add: skipStep_def Split_def HasPrefix_def)

text \<open>
  C3. \<open>skipStep\<close> reads the \<open>If\<close> field as a conjunction of the clauses separated by
  \<open>" && "\<close>. A step with \<open>If = "os=linux && env:FOO=bar"\<close> runs (the result is \<open>false\<close>)
  exactly when the current OS is \<open>linux\<close> and \<open>FOO\<close> is set to \<open>bar\<close>. The clause
  \<open>env:NAME\<close> without \<open>=\<close> never causes a skip when \<open>NAME\<close> is set, whatever its value:
  alone it lets the step run, and inside a conjunction the decision is that of the
  remaining clauses. When \<open>NAME\<close> is not set, a clause \<open>env:NAME\<close> or \<open>env:NAME=value\<close>
  that the loop reaches skips the step whatever follows it; the step is skipped when no
  clause before it is the word \<open>os\<close> without a value, and in no case does the step run.
  The step runs exactly when every clause passes on its own. The claim fails on a
  clause \<open>os\<close> without a value: when the clauses before it pass, \<open>skipStep\<close> panics on
  \<open>keyValue[1]\<close> instead of deciding, so a step with \<open>If = "os && env:FOO"\<close> is not
  skipped when \<open>FOO\<close> is unset: the program stops.
\<close>

theorem skipStep_conjunction:
  "skipStep goos env (step\<lparr>If := ''os=linux && env:FOO=bar''\<rparr>)
      = Inr (\<not> (goos = ''linux'' \<and> env ''FOO'' = Some ''bar''))
   \<and> (env ''FOO'' = Some v \<longrightarrow> skipStep goos env (step\<lparr>If := ''env:FOO''\<rparr>) = Inr False)
   \<and> (CHR ''='' \<notin> set name \<and> env name = Some v \<longrightarrow>
        skipStep_loop goos env False ((''env:'' @ name) # rest)
          = skipStep_loop goos env False rest)
   \<and> (CHR ''='' \<notin> set name \<and> env name = None
        \<and> (c = ''env:'' @ name \<or> c = ''env:'' @ name @ ''='' @ w) \<longrightarrow>
        skipStep_loop goos env False (c # rest) = Inr True
        \<and> (Split (If step) '' && '' = pre @ c # rest \<and> ''os'' \<notin> set pre
             \<longrightarrow> skipStep goos env step = Inr True)
        \<and> (c \<in> set (Split (If step) '' && '') \<longrightarrow> skipStep goos env step \<noteq> Inr False))
   \<and> (skipStep goos env step = Inr False \<longleftrightarrow>
        (\<forall>c \<in> set (Split (If step) '' && ''). skipStep_loop goos env False [c] = Inr False))
   \<and> (Split (If step) '' && '' = pre @ ''os'' # rest
        \<and> (\<forall>c \<in> set pre. skipStep_loop goos env False [c] = Inr False)
        \<longrightarrow> skipStep goos env step = Inl IndexOutOfRange)
   \<and> skipStep goos env (step\<lparr>If := ''os && env:FOO''\<rparr>) = Inl IndexOutOfRange"
proof (intro conjI impI)
  show "skipStep goos env (step\<lparr>If := ''os=linux && env:FOO=bar''\<rparr>)
      = Inr (\<not> (goos = ''linux'' \<and> env ''FOO'' = Some ''bar''))"
    by (rule skipStep_example)
next
  assume "env ''FOO'' = Some v"
  then show "skipStep goos env (step\<lparr>If := ''env:FOO''\<rparr>) = Inr False"
    by (rule skipStep_env_present)
next
  assume "CHR ''='' \<notin> set name \<and> env name = Some v"
  then show "skipStep_loop goos env False ((''env:'' @ name) # rest)
          = skipStep_loop goos env False rest"
    using env_name_clause_passes[of name env v goos rest] by blast
next
  assume a: "CHR ''='' \<notin> set name \<and> env name = None
        \<and> (c = ''env:'' @ name \<or> c = ''env:'' @ name @ ''='' @ w)"
  then have one: "skipStep_loop goos env False [c] = Inr True"
    using env_name_clause_unset[of name env c w goos] by blast
  then show "skipStep_loop goos env False (c # rest) = Inr True"
    using skipStep_loop_Cons[of goos env c rest] by (simp del: skipStep_loop.simps)
  {
    assume "Split (If step) '' && '' = pre @ c # rest \<and> ''os'' \<notin> set pre"
    with a show "skipStep goos env step = Inr True"
      using skipStep_env_unset_at[of name env c w step pre rest goos] by blast
  }
  {
    assume "c \<in> set (Split (If step) '' && '')"
    with a show "skipStep goos env step \<noteq> Inr False"
      using skipStep_env_unset(1)[of name env c w step goos] by blast
  }
next
  show "skipStep goos env step = Inr False \<longleftrightarrow>
        (\<forall>c \<in> set (Split (If step) '' && ''). skipStep_loop goos env False [c] = Inr False)"
    by (rule skipStep_all_pass)
next
  assume "Split (If step) '' && '' = pre @ ''os'' # rest
        \<and> (\<forall>c \<in> set pre. skipStep_loop goos env False [c] = Inr False)"
  then show "skipStep goos env step = Inl IndexOutOfRange"
    using skipStep_bare_os[of step pre rest goos env] by blast
next
  show "skipStep goos env (step\<lparr>If := ''os && env:FOO''\<rparr>) = Inl IndexOutOfRange"
    by (rule skipStep_os_env_panics)
qed

theorem skipStep_conjunction_witness:
  "skipStep ''linux'' [''FOO'' \<mapsto> ''bar'']
      \<lparr>Name = ''pre'', Script = ''prepare.sh'', Run = [], If = ''os=linux && env:FOO=bar'',
       Timeout = []\<rparr> = Inr False
   \<and> skipStep ''linux'' [''FOO'' \<mapsto> ''any'']
      \<lparr>Name = ''pre'', Script = ''prepare.sh'', Run = [], If = ''env:FOO'', Timeout = []\<rparr>
        = Inr False
   \<and> skipStep ''linux'' Map.empty
      \<lparr>Name = ''pre'', Script = ''prepare.sh'', Run = [], If = ''os=linux && env:FOO=bar'',
       Timeout = []\<rparr> = Inr True
   \<and> skipStep ''linux'' Map.empty
      \<lparr>Name = ''pre'', Script = ''prepare.sh'', Run = [], If = ''env:FOO && os'',
       Timeout = []\<rparr> = Inr True
   \<and> skipStep ''linux'' Map.empty
      \<lparr>Name = ''pre'', Script = ''prepare.sh'', Run = [], If = ''os && env:FOO'',
       Timeout = []\<rparr> = Inl IndexOutOfRange
   \<and> skipStep ''linux'' [''FOO'' \<mapsto> ''bar'']
      \<lparr>Name = ''pre'', Script = ''prepare.sh'', Run = [], If = ''env:FOO && os'',
       Timeout = []\<rparr> = Inl IndexOutOfRange"
proof -
  let ?s = "\<lparr>Name = ''pre'', Script = ''prepare.sh'', Run = [], If = ''os=linux && env:FOO=bar'',
       Timeout = []\<rparr>"
  let ?t = "\<lparr>Name = ''pre'', Script = ''prepare.sh'', Run = [], If = ''env:FOO && os'',
       Timeout = []\<rparr>"
  have sp: "Split (If ?s) '' && '' = [''os=linux''] @ ''env:FOO=bar'' # []"
    by (simp add: Split_def HasPrefix_def)
  have tp: "Split (If ?t) '' && '' = [] @ ''env:FOO'' # [''os'']"
    "Split (If ?t) '' && '' = [''env:FOO''] @ ''os'' # []"
    by (simp_all add: Split_def HasPrefix_def)
  have a: "skipStep ''linux'' [''FOO'' \<mapsto> ''bar''] ?s = Inr False"
    using skipStep_conjunction[where goos = "''linux''" and env = "[''FOO'' \<mapsto> ''bar'']"
        and step = ?s and v = "''bar''" and name = "''FOO''" and rest = "[]"
        and c = "''env:FOO''" and w = "[]" and pre = "[]"]
    by simp
  have b: "skipStep ''linux'' [''FOO'' \<mapsto> ''any'']
      \<lparr>Name = ''pre'', Script = ''prepare.sh'', Run = [], If = ''env:FOO'', Timeout = []\<rparr>
        = Inr False"
    using skipStep_conjunction[where goos = "''linux''" and env = "[''FOO'' \<mapsto> ''any'']"
        and step = ?s and v = "''any''" and name = "''FOO''" and rest = "[]"
        and c = "''env:FOO''" and w = "[]" and pre = "[]"]
    by simp
  have c: "skipStep ''linux'' Map.empty ?s = Inr True"
    using skipStep_conjunction[where goos = "''linux''" and env = Map.empty
        and step = ?s and v = "''bar''" and name = "''FOO''" and rest = "[]"
        and c = "''env:FOO=bar''" and w = "''bar''" and pre = "[''os=linux'']"] sp
    by (simp del: skipStep_loop.simps)
  have d: "skipStep ''linux'' Map.empty ?t = Inr True"
    using skipStep_conjunction[where goos = "''linux''" and env = Map.empty
        and step = ?t and v = "''bar''" and name = "''FOO''" and rest = "[''os'']"
        and c = "''env:FOO''" and w = "[]" and pre = "[]"] tp(1)
    by (simp del: skipStep_loop.simps)
  have e: "skipStep ''linux'' Map.empty
      \<lparr>Name = ''pre'', Script = ''prepare.sh'', Run = [], If = ''os && env:FOO'',
       Timeout = []\<rparr> = Inl IndexOutOfRange"
    using skipStep_conjunction[where goos = "''linux''" and env = Map.empty
        and step = ?s and v = "''bar''" and name = "''FOO''" and rest = "[]"
        and c = "''env:FOO''" and w = "[]" and pre = "[]"]
    by simp
  have p: "skipStep_loop ''linux'' [''FOO'' \<mapsto> ''bar''] False [''env:FOO''] = Inr False"
    by (simp add: HasPrefix_def TrimPrefix_def)
  have f: "skipStep ''linux'' [''FOO'' \<mapsto> ''bar''] ?t = Inl IndexOutOfRange"
    using skipStep_conjunction[where goos = "''linux''" and env = "[''FOO'' \<mapsto> ''bar'']"
        and step = ?t and v = "''bar''" and name = "''FOO''" and rest = "[]"
        and c = "''env:FOO''" and w = "[]" and pre = "[''env:FOO'']"] tp(2) p
    by (simp del: skipStep_loop.simps)
  from a b c d e f show ?thesis by blast
qed

section \<open>Properties of \<open>setupEnvSettings\<close> and of the built resource\<close>

lemma setupEnvSettings_eq:
  "setupEnvSettings o' test runConfig
     = (None, test\<lparr>Spec := (Spec test)\<lparr>spec_Env :=
                spec_Env (Spec (snd (setupEnvSettings o' test0 runConfig)))\<rparr>\<rparr>)"
  by (simp add: setupEnvSettings_def Let_def)

lemma setupEnvSettings_cli_last:
  "spec_Env (Spec (snd (setupEnvSettings o' test0 runConfig)))
     = spec_Env (Spec (snd (setupEnvSettings (o'\<lparr>o_Env := None\<rparr>) test0 runConfig)))
       @ (case o_Env o' of Some cli \<Rightarrow> cli | None \<Rightarrow> [])"
  by (simp add: setupEnvSettings_def Let_def)

lemma setupEnvSettings_first:
  "\<exists>mid. spec_Env (Spec (snd (setupEnvSettings o' test0 runConfig)))
     = (NamespaceEnv @ ''='' @ ns_Name (Namespace (Config runConfig))) # mid
        @ map (\<lambda>envConfig. env_Name envConfig @ ''='' @ env_Value envConfig)
            (Env (Runtime (Config runConfig)))
        @ (case o_Env o' of Some cli \<Rightarrow> cli | None \<Rightarrow> [])"
  by (simp add: setupEnvSettings_def Let_def)

lemma newSettings_o_Env:
  "newSettings h c (o'\<lparr>o_Env := e\<rparr>) runConfig x = newSettings h c o' runConfig x"
  by (simp add: newSettings_def)

text \<open>The environment of a built resource is the one that \<open>setupEnvSettings\<close> computes.\<close>

lemma build_env_of:
  assumes "createAndRunTest_build h c o' rawName runConfig x = Inr test"
  shows "spec_Env (Spec test) = spec_Env (Spec (snd (setupEnvSettings o' test0 runConfig)))"
proof -
  obtain E where E: "\<And>t. setupEnvSettings o' t runConfig
                         = (None, t\<lparr>Spec := (Spec t)\<lparr>spec_Env := E\<rparr>\<rparr>)"
    and E0: "E = spec_Env (Spec (snd (setupEnvSettings o' test0 runConfig)))"
    using setupEnvSettings_eq[of o' _ runConfig test0] by blast
  show ?thesis
    using assms unfolding E0[symmetric]
    by (auto simp: createAndRunTest_build_def Let_def E
        split: sum.splits option.splits if_splits)
qed

text \<open>Whether the resource can be built does not depend on the \<open>-e\<close> entries.\<close>

lemma build_o_Env:
  assumes "createAndRunTest_build h c o' rawName runConfig x = Inr test"
  shows "\<exists>test'. createAndRunTest_build h c (o'\<lparr>o_Env := e\<rparr>) rawName runConfig x = Inr test'"
proof -
  obtain E where E: "\<And>t. setupEnvSettings o' t runConfig
                         = (None, t\<lparr>Spec := (Spec t)\<lparr>spec_Env := E\<rparr>\<rparr>)"
    using setupEnvSettings_eq[of o' _ runConfig test] by blast
  obtain E' where E': "\<And>t. setupEnvSettings (o'\<lparr>o_Env := e\<rparr>) t runConfig
                           = (None, t\<lparr>Spec := (Spec t)\<lparr>spec_Env := E'\<rparr>\<rparr>)"
    using setupEnvSettings_eq[of "o'\<lparr>o_Env := e\<rparr>" _ runConfig test] by blast
  show ?thesis
    using assms
    by (auto simp: createAndRunTest_build_def Let_def E E' newSettings_o_Env
        split: sum.splits option.splits if_splits)
qed

lemma example_build:
  "createAndRunTest_build example_Helpers api_Cluster example_options ''a.feature''
     example_RunConfig s = Inr example_Test"
  by (simp add: createAndRunTest_build_def example_Helpers_def api_Cluster_def
      example_options_def example_RunConfig_def example_Test_def newSettings_def
      setupEnvSettings_def NamespaceEnv_def Let_def)


text \<open>
  C9. Every Test resource that \<open>createAndRunTest\<close> builds, for any run configuration and
  any options, has a non-empty \<open>Spec.Env\<close> whose first entry is
  \<open>YAKS_NAMESPACE=<configured namespace name>\<close>; the entries of the run configuration's
  \<open>Runtime.Env\<close> come last but for the \<open>-e\<close> entries of the command line, which are the
  end of the list: without them the same resource is built with the list cut before
  them.
\<close>

theorem built_env_namespace_first_cli_last:
  assumes "createAndRunTest_build h c o' rawName runConfig x = Inr test"
  shows "spec_Env (Spec test) \<noteq> []
    \<and> hd (spec_Env (Spec test)) = ''YAKS_NAMESPACE='' @ ns_Name (Namespace (Config runConfig))
    \<and> (\<exists>mid. spec_Env (Spec test)
          = (''YAKS_NAMESPACE='' @ ns_Name (Namespace (Config runConfig))) # mid
            @ map (\<lambda>envConfig. env_Name envConfig @ ''='' @ env_Value envConfig)
                (Env (Runtime (Config runConfig)))
            @ (case o_Env o' of Some cli \<Rightarrow> cli | None \<Rightarrow> []))
    \<and> (\<exists>test'. createAndRunTest_build h c (o'\<lparr>o_Env := None\<rparr>) rawName runConfig x = Inr test'
          \<and> spec_Env (Spec test)
              = spec_Env (Spec test') @ (case o_Env o' of Some cli \<Rightarrow> cli | None \<Rightarrow> []))"
proof -
  let ?cli = "case o_Env o' of Some cli \<Rightarrow> cli | None \<Rightarrow> []"
  let ?E = "spec_Env (Spec (snd (setupEnvSettings o' example_Test runConfig)))"
  have env: "spec_Env (Spec test) = ?E"
    using assms by (rule build_env_of)
  obtain mid where mid: "?E
      = (NamespaceEnv @ ''='' @ ns_Name (Namespace (Config runConfig))) # mid
        @ map (\<lambda>envConfig. env_Name envConfig @ ''='' @ env_Value envConfig)
            (Env (Runtime (Config runConfig)))
        @ ?cli"
    using setupEnvSettings_first[of o' example_Test runConfig] by blast
  obtain test' where
    t': "createAndRunTest_build h c (o'\<lparr>o_Env := None\<rparr>) rawName runConfig x = Inr test'"
    using build_o_Env[OF assms] by blast
  have env': "spec_Env (Spec test')
      = spec_Env (Spec (snd (setupEnvSettings (o'\<lparr>o_Env := None\<rparr>) example_Test runConfig)))"
    using t' by (rule build_env_of)
  have last: "spec_Env (Spec test) = spec_Env (Spec test') @ ?cli"
    unfolding env env' by (rule setupEnvSettings_cli_last)
  have first: "spec_Env (Spec test)
      = (''YAKS_NAMESPACE='' @ ns_Name (Namespace (Config runConfig))) # mid
        @ map (\<lambda>envConfig. env_Name envConfig @ ''='' @ env_Value envConfig)
            (Env (Runtime (Config runConfig)))
        @ ?cli"
    unfolding env mid by (simp add: NamespaceEnv_def)
  have ne: "spec_Env (Spec test) \<noteq> []"
    unfolding first by simp
  have hd: "hd (spec_Env (Spec test))
      = ''YAKS_NAMESPACE='' @ ns_Name (Namespace (Config runConfig))"
    unfolding first by simp
  from ne hd first t' last show ?thesis
    by blast
qed

theorem built_env_namespace_first_cli_last_witness:
  "createAndRunTest_build example_Helpers api_Cluster example_options ''a.feature''
     example_RunConfig Map.empty = Inr example_Test
   \<and> spec_Env (Spec example_Test) = [''YAKS_NAMESPACE=tests'', ''FOO=config'', ''FOO=cli'']
   \<and> hd (spec_Env (Spec example_Test)) = ''YAKS_NAMESPACE=tests''
   \<and> o_Env example_options = Some [''FOO=cli'']
   \<and> (\<exists>test'. createAndRunTest_build example_Helpers api_Cluster
                  (example_options\<lparr>o_Env := None\<rparr>) ''a.feature'' example_RunConfig Map.empty
                = Inr test'
          \<and> spec_Env (Spec example_Test) = spec_Env (Spec test') @ [''FOO=cli''])"
proof -
  have b: "createAndRunTest_build example_Helpers api_Cluster example_options ''a.feature''
     example_RunConfig Map.empty = Inr example_Test"
    by (rule example_build)
  have ns: "ns_Name (Namespace (Config example_RunConfig)) = ''tests''"
    by (simp add: example_RunConfig_def)
  have cli: "o_Env example_options = Some [''FOO=cli'']"
    by (simp add: example_options_def)
  have env: "spec_Env (Spec example_Test) = [''YAKS_NAMESPACE=tests'', ''FOO=config'', ''FOO=cli'']"
    by (simp add: example_Test_def)
  show ?thesis
    using built_env_namespace_first_cli_last[OF b] b cli env
    by (simp add: ns)
qed

section \<open>Properties of \<open>createAndRunTest\<close>\<close>

text \<open>
  C10. When sanitizing the raw source path gives the empty name, \<open>createAndRunTest\<close>
  returns a \<open>nil\<close> Test with the error \<open>unable to determine test name\<close>, and the world
  is the one it started in: no client call, no output, no change of the cluster or of
  the files.
\<close>

theorem empty_name_no_effect:
  assumes "SanitizeName h rawName = []"
  shows "createAndRunTest h c o' rawName runConfig w
           = Some ((None, Some (errors_New ''unable to determine test name'')), w)"
  using assms by (simp add: createAndRunTest_def createAndRunTest_build_def)

theorem empty_name_no_effect_witness:
  "SanitizeName example_Helpers ''./'' = []
   \<and> createAndRunTest example_Helpers api_Cluster example_options ''./'' example_RunConfig
        \<lparr>ext = Map.empty, trace = []\<rparr>
       = Some ((None, Some (Error [] 0 ''unable to determine test name'')),
               \<lparr>ext = Map.empty, trace = []\<rparr>)"
proof -
  have e: "SanitizeName example_Helpers ''./'' = []"
    by (simp add: example_Helpers_def)
  show ?thesis
    using empty_name_no_effect[OF e, of api_Cluster example_options example_RunConfig
        "\<lparr>ext = Map.empty, trace = []\<rparr>"] e
    by (simp add: errors_New_def)
qed


lemma dump_result:
  "ext (snd (createAndRunTest_dump h o' test w)) = ext w
   \<and> fst (fst (createAndRunTest_dump h o' test w)) = None
   \<and> (trace (snd (createAndRunTest_dump h o' test w)) = trace w
        \<or> (\<exists>data. trace (snd (createAndRunTest_dump h o' test w)) = trace w @ [Print data]))"
  by (auto simp: createAndRunTest_dump_def emit_def split: sum.splits)

lemma dump_rejected:
  "o_DumpFormat o' \<noteq> ''yaml'' \<Longrightarrow> o_DumpFormat o' \<noteq> ''json'' \<Longrightarrow>
     createAndRunTest_dump h o' test w
       = ((None, Some (errors_New (''invalid dump output format option ''
                                    @ quoted (o_DumpFormat o')
                                    @ '', should be one of: yaml|json''))), w)"
  by (simp add: createAndRunTest_dump_def)

lemma createAndRunTest_dump_mode:
  assumes "o_DumpFormat o' \<noteq> []"
  shows "createAndRunTest h c o' rawName runConfig w
     = (case createAndRunTest_build h c o' rawName runConfig (ext w) of
          Inl err \<Rightarrow> Some ((None, Some err), w)
        | Inr test \<Rightarrow> Some (createAndRunTest_dump h o' test w))"
  using assms by (simp add: createAndRunTest_def split: sum.splits)

text \<open>
  C4. When a dump format is requested (\<open>o.DumpFormat\<close> is not empty), \<open>createAndRunTest\<close>
  returns a \<open>nil\<close> Test without any create, update, get or status call: the cluster
  and file state is unchanged and the trace grows by at most one printed text. When
  the resource is built and the format is \<open>yaml\<close> or \<open>json\<close>, the serialized resource
  is printed and the result is \<open>(nil, nil)\<close>. Any other non-empty format is an error
  and leaves the world as it was; when the resource is built the error is the invalid
  format error.
\<close>

theorem dump_short_circuit:
  assumes "o_DumpFormat o' \<noteq> []"
  shows "(\<exists>out w'. createAndRunTest h c o' rawName runConfig w = Some (out, w')
            \<and> fst out = None \<and> ext w' = ext w
            \<and> (trace w' = trace w \<or> (\<exists>data. trace w' = trace w @ [Print data]))
            \<and> (o_DumpFormat o' \<noteq> ''yaml'' \<and> o_DumpFormat o' \<noteq> ''json''
                  \<longrightarrow> snd out \<noteq> None \<and> w' = w))
     \<and> (\<forall>test data. createAndRunTest_build h c o' rawName runConfig (ext w) = Inr test
            \<and> ((o_DumpFormat o' = ''yaml'' \<and> ToYAML h test = Inr data)
                 \<or> (o_DumpFormat o' = ''json'' \<and> ToJSON h test = Inr data))
          \<longrightarrow> createAndRunTest h c o' rawName runConfig w
                = Some ((None, None), w\<lparr>trace := trace w @ [Print data]\<rparr>))
     \<and> (\<forall>test. createAndRunTest_build h c o' rawName runConfig (ext w) = Inr test
            \<and> o_DumpFormat o' \<noteq> ''yaml'' \<and> o_DumpFormat o' \<noteq> ''json''
          \<longrightarrow> createAndRunTest h c o' rawName runConfig w
                = Some ((None, Some (errors_New (''invalid dump output format option ''
                                    @ quoted (o_DumpFormat o')
                                    @ '', should be one of: yaml|json''))), w))"
proof (intro conjI allI impI)
  show "\<exists>out w'. createAndRunTest h c o' rawName runConfig w = Some (out, w')
            \<and> fst out = None \<and> ext w' = ext w
            \<and> (trace w' = trace w \<or> (\<exists>data. trace w' = trace w @ [Print data]))
            \<and> (o_DumpFormat o' \<noteq> ''yaml'' \<and> o_DumpFormat o' \<noteq> ''json''
                  \<longrightarrow> snd out \<noteq> None \<and> w' = w)"
  proof (cases "createAndRunTest_build h c o' rawName runConfig (ext w)")
    case (Inl err)
    then show ?thesis
      by (simp add: createAndRunTest_dump_mode[OF assms])
  next
    case (Inr test)
    obtain out w' where d: "createAndRunTest_dump h o' test w = (out, w')"
      by (cases "createAndRunTest_dump h o' test w")
    have "fst out = None \<and> ext w' = ext w
            \<and> (trace w' = trace w \<or> (\<exists>data. trace w' = trace w @ [Print data]))"
      using dump_result[of h o' test w] d by simp
    moreover have "o_DumpFormat o' \<noteq> ''yaml'' \<and> o_DumpFormat o' \<noteq> ''json''
                  \<longrightarrow> snd out \<noteq> None \<and> w' = w"
      using dump_rejected[of o' h test w] d by auto
    ultimately show ?thesis
      using Inr d by (simp add: createAndRunTest_dump_mode[OF assms])
  qed
next
  fix test data
  assume "createAndRunTest_build h c o' rawName runConfig (ext w) = Inr test
            \<and> ((o_DumpFormat o' = ''yaml'' \<and> ToYAML h test = Inr data)
                 \<or> (o_DumpFormat o' = ''json'' \<and> ToJSON h test = Inr data))"
  then show "createAndRunTest h c o' rawName runConfig w
                = Some ((None, None), w\<lparr>trace := trace w @ [Print data]\<rparr>)"
    by (auto simp: createAndRunTest_dump_mode[OF assms] createAndRunTest_dump_def emit_def)
next
  fix test
  assume "createAndRunTest_build h c o' rawName runConfig (ext w) = Inr test
            \<and> o_DumpFormat o' \<noteq> ''yaml'' \<and> o_DumpFormat o' \<noteq> ''json''"
  then show "createAndRunTest h c o' rawName runConfig w
                = Some ((None, Some (errors_New (''invalid dump output format option ''
                                    @ quoted (o_DumpFormat o')
                                    @ '', should be one of: yaml|json''))), w)"
    by (simp add: createAndRunTest_dump_mode[OF assms] dump_rejected)
qed

lemma example_build_dump:
  "createAndRunTest_build example_Helpers api_Cluster (example_options\<lparr>o_DumpFormat := fmt\<rparr>)
     ''a.feature'' example_RunConfig s = Inr example_Test"
  by (simp add: createAndRunTest_build_def example_Helpers_def api_Cluster_def
      example_options_def example_RunConfig_def example_Test_def newSettings_def
      setupEnvSettings_def NamespaceEnv_def Let_def)

theorem dump_short_circuit_witness:
  "createAndRunTest example_Helpers api_Cluster (example_options\<lparr>o_DumpFormat := ''yaml''\<rparr>)
      ''a.feature'' example_RunConfig \<lparr>ext = Map.empty, trace = []\<rparr>
     = Some ((None, None), \<lparr>ext = Map.empty, trace = [Print ''kind: Test name: afeature'']\<rparr>)
   \<and> createAndRunTest example_Helpers api_Cluster (example_options\<lparr>o_DumpFormat := ''xml''\<rparr>)
      ''a.feature'' example_RunConfig \<lparr>ext = Map.empty, trace = []\<rparr>
     = Some ((None, Some (Error [] 0
          ''invalid dump output format option 'xml', should be one of: yaml|json'')),
         \<lparr>ext = Map.empty, trace = []\<rparr>)"
proof -
  let ?w = "\<lparr>ext = Map.empty, trace = []\<rparr> :: store world"
  have y: "o_DumpFormat (example_options\<lparr>o_DumpFormat := ''yaml''\<rparr>) \<noteq> []"
    and x: "o_DumpFormat (example_options\<lparr>o_DumpFormat := ''xml''\<rparr>) \<noteq> []"
    by simp_all
  have ser: "ToYAML example_Helpers example_Test = Inr ''kind: Test name: afeature''"
    by (simp add: example_Helpers_def example_Test_def)
  have a: "createAndRunTest example_Helpers api_Cluster
      (example_options\<lparr>o_DumpFormat := ''yaml''\<rparr>) ''a.feature'' example_RunConfig ?w
     = Some ((None, None), ?w\<lparr>trace := trace ?w @ [Print ''kind: Test name: afeature'']\<rparr>)"
    using dump_short_circuit[OF y, of example_Helpers api_Cluster "''a.feature''"
        example_RunConfig ?w] example_build_dump[of "''yaml''" Map.empty] ser
    by simp
  have b: "createAndRunTest example_Helpers api_Cluster
      (example_options\<lparr>o_DumpFormat := ''xml''\<rparr>) ''a.feature'' example_RunConfig ?w
     = Some ((None, Some (errors_New (''invalid dump output format option ''
                                    @ quoted ''xml'' @ '', should be one of: yaml|json''))), ?w)"
    using dump_short_circuit[OF x, of example_Helpers api_Cluster "''a.feature''"
        example_RunConfig ?w] example_build_dump[of "''xml''" Map.empty]
    by simp
  from a b show ?thesis
    by (simp add: errors_New_def quoted_def)
qed

section \<open>Properties of the watcher\<close>

lemma phaseCondition_fst:
  "fst (phaseCondition obj status)
     \<longleftrightarrow> (\<exists>val. obj = TestObj val \<and> spec_terminal (Phase (Status val)))"
  by (cases obj) (auto simp: phaseCondition_def spec_terminal_def Let_def)

lemma phaseCondition_snd:
  "snd (phaseCondition (TestObj val) status)
     = (if Phase (Status val) \<noteq> TestPhaseNone then Phase (Status val) else status)"
  by (simp add: phaseCondition_def Let_def)

lemma spec_lastPhase_Cons:
  "spec_lastPhase status (phase # phases)
     = spec_lastPhase (if phase \<noteq> TestPhaseNone then phase else status) phases"
  by (auto simp: spec_lastPhase_def split: list.splits)

lemma phaseCondition_foldl:
  "foldl (\<lambda>s val. snd (phaseCondition (TestObj val) s)) status vals
     = spec_lastPhase status (map (\<lambda>val. Phase (Status val)) vals)"
proof (induction vals arbitrary: status)
  case Nil
  show ?case by (simp add: spec_lastPhase_def)
next
  case (Cons val vals)
  have "foldl (\<lambda>s val. snd (phaseCondition (TestObj val) s)) status (val # vals)
      = spec_lastPhase (snd (phaseCondition (TestObj val) status))
          (map (\<lambda>val. Phase (Status val)) vals)"
    unfolding foldl_Cons by (rule Cons.IH)
  then show ?case
    by (simp only: phaseCondition_snd spec_lastPhase_Cons list.map)
qed

lemma WaitCondition_status:
  "snd (WaitCondition phaseCondition polled test status)
     = spec_lastPhase status (map (\<lambda>val. Phase (Status val)) (spec_observed polled))"
proof (induction polled arbitrary: test status)
  case Nil
  show ?case by (simp add: spec_lastPhase_def)
next
  case (Cons val polled)
  obtain sat s' where pc: "phaseCondition (TestObj val) status = (sat, s')"
    by (cases "phaseCondition (TestObj val) status")
  have sat: "sat \<longleftrightarrow> spec_terminal (Phase (Status val))"
    using phaseCondition_fst[of "TestObj val" status] pc by simp
  have s': "s' = (if Phase (Status val) \<noteq> TestPhaseNone then Phase (Status val) else status)"
    using phaseCondition_snd[of val status] pc by simp
  show ?case
  proof (cases sat)
    case True
    then show ?thesis
      using sat s' pc by (simp add: spec_lastPhase_def)
  next
    case False
    then show ?thesis
      using sat s' pc Cons.IH[of val s'] by (simp add: spec_lastPhase_Cons)
  qed
qed



text \<open>
  The steps of the watcher. The first prints the line about a timeout that does not
  parse and changes nothing else; the second polls with the chosen duration.
\<close>

lemma ext_logged:
  "ext (case failure of Some line \<Rightarrow> Println line w | None \<Rightarrow> w) = ext w"
  by (cases failure) (simp_all add: Println_def emit_def)

lemma logged_ext_update:
  "(case failure of Some line \<Rightarrow> Println line (w\<lparr>ext := x\<rparr>) | None \<Rightarrow> w\<lparr>ext := x\<rparr>)\<lparr>ext := x'\<rparr>
     = (case failure of Some line \<Rightarrow> Println line w | None \<Rightarrow> w)\<lparr>ext := x'\<rparr>"
  by (cases failure) (simp_all add: Println_def emit_def)

lemma world_ext_same: "w\<lparr>ext := ext w\<rparr> = w"
  by (cases w) simp

lemma watcher_step_started:
  "watcher_step h c o' runConfig test WatcherStarted w
     = (TimeoutChosen (fst (waitTimeout h o' runConfig)),
        case snd (waitTimeout h o' runConfig) of Some line \<Rightarrow> Println line w | None \<Rightarrow> w)"
  by (simp split: prod.splits option.splits)

lemma watcher_step_chosen:
  assumes "polls c test timeout (o_Wait o') (ext w) = (polled, x)"
  shows "watcher_step h c o' runConfig test (TimeoutChosen timeout) w
     = (Polled (fst (WaitCondition phaseCondition polled test TestPhaseNew))
          (snd (WaitCondition phaseCondition polled test TestPhaseNew)), w\<lparr>ext := x\<rparr>)"
  using assms by (simp split: prod.splits del: WaitCondition.simps)

lemma watcher_steps_Polled:
  "watcher_steps h c o' runConfig test n (Polled val status) w = (Polled val status, w)"
  by (induction n) simp_all

lemma watcher_steps_chosen:
  assumes "polls c test timeout (o_Wait o') (ext w) = (polled, x)"
  shows "watcher_steps h c o' runConfig test (Suc n) (TimeoutChosen timeout) w
     = (Polled (fst (WaitCondition phaseCondition polled test TestPhaseNew))
          (snd (WaitCondition phaseCondition polled test TestPhaseNew)), w\<lparr>ext := x\<rparr>)"
  unfolding watcher_steps.simps watcher_step_chosen[OF assms]
  by (simp add: watcher_steps_Polled del: WaitCondition.simps)

lemma watcher_steps_one:
  "watcher_steps h c o' runConfig test (Suc 0) WatcherStarted w
     = (TimeoutChosen (fst (waitTimeout h o' runConfig)),
        case snd (waitTimeout h o' runConfig) of Some line \<Rightarrow> Println line w | None \<Rightarrow> w)"
  unfolding watcher_steps.simps watcher_step_started by simp

lemma watcher_steps_all:
  assumes "polls c test (fst (waitTimeout h o' runConfig)) (o_Wait o') (ext w) = (polled, x)"
  shows "watcher_steps h c o' runConfig test (Suc (Suc n)) WatcherStarted w
     = (Polled (fst (WaitCondition phaseCondition polled test TestPhaseNew))
          (snd (WaitCondition phaseCondition polled test TestPhaseNew)),
        (case snd (waitTimeout h o' runConfig) of Some line \<Rightarrow> Println line w | None \<Rightarrow> w)
          \<lparr>ext := x\<rparr>)"
proof -
  let ?wl = "case snd (waitTimeout h o' runConfig) of Some line \<Rightarrow> Println line w | None \<Rightarrow> w"
  have p: "polls c test (fst (waitTimeout h o' runConfig)) (o_Wait o') (ext ?wl) = (polled, x)"
    using assms by (simp only: ext_logged)
  show ?thesis
    unfolding watcher_steps.simps(2)[of h c o' runConfig test "Suc n"] watcher_step_started
    using watcher_steps_chosen[OF p, of h runConfig n] by simp
qed

text \<open>
  The caller that is not in development mode, in every schedule. When it waits and the
  watcher has not polled before the log printer is started, the polls follow the log
  printer.
\<close>

lemma createAndRunTest_wait_behind:
  assumes "\<not> o_Dev o'" and "o_Wait o'" and "ahead c test (ext w) < 2"
    and "(if o_Logs o' then logPrint c (ns_Name (Namespace (Config runConfig))) name (ext w)
          else (None, ext w)) = (None, x)"
    and "polls c test (fst (waitTimeout h o' runConfig)) True x = (polled, x')"
  shows "createAndRunTest_wait h c o' runConfig name test w
     = Some ((Some (fst (WaitCondition phaseCondition polled test TestPhaseNew)),
              AsError h (snd (WaitCondition phaseCondition polled test TestPhaseNew)) name),
             Println
               (''Test '' @ quoted name @ '' finished with status: ''
                  @ TestPhase_string (snd (WaitCondition phaseCondition polled test TestPhaseNew)))
               ((case snd (waitTimeout h o' runConfig) of
                   Some line \<Rightarrow> Println line w
                 | None \<Rightarrow> w)\<lparr>ext := x'\<rparr>))"
proof -
  let ?wl = "case snd (waitTimeout h o' runConfig) of Some line \<Rightarrow> Println line w | None \<Rightarrow> w"
  have lg: "(if o_Logs o' \<and> o_Wait o'
             then logPrint c (ns_Name (Namespace (Config runConfig))) name (ext w)
             else (None, ext w)) = (None, x)"
    using assms(2,4) by simp
  consider "ahead c test (ext w) = 0" | "ahead c test (ext w) = Suc 0"
    using assms(3) by linarith
  then show ?thesis
  proof cases
    case 1
    have p: "polls c test (fst (waitTimeout h o' runConfig)) (o_Wait o') (ext (w\<lparr>ext := x\<rparr>))
               = (polled, x')"
      using assms(2,5) by simp
    have st: "watcher_steps h c o' runConfig test 2 WatcherStarted (w\<lparr>ext := x\<rparr>)
        = (Polled (fst (WaitCondition phaseCondition polled test TestPhaseNew))
             (snd (WaitCondition phaseCondition polled test TestPhaseNew)), ?wl\<lparr>ext := x'\<rparr>)"
      unfolding numeral_2_eq_2 watcher_steps_all[OF p] by (simp only: logged_ext_update)
    show ?thesis
      using assms(1,2)
      unfolding createAndRunTest_wait_def Let_def 1 watcher_steps.simps(1) prod.case lg
      by (simp add: st del: WaitCondition.simps watcher_steps.simps)
  next
    case 2
    have p: "polls c test (fst (waitTimeout h o' runConfig)) (o_Wait o') (ext (?wl\<lparr>ext := x\<rparr>))
               = (polled, x')"
      using assms(2,5) by simp
    have st: "watcher_steps h c o' runConfig test 2
                (TimeoutChosen (fst (waitTimeout h o' runConfig))) (?wl\<lparr>ext := x\<rparr>)
        = (Polled (fst (WaitCondition phaseCondition polled test TestPhaseNew))
             (snd (WaitCondition phaseCondition polled test TestPhaseNew)), ?wl\<lparr>ext := x'\<rparr>)"
      unfolding numeral_2_eq_2 watcher_steps_chosen[OF p] by simp
    show ?thesis
      using assms(1,2)
      unfolding createAndRunTest_wait_def Let_def 2 watcher_steps_one prod.case ext_logged lg
      by (simp add: st del: WaitCondition.simps watcher_steps.simps)
  qed
qed

text \<open>When the watcher has polled before the caller goes on, the log printer follows.\<close>

lemma createAndRunTest_wait_ahead:
  assumes "\<not> o_Dev o'" and "2 \<le> ahead c test (ext w)"
    and "polls c test (fst (waitTimeout h o' runConfig)) (o_Wait o') (ext w) = (polled, x)"
    and "(if o_Logs o' \<and> o_Wait o'
          then logPrint c (ns_Name (Namespace (Config runConfig))) name x
          else (None, x)) = (None, x')"
  shows "createAndRunTest_wait h c o' runConfig name test w
     = Some ((Some (fst (WaitCondition phaseCondition polled test TestPhaseNew)),
              AsError h (snd (WaitCondition phaseCondition polled test TestPhaseNew)) name),
             Println
               (if o_Wait o'
                then ''Test '' @ quoted name @ '' finished with status: ''
                       @ TestPhase_string
                           (snd (WaitCondition phaseCondition polled test TestPhaseNew))
                else ''Test '' @ quoted name @ '' started'')
               ((case snd (waitTimeout h o' runConfig) of
                   Some line \<Rightarrow> Println line w
                 | None \<Rightarrow> w)\<lparr>ext := x'\<rparr>))"
proof -
  let ?wl = "case snd (waitTimeout h o' runConfig) of Some line \<Rightarrow> Println line w | None \<Rightarrow> w"
  obtain n where k: "ahead c test (ext w) = Suc (Suc n)"
    using assms(2) by (metis Suc_le_D numeral_2_eq_2 Suc_le_mono)
  have e: "ext (?wl\<lparr>ext := x\<rparr>) = x"
    by simp
  have lg: "(if o_Logs o' \<and> o_Wait o'
             then logPrint c (ns_Name (Namespace (Config runConfig))) name (ext (?wl\<lparr>ext := x\<rparr>))
             else (None, ext (?wl\<lparr>ext := x\<rparr>))) = (None, x')"
    unfolding e by (rule assms(4))
  show ?thesis
    using assms(1)
    unfolding createAndRunTest_wait_def Let_def k watcher_steps_all[OF assms(3)] prod.case lg
    by (simp add: watcher_steps_Polled del: WaitCondition.simps watcher_steps.simps)
qed

text \<open>
  When the caller does not wait and the watcher has not polled, the status is still
  \<open>New\<close>; the line of a watcher that has not chosen its timeout is yet to be printed.
\<close>

lemma createAndRunTest_wait_started:
  assumes "\<not> o_Dev o'" and "\<not> o_Wait o'" and "ahead c test (ext w) < 2"
  shows "createAndRunTest_wait h c o' runConfig name test w
     = Some ((Some test, AsError h TestPhaseNew name),
             if ahead c test (ext w) = 0
             then (case snd (waitTimeout h o' runConfig) of
                     Some line \<Rightarrow>
                       emit (PrintLater (line @ [CHR 0x0A]))
                         (Println (''Test '' @ quoted name @ '' started'') w)
                   | None \<Rightarrow> Println (''Test '' @ quoted name @ '' started'') w)
             else Println (''Test '' @ quoted name @ '' started'')
                    (case snd (waitTimeout h o' runConfig) of
                       Some line \<Rightarrow> Println line w
                     | None \<Rightarrow> w))"
proof -
  consider "ahead c test (ext w) = 0" | "ahead c test (ext w) = Suc 0"
    using assms(3) by linarith
  then show ?thesis
  proof cases
    case 1
    show ?thesis
      using assms(1,2)
      unfolding createAndRunTest_wait_def Let_def 1 watcher_steps.simps(1) prod.case
      by (simp add: world_ext_same split: option.splits)
  next
    case 2
    show ?thesis
      using assms(1,2)
      unfolding createAndRunTest_wait_def Let_def 2 watcher_steps_one prod.case
      by (simp add: world_ext_same)
  qed
qed

text \<open>
  When the log printer fails, its error is returned; the watcher is left at the step
  that it had reached.
\<close>

lemma createAndRunTest_wait_log_failed:
  assumes "\<not> o_Dev o'" and "o_Logs o'" and "o_Wait o'"
    and "ahead c test (ext w) < 2"
    and "logPrint c (ns_Name (Namespace (Config runConfig))) name (ext w) = (Some err, x)"
  shows "createAndRunTest_wait h c o' runConfig name test w
     = Some ((None, Some err),
             if ahead c test (ext w) = 0
             then (case snd (waitTimeout h o' runConfig) of
                     Some line \<Rightarrow> emit (PrintLater (line @ [CHR 0x0A])) (w\<lparr>ext := x\<rparr>)
                   | None \<Rightarrow> w\<lparr>ext := x\<rparr>)
             else (case snd (waitTimeout h o' runConfig) of
                     Some line \<Rightarrow> Println line w
                   | None \<Rightarrow> w)\<lparr>ext := x\<rparr>)"
proof -
  consider "ahead c test (ext w) = 0" | "ahead c test (ext w) = Suc 0"
    using assms(4) by linarith
  then show ?thesis
  proof cases
    case 1
    show ?thesis
      using assms(1,2,3,5)
      unfolding createAndRunTest_wait_def Let_def 1 watcher_steps.simps(1) prod.case
      by simp
  next
    case 2
    show ?thesis
      using assms(1,2,3,5)
      unfolding createAndRunTest_wait_def Let_def 2 watcher_steps_one prod.case ext_logged
      by simp
  qed
qed

lemma createAndRunTest_wait_log_failed_ahead:
  assumes "\<not> o_Dev o'" and "o_Logs o'" and "o_Wait o'"
    and "2 \<le> ahead c test (ext w)"
    and "polls c test (fst (waitTimeout h o' runConfig)) True (ext w) = (polled, x)"
    and "logPrint c (ns_Name (Namespace (Config runConfig))) name x = (Some err, x')"
  shows "createAndRunTest_wait h c o' runConfig name test w
     = Some ((None, Some err),
             (case snd (waitTimeout h o' runConfig) of
                Some line \<Rightarrow> Println line w
              | None \<Rightarrow> w)\<lparr>ext := x'\<rparr>)"
proof -
  let ?wl = "case snd (waitTimeout h o' runConfig) of Some line \<Rightarrow> Println line w | None \<Rightarrow> w"
  obtain n where k: "ahead c test (ext w) = Suc (Suc n)"
    using assms(4) by (metis Suc_le_D numeral_2_eq_2 Suc_le_mono)
  have p: "polls c test (fst (waitTimeout h o' runConfig)) (o_Wait o') (ext w) = (polled, x)"
    using assms(3,5) by simp
  have lg: "(if o_Logs o' \<and> o_Wait o'
             then logPrint c (ns_Name (Namespace (Config runConfig))) name (ext (?wl\<lparr>ext := x\<rparr>))
             else (None, ext (?wl\<lparr>ext := x\<rparr>))) = (Some err, x')"
    using assms(2,3,6) by simp
  show ?thesis
    using assms(1)
    unfolding createAndRunTest_wait_def Let_def k watcher_steps_all[OF p] prod.case lg
    by (simp del: WaitCondition.simps watcher_steps.simps)
qed

text \<open>
  In every schedule the caller that is not in development mode returns. It returns the
  Test with the error of a status, or the error of the log printer. What it adds to the
  trace is printed text, and the line about a timeout that does not parse is part of
  it: printed, or yet to be printed by the watcher.
\<close>

lemma createAndRunTest_wait_outcome:
  assumes "\<not> o_Dev o'"
  shows "\<exists>out w' es. createAndRunTest_wait h c o' runConfig name test w = Some (out, w')
     \<and> ((\<exists>t status. out = (Some t, AsError h status name))
         \<or> (\<exists>err x. o_Logs o' \<and> o_Wait o' \<and> out = (None, Some err)
               \<and> fst (logPrint c (ns_Name (Namespace (Config runConfig))) name x) = Some err))
     \<and> trace w' = trace w @ es
     \<and> set es \<subseteq> range Print \<union> range PrintLater
     \<and> (\<forall>line. snd (waitTimeout h o' runConfig) = Some line
           \<longrightarrow> Print (line @ [CHR 0x0A]) \<in> set es \<or> PrintLater (line @ [CHR 0x0A]) \<in> set es)"
proof (cases "ahead c test (ext w) < 2")
  case True
  show ?thesis
  proof (cases "o_Wait o'")
    case False
    show ?thesis
      unfolding createAndRunTest_wait_started[OF assms False True]
      by (cases "snd (waitTimeout h o' runConfig)") (auto simp: Println_def emit_def)
  next
    case wait: True
    obtain r x where lg:
      "(if o_Logs o' then logPrint c (ns_Name (Namespace (Config runConfig))) name (ext w)
        else (None, ext w)) = (r, x)"
      by (metis surj_pair)
    show ?thesis
    proof (cases r)
      case None
      obtain polled x' where p: "polls c test (fst (waitTimeout h o' runConfig)) True x = (polled, x')"
        by (metis surj_pair)
      show ?thesis
        unfolding createAndRunTest_wait_behind[OF assms wait True lg[unfolded None] p]
        by (cases "snd (waitTimeout h o' runConfig)") (auto simp: Println_def emit_def)
    next
      case (Some err)
      have logs: "o_Logs o'"
        using lg Some by (auto split: if_splits)
      then have l: "logPrint c (ns_Name (Namespace (Config runConfig))) name (ext w) = (Some err, x)"
        using lg Some by simp
      have "fst (logPrint c (ns_Name (Namespace (Config runConfig))) name (ext w)) = Some err"
        using l by simp
      then show ?thesis
        unfolding createAndRunTest_wait_log_failed[OF assms logs wait True l]
        using logs wait
        by (cases "snd (waitTimeout h o' runConfig)") (auto simp: Println_def emit_def)
    qed
  qed
next
  case False
  then have k: "2 \<le> ahead c test (ext w)"
    by simp
  obtain polled x where p:
    "polls c test (fst (waitTimeout h o' runConfig)) (o_Wait o') (ext w) = (polled, x)"
    by (metis surj_pair)
  obtain r x' where lg:
    "(if o_Logs o' \<and> o_Wait o' then logPrint c (ns_Name (Namespace (Config runConfig))) name x
      else (None, x)) = (r, x')"
    by (metis surj_pair)
  show ?thesis
  proof (cases r)
    case None
    show ?thesis
      unfolding createAndRunTest_wait_ahead[OF assms k p lg[unfolded None]]
      by (cases "snd (waitTimeout h o' runConfig)") (auto simp: Println_def emit_def)
  next
    case (Some err)
    have logs: "o_Logs o'" "o_Wait o'"
      using lg Some by (auto split: if_splits)
    then have l: "logPrint c (ns_Name (Namespace (Config runConfig))) name x = (Some err, x')"
      using lg Some by simp
    have p': "polls c test (fst (waitTimeout h o' runConfig)) True (ext w) = (polled, x)"
      using p logs by simp
    have "fst (logPrint c (ns_Name (Namespace (Config runConfig))) name x) = Some err"
      using l by simp
    then show ?thesis
      unfolding createAndRunTest_wait_log_failed_ahead[OF assms logs k p' l]
      using logs
      by (cases "snd (waitTimeout h o' runConfig)") (auto simp: Println_def emit_def)
  qed
qed

lemma createAndRunTest_wait_returns:
  assumes "\<not> (o_Dev o' \<and> o_Wait o')"
  shows "\<exists>out w'. createAndRunTest_wait h c o' runConfig name test w = Some (out, w')"
proof (cases "o_Dev o'")
  case False
  then show ?thesis
    using createAndRunTest_wait_outcome[of o' h c runConfig name test w] by blast
next
  case True
  with assms have "\<not> o_Wait o'"
    by simp
  with True show ?thesis
    by (simp add: createAndRunTest_wait_def)
qed

text \<open>
  C5. The watcher's timeout text is the flag when it is not empty, otherwise the
  timeout of the run configuration when it is not empty, otherwise the default. When
  the text parses, its duration is used and nothing is printed; when it does not, the
  duration of the default is used and the failure is printed. The first step of the
  watcher chooses that duration and prints that line, the second polls with the chosen
  duration. In every schedule of the watcher beside its caller, \<open>createAndRunTest\<close>
  returns the Test with the error of a status, or the error of the log printer, never
  the parse failure; and the line about the failure is printed, or is yet to be printed
  when the caller returns before the watcher has chosen its timeout. The results are
  given for each schedule: the caller waits and the polls follow the log printer, the
  polls come first, the caller does not wait, the log printer fails.
\<close>

theorem watcher_timeout_precedence:
  "(o_Timeout o' \<noteq> [] \<longrightarrow> chooseTimeout h o' runConfig = o_Timeout o')
   \<and> (o_Timeout o' = [] \<and> cfg_Timeout (Config runConfig) \<noteq> []
        \<longrightarrow> chooseTimeout h o' runConfig = cfg_Timeout (Config runConfig))
   \<and> (o_Timeout o' = [] \<and> cfg_Timeout (Config runConfig) = []
        \<longrightarrow> chooseTimeout h o' runConfig = DefaultTimeout h)
   \<and> (\<forall>d. ParseDuration h (chooseTimeout h o' runConfig) = Inr d
        \<longrightarrow> waitTimeout h o' runConfig = (d, None))
   \<and> (\<forall>parseErr d. ParseDuration h (chooseTimeout h o' runConfig) = Inl parseErr
          \<and> ParseDuration h (DefaultTimeout h) = Inr d
        \<longrightarrow> waitTimeout h o' runConfig
              = (d, Some (''Failed to parse test timeout setting - '' @ ErrorString parseErr)))
   \<and> watcher_step h c o' runConfig test WatcherStarted w
       = (TimeoutChosen (fst (waitTimeout h o' runConfig)),
          case snd (waitTimeout h o' runConfig) of Some line \<Rightarrow> Println line w | None \<Rightarrow> w)
   \<and> (\<forall>timeout polled x. polls c test timeout (o_Wait o') (ext w) = (polled, x)
        \<longrightarrow> watcher_step h c o' runConfig test (TimeoutChosen timeout) w
             = (Polled (fst (WaitCondition phaseCondition polled test TestPhaseNew))
                  (snd (WaitCondition phaseCondition polled test TestPhaseNew)),
                w\<lparr>ext := x\<rparr>))
   \<and> (\<not> o_Dev o'
        \<longrightarrow> (\<exists>out w' es. createAndRunTest_wait h c o' runConfig name test w = Some (out, w')
               \<and> ((\<exists>t status. out = (Some t, AsError h status name))
                   \<or> (\<exists>err x. o_Logs o' \<and> o_Wait o' \<and> out = (None, Some err)
                         \<and> fst (logPrint c (ns_Name (Namespace (Config runConfig))) name x)
                             = Some err))
               \<and> trace w' = trace w @ es
               \<and> set es \<subseteq> range Print \<union> range PrintLater
               \<and> (\<forall>line. snd (waitTimeout h o' runConfig) = Some line
                     \<longrightarrow> Print (line @ [CHR 0x0A]) \<in> set es
                         \<or> PrintLater (line @ [CHR 0x0A]) \<in> set es)))
   \<and> (\<forall>x polled x'. \<not> o_Dev o' \<and> o_Wait o' \<and> ahead c test (ext w) < 2
          \<and> (if o_Logs o'
              then logPrint c (ns_Name (Namespace (Config runConfig))) name (ext w)
              else (None, ext w)) = (None, x)
          \<and> polls c test (fst (waitTimeout h o' runConfig)) True x = (polled, x')
        \<longrightarrow> createAndRunTest_wait h c o' runConfig name test w
             = Some ((Some (fst (WaitCondition phaseCondition polled test TestPhaseNew)),
                      AsError h (snd (WaitCondition phaseCondition polled test TestPhaseNew)) name),
                     Println
                       (''Test '' @ quoted name @ '' finished with status: ''
                          @ TestPhase_string
                              (snd (WaitCondition phaseCondition polled test TestPhaseNew)))
                       ((case snd (waitTimeout h o' runConfig) of
                           Some line \<Rightarrow> Println line w
                         | None \<Rightarrow> w)\<lparr>ext := x'\<rparr>)))
   \<and> (\<forall>x polled x'. \<not> o_Dev o' \<and> 2 \<le> ahead c test (ext w)
          \<and> polls c test (fst (waitTimeout h o' runConfig)) (o_Wait o') (ext w) = (polled, x)
          \<and> (if o_Logs o' \<and> o_Wait o'
              then logPrint c (ns_Name (Namespace (Config runConfig))) name x
              else (None, x)) = (None, x')
        \<longrightarrow> createAndRunTest_wait h c o' runConfig name test w
             = Some ((Some (fst (WaitCondition phaseCondition polled test TestPhaseNew)),
                      AsError h (snd (WaitCondition phaseCondition polled test TestPhaseNew)) name),
                     Println
                       (if o_Wait o'
                        then ''Test '' @ quoted name @ '' finished with status: ''
                               @ TestPhase_string
                                   (snd (WaitCondition phaseCondition polled test TestPhaseNew))
                        else ''Test '' @ quoted name @ '' started'')
                       ((case snd (waitTimeout h o' runConfig) of
                           Some line \<Rightarrow> Println line w
                         | None \<Rightarrow> w)\<lparr>ext := x'\<rparr>)))
   \<and> (\<not> o_Dev o' \<and> \<not> o_Wait o' \<and> ahead c test (ext w) < 2
        \<longrightarrow> createAndRunTest_wait h c o' runConfig name test w
             = Some ((Some test, AsError h TestPhaseNew name),
                     if ahead c test (ext w) = 0
                     then (case snd (waitTimeout h o' runConfig) of
                             Some line \<Rightarrow>
                               emit (PrintLater (line @ [CHR 0x0A]))
                                 (Println (''Test '' @ quoted name @ '' started'') w)
                           | None \<Rightarrow> Println (''Test '' @ quoted name @ '' started'') w)
                     else Println (''Test '' @ quoted name @ '' started'')
                            (case snd (waitTimeout h o' runConfig) of
                               Some line \<Rightarrow> Println line w
                             | None \<Rightarrow> w)))
   \<and> (\<forall>err x. \<not> o_Dev o' \<and> o_Logs o' \<and> o_Wait o' \<and> ahead c test (ext w) < 2
          \<and> logPrint c (ns_Name (Namespace (Config runConfig))) name (ext w) = (Some err, x)
        \<longrightarrow> createAndRunTest_wait h c o' runConfig name test w
             = Some ((None, Some err),
                     if ahead c test (ext w) = 0
                     then (case snd (waitTimeout h o' runConfig) of
                             Some line \<Rightarrow> emit (PrintLater (line @ [CHR 0x0A])) (w\<lparr>ext := x\<rparr>)
                           | None \<Rightarrow> w\<lparr>ext := x\<rparr>)
                     else (case snd (waitTimeout h o' runConfig) of
                             Some line \<Rightarrow> Println line w
                           | None \<Rightarrow> w)\<lparr>ext := x\<rparr>))
   \<and> (\<forall>err polled x x'. \<not> o_Dev o' \<and> o_Logs o' \<and> o_Wait o' \<and> 2 \<le> ahead c test (ext w)
          \<and> polls c test (fst (waitTimeout h o' runConfig)) True (ext w) = (polled, x)
          \<and> logPrint c (ns_Name (Namespace (Config runConfig))) name x = (Some err, x')
        \<longrightarrow> createAndRunTest_wait h c o' runConfig name test w
             = Some ((None, Some err),
                     (case snd (waitTimeout h o' runConfig) of
                        Some line \<Rightarrow> Println line w
                      | None \<Rightarrow> w)\<lparr>ext := x'\<rparr>))"
proof (intro conjI allI impI)
  show "watcher_step h c o' runConfig test WatcherStarted w
       = (TimeoutChosen (fst (waitTimeout h o' runConfig)),
          case snd (waitTimeout h o' runConfig) of Some line \<Rightarrow> Println line w | None \<Rightarrow> w)"
    by (rule watcher_step_started)
next
  fix timeout polled x
  assume "polls c test timeout (o_Wait o') (ext w) = (polled, x)"
  then show "watcher_step h c o' runConfig test (TimeoutChosen timeout) w
             = (Polled (fst (WaitCondition phaseCondition polled test TestPhaseNew))
                  (snd (WaitCondition phaseCondition polled test TestPhaseNew)),
                w\<lparr>ext := x\<rparr>)"
    by (rule watcher_step_chosen)
next
  assume "\<not> o_Dev o'"
  then show "\<exists>out w' es. createAndRunTest_wait h c o' runConfig name test w = Some (out, w')
               \<and> ((\<exists>t status. out = (Some t, AsError h status name))
                   \<or> (\<exists>err x. o_Logs o' \<and> o_Wait o' \<and> out = (None, Some err)
                         \<and> fst (logPrint c (ns_Name (Namespace (Config runConfig))) name x)
                             = Some err))
               \<and> trace w' = trace w @ es
               \<and> set es \<subseteq> range Print \<union> range PrintLater
               \<and> (\<forall>line. snd (waitTimeout h o' runConfig) = Some line
                     \<longrightarrow> Print (line @ [CHR 0x0A]) \<in> set es
                         \<or> PrintLater (line @ [CHR 0x0A]) \<in> set es)"
    by (rule createAndRunTest_wait_outcome)
next
  fix x polled x'
  assume a: "\<not> o_Dev o' \<and> o_Wait o' \<and> ahead c test (ext w) < 2
          \<and> (if o_Logs o'
              then logPrint c (ns_Name (Namespace (Config runConfig))) name (ext w)
              else (None, ext w)) = (None, x)
          \<and> polls c test (fst (waitTimeout h o' runConfig)) True x = (polled, x')"
  show "createAndRunTest_wait h c o' runConfig name test w
             = Some ((Some (fst (WaitCondition phaseCondition polled test TestPhaseNew)),
                      AsError h (snd (WaitCondition phaseCondition polled test TestPhaseNew)) name),
                     Println
                       (''Test '' @ quoted name @ '' finished with status: ''
                          @ TestPhase_string
                              (snd (WaitCondition phaseCondition polled test TestPhaseNew)))
                       ((case snd (waitTimeout h o' runConfig) of
                           Some line \<Rightarrow> Println line w
                         | None \<Rightarrow> w)\<lparr>ext := x'\<rparr>))"
    by (rule createAndRunTest_wait_behind) (use a in blast)+
next
  fix x polled x'
  assume a: "\<not> o_Dev o' \<and> 2 \<le> ahead c test (ext w)
          \<and> polls c test (fst (waitTimeout h o' runConfig)) (o_Wait o') (ext w) = (polled, x)
          \<and> (if o_Logs o' \<and> o_Wait o'
              then logPrint c (ns_Name (Namespace (Config runConfig))) name x
              else (None, x)) = (None, x')"
  show "createAndRunTest_wait h c o' runConfig name test w
             = Some ((Some (fst (WaitCondition phaseCondition polled test TestPhaseNew)),
                      AsError h (snd (WaitCondition phaseCondition polled test TestPhaseNew)) name),
                     Println
                       (if o_Wait o'
                        then ''Test '' @ quoted name @ '' finished with status: ''
                               @ TestPhase_string
                                   (snd (WaitCondition phaseCondition polled test TestPhaseNew))
                        else ''Test '' @ quoted name @ '' started'')
                       ((case snd (waitTimeout h o' runConfig) of
                           Some line \<Rightarrow> Println line w
                         | None \<Rightarrow> w)\<lparr>ext := x'\<rparr>))"
    by (rule createAndRunTest_wait_ahead) (use a in blast)+
next
  assume a: "\<not> o_Dev o' \<and> \<not> o_Wait o' \<and> ahead c test (ext w) < 2"
  show "createAndRunTest_wait h c o' runConfig name test w
             = Some ((Some test, AsError h TestPhaseNew name),
                     if ahead c test (ext w) = 0
                     then (case snd (waitTimeout h o' runConfig) of
                             Some line \<Rightarrow>
                               emit (PrintLater (line @ [CHR 0x0A]))
                                 (Println (''Test '' @ quoted name @ '' started'') w)
                           | None \<Rightarrow> Println (''Test '' @ quoted name @ '' started'') w)
                     else Println (''Test '' @ quoted name @ '' started'')
                            (case snd (waitTimeout h o' runConfig) of
                               Some line \<Rightarrow> Println line w
                             | None \<Rightarrow> w))"
    by (rule createAndRunTest_wait_started) (use a in blast)+
next
  fix err x
  assume a: "\<not> o_Dev o' \<and> o_Logs o' \<and> o_Wait o' \<and> ahead c test (ext w) < 2
          \<and> logPrint c (ns_Name (Namespace (Config runConfig))) name (ext w) = (Some err, x)"
  show "createAndRunTest_wait h c o' runConfig name test w
             = Some ((None, Some err),
                     if ahead c test (ext w) = 0
                     then (case snd (waitTimeout h o' runConfig) of
                             Some line \<Rightarrow> emit (PrintLater (line @ [CHR 0x0A])) (w\<lparr>ext := x\<rparr>)
                           | None \<Rightarrow> w\<lparr>ext := x\<rparr>)
                     else (case snd (waitTimeout h o' runConfig) of
                             Some line \<Rightarrow> Println line w
                           | None \<Rightarrow> w)\<lparr>ext := x\<rparr>)"
    by (rule createAndRunTest_wait_log_failed) (use a in blast)+
next
  fix err polled x x'
  assume a: "\<not> o_Dev o' \<and> o_Logs o' \<and> o_Wait o' \<and> 2 \<le> ahead c test (ext w)
          \<and> polls c test (fst (waitTimeout h o' runConfig)) True (ext w) = (polled, x)
          \<and> logPrint c (ns_Name (Namespace (Config runConfig))) name x = (Some err, x')"
  show "createAndRunTest_wait h c o' runConfig name test w
             = Some ((None, Some err),
                     (case snd (waitTimeout h o' runConfig) of
                        Some line \<Rightarrow> Println line w
                      | None \<Rightarrow> w)\<lparr>ext := x'\<rparr>)"
    by (rule createAndRunTest_wait_log_failed_ahead) (use a in blast)+
qed (simp_all add: chooseTimeout_def waitTimeout_def)

theorem watcher_timeout_precedence_witness:
  "chooseTimeout example_Helpers (example_options\<lparr>o_Timeout := ''soon''\<rparr>) example_RunConfig
     = ''soon''
   \<and> chooseTimeout example_Helpers example_options
        (example_RunConfig\<lparr>Config := (Config example_RunConfig)\<lparr>cfg_Timeout := ''5s''\<rparr>\<rparr>) = ''5s''
   \<and> chooseTimeout example_Helpers example_options example_RunConfig = ''30m''
   \<and> waitTimeout example_Helpers example_options example_RunConfig = (1800000000000, None)
   \<and> waitTimeout example_Helpers (example_options\<lparr>o_Timeout := ''soon''\<rparr>) example_RunConfig
       = (1800000000000,
          Some ''Failed to parse test timeout setting - time: invalid duration soon'')
   \<and> createAndRunTest_wait example_Helpers api_Cluster (example_options\<lparr>o_Timeout := ''soon''\<rparr>)
        example_RunConfig ''afeature'' example_Test \<lparr>ext = Map.empty, trace = []\<rparr>
       = Some ((Some (example_Test\<lparr>Status := (Status example_Test)\<lparr>Phase := TestPhasePassed\<rparr>\<rparr>),
                None),
               \<lparr>ext = Map.empty,
                trace = [Print (''Failed to parse test timeout setting - time: invalid duration soon''
                                @ [CHR 0x0A]),
                         Print (''Test 'afeature' finished with status: Passed''
                                @ [CHR 0x0A])]\<rparr>)
   \<and> createAndRunTest_wait example_Helpers
        (api_Cluster\<lparr>logPrint := (\<lambda>namespace name s. (Some (errors_New ''pod not found''), s)),
                     ahead := (\<lambda>t s. 0)\<rparr>)
        (example_options\<lparr>o_Timeout := ''soon''\<rparr>)
        example_RunConfig ''afeature'' example_Test \<lparr>ext = Map.empty, trace = []\<rparr>
       = Some ((None, Some (Error [] 0 ''pod not found'')),
               \<lparr>ext = Map.empty,
                trace = [PrintLater
                           (''Failed to parse test timeout setting - time: invalid duration soon''
                            @ [CHR 0x0A])]\<rparr>)
   \<and> createAndRunTest_wait example_Helpers api_Cluster
        (example_options\<lparr>o_Timeout := ''soon'', o_Wait := False\<rparr>)
        example_RunConfig ''afeature'' example_Test \<lparr>ext = Map.empty, trace = []\<rparr>
       = Some ((Some example_Test, None),
               \<lparr>ext = Map.empty,
                trace = [Print (''Failed to parse test timeout setting - time: invalid duration soon''
                                @ [CHR 0x0A]),
                         Print (''Test 'afeature' started'' @ [CHR 0x0A])]\<rparr>)"
proof -
  let ?o = "example_options\<lparr>o_Timeout := ''soon''\<rparr>"
  let ?on = "example_options\<lparr>o_Timeout := ''soon'', o_Wait := False\<rparr>"
  let ?rc = "example_RunConfig\<lparr>Config := (Config example_RunConfig)\<lparr>cfg_Timeout := ''5s''\<rparr>\<rparr>"
  let ?c = "api_Cluster\<lparr>logPrint := (\<lambda>namespace name s. (Some (errors_New ''pod not found''), s)),
                        ahead := (\<lambda>t s. 0)\<rparr>"
  let ?w = "\<lparr>ext = Map.empty, trace = []\<rparr> :: store world"
  let ?polled = "[example_Test\<lparr>Status := (Status example_Test)\<lparr>Phase := TestPhaseRunning\<rparr>\<rparr>,
                  example_Test\<lparr>Status := (Status example_Test)\<lparr>Phase := TestPhasePassed\<rparr>\<rparr>]"
  note T1 = watcher_timeout_precedence[where o' = ?o and h = example_Helpers
      and runConfig = example_RunConfig and c = api_Cluster and name = "''afeature''" and w = ?w
      and test = example_Test]
  note T2 = watcher_timeout_precedence[where o' = example_options and h = example_Helpers
      and runConfig = ?rc and c = api_Cluster and name = "''afeature''" and w = ?w
      and test = example_Test]
  note T3 = watcher_timeout_precedence[where o' = example_options and h = example_Helpers
      and runConfig = example_RunConfig and c = api_Cluster and name = "''afeature''" and w = ?w
      and test = example_Test]
  note T4 = watcher_timeout_precedence[where o' = ?o and h = example_Helpers
      and runConfig = example_RunConfig and c = ?c and name = "''afeature''" and w = ?w
      and test = example_Test]
  note T5 = watcher_timeout_precedence[where o' = ?on and h = example_Helpers
      and runConfig = example_RunConfig and c = api_Cluster and name = "''afeature''" and w = ?w
      and test = example_Test]
  have sel: "o_Timeout example_options = []" "cfg_Timeout (Config example_RunConfig) = []"
      "DefaultTimeout example_Helpers = ''30m''"
      "ParseDuration example_Helpers ''30m'' = Inr 1800000000000"
      "ParseDuration example_Helpers ''soon'' = Inl (Error [] 0 ''time: invalid duration soon'')"
    by (simp_all add: example_options_def example_RunConfig_def example_Helpers_def
        errors_New_def)
  have c1: "chooseTimeout example_Helpers ?o example_RunConfig = ''soon''"
    using T1 by simp
  have c2: "chooseTimeout example_Helpers example_options ?rc = ''5s''"
    using T2 by (simp add: sel)
  have c3: "chooseTimeout example_Helpers example_options example_RunConfig = ''30m''"
    using T3 by (simp add: sel)
  have w3: "waitTimeout example_Helpers example_options example_RunConfig
              = (1800000000000, None)"
    using T3 by (simp add: c3 sel)
  have w1: "waitTimeout example_Helpers ?o example_RunConfig
       = (1800000000000,
          Some ''Failed to parse test timeout setting - time: invalid duration soon'')"
    using T1 by (simp add: c1 sel)
  have w5: "waitTimeout example_Helpers ?on example_RunConfig
       = (1800000000000,
          Some ''Failed to parse test timeout setting - time: invalid duration soon'')"
    using w1 by (simp add: waitTimeout_def chooseTimeout_def)
  have lg: "(if o_Logs ?o
              then logPrint api_Cluster (ns_Name (Namespace (Config example_RunConfig)))
                     ''afeature'' (ext ?w)
              else (None, ext ?w)) = (None, Map.empty)"
    by (simp add: api_Cluster_def)
  have pl: "polls api_Cluster example_Test (fst (waitTimeout example_Helpers ?o example_RunConfig))
              True Map.empty = (?polled, Map.empty)"
    by (simp add: api_Cluster_def)
  have wc: "WaitCondition phaseCondition ?polled example_Test TestPhaseNew
       = (example_Test\<lparr>Status := (Status example_Test)\<lparr>Phase := TestPhasePassed\<rparr>\<rparr>,
          TestPhasePassed)"
    by (simp add: phaseCondition_def)
  have asr: "AsError example_Helpers TestPhasePassed ''afeature'' = None"
    "AsError example_Helpers TestPhaseNew ''afeature'' = None"
    by (simp_all add: example_Helpers_def)
  have nd: "\<not> o_Dev ?o" "o_Wait ?o" "o_Logs ?o" "\<not> o_Dev ?on" "\<not> o_Wait ?on"
    by (simp_all add: example_options_def)
  have k1: "ahead api_Cluster example_Test (ext ?w) = 1" "ahead ?c example_Test (ext ?w) = 0"
    by (simp_all add: api_Cluster_def)
  have lf: "logPrint ?c (ns_Name (Namespace (Config example_RunConfig))) ''afeature'' (ext ?w)
              = (Some (Error [] 0 ''pod not found''), Map.empty)"
    by (simp add: errors_New_def)
  have run: "createAndRunTest_wait example_Helpers api_Cluster ?o example_RunConfig
        ''afeature'' example_Test ?w
       = Some ((Some (example_Test\<lparr>Status := (Status example_Test)\<lparr>Phase := TestPhasePassed\<rparr>\<rparr>),
                None),
               \<lparr>ext = Map.empty,
                trace = [Print (''Failed to parse test timeout setting - time: invalid duration soon''
                                @ [CHR 0x0A]),
                         Print (''Test 'afeature' finished with status: Passed''
                                @ [CHR 0x0A])]\<rparr>)"
    using T1 nd lg pl k1
    by (simp add: wc w1 Println_def emit_def quoted_def asr del: WaitCondition.simps)
  have failed: "createAndRunTest_wait example_Helpers ?c ?o example_RunConfig
        ''afeature'' example_Test ?w
       = Some ((None, Some (Error [] 0 ''pod not found'')),
               \<lparr>ext = Map.empty,
                trace = [PrintLater
                           (''Failed to parse test timeout setting - time: invalid duration soon''
                            @ [CHR 0x0A])]\<rparr>)"
    using T4 nd lf k1
    by (simp add: w1 emit_def del: WaitCondition.simps)
  have started: "createAndRunTest_wait example_Helpers api_Cluster ?on example_RunConfig
        ''afeature'' example_Test ?w
       = Some ((Some example_Test, None),
               \<lparr>ext = Map.empty,
                trace = [Print (''Failed to parse test timeout setting - time: invalid duration soon''
                                @ [CHR 0x0A]),
                         Print (''Test 'afeature' started'' @ [CHR 0x0A])]\<rparr>)"
    using T5 nd k1
    by (simp add: w5 Println_def emit_def quoted_def asr del: WaitCondition.simps)
  from c1 c2 c3 w3 w1 run failed started show ?thesis
    by blast
qed

text \<open>
  C6. The condition of the watcher returns \<open>true\<close> exactly when the observed object is a
  Test whose status phase is \<open>Deleting\<close>, \<open>Error\<close>, \<open>Passed\<close> or \<open>Failed\<close>. Each call
  sets the status to the observed phase unless that phase is \<open>None\<close>; so after any
  sequence of observations the status is the last observed phase other than \<open>None\<close>,
  also when the last observation is not terminal. The status that \<open>createAndRunTest\<close>
  reports in the mode that is not the development mode is that of the polls up to the
  first terminal one, in every schedule in which the log printer does not fail: the
  polls that follow the log printer when the caller waits, the polls that the watcher
  made before the caller went on, and no poll at all when the caller does not wait and
  the watcher has not polled yet.
\<close>

theorem watcher_condition_tracks_phase:
  "(fst (phaseCondition obj status)
      \<longleftrightarrow> (\<exists>val. obj = TestObj val
                \<and> Phase (Status val)
                    \<in> {TestPhaseDeleting, TestPhaseError, TestPhasePassed, TestPhaseFailed}))
   \<and> snd (phaseCondition (TestObj val) status)
       = (if Phase (Status val) \<noteq> TestPhaseNone then Phase (Status val) else status)
   \<and> snd (phaseCondition OtherObj status) = status
   \<and> foldl (\<lambda>s val. snd (phaseCondition (TestObj val) s)) status vals
       = spec_lastPhase status (map (\<lambda>val. Phase (Status val)) vals)
   \<and> snd (WaitCondition phaseCondition polled test status)
       = spec_lastPhase status (map (\<lambda>val. Phase (Status val)) (spec_observed polled))
   \<and> (\<forall>x x'. \<not> o_Dev o'
          \<and> (o_Wait o' \<and> ahead c test (ext w) < 2
              \<and> (if o_Logs o'
                  then logPrint c (ns_Name (Namespace (Config runConfig))) name (ext w)
                  else (None, ext w)) = (None, x)
              \<and> polls c test (fst (waitTimeout h o' runConfig)) True x = (polled, x')
              \<or> 2 \<le> ahead c test (ext w)
                \<and> polls c test (fst (waitTimeout h o' runConfig)) (o_Wait o') (ext w)
                    = (polled, x)
                \<and> (if o_Logs o' \<and> o_Wait o'
                    then logPrint c (ns_Name (Namespace (Config runConfig))) name x
                    else (None, x)) = (None, x')
              \<or> \<not> o_Wait o' \<and> ahead c test (ext w) < 2 \<and> polled = [])
        \<longrightarrow> (\<exists>t w'. createAndRunTest_wait h c o' runConfig name test w
                      = Some ((Some t,
                               AsError h (spec_lastPhase TestPhaseNew
                                            (map (\<lambda>val. Phase (Status val))
                                               (spec_observed polled))) name), w')))"
proof (intro conjI allI impI)
  show "fst (phaseCondition obj status)
      \<longleftrightarrow> (\<exists>val. obj = TestObj val
                \<and> Phase (Status val)
                    \<in> {TestPhaseDeleting, TestPhaseError, TestPhasePassed, TestPhaseFailed})"
    using phaseCondition_fst[of obj status] by (simp add: spec_terminal_def)
next
  show "snd (phaseCondition (TestObj val) status)
       = (if Phase (Status val) \<noteq> TestPhaseNone then Phase (Status val) else status)"
    by (rule phaseCondition_snd)
next
  show "snd (phaseCondition OtherObj status) = status"
    by (simp add: phaseCondition_def)
next
  show "foldl (\<lambda>s val. snd (phaseCondition (TestObj val) s)) status vals
       = spec_lastPhase status (map (\<lambda>val. Phase (Status val)) vals)"
    by (rule phaseCondition_foldl)
next
  show "snd (WaitCondition phaseCondition polled test status)
       = spec_lastPhase status (map (\<lambda>val. Phase (Status val)) (spec_observed polled))"
    by (rule WaitCondition_status)
next
  fix x x'
  assume a: "\<not> o_Dev o'
          \<and> (o_Wait o' \<and> ahead c test (ext w) < 2
              \<and> (if o_Logs o'
                  then logPrint c (ns_Name (Namespace (Config runConfig))) name (ext w)
                  else (None, ext w)) = (None, x)
              \<and> polls c test (fst (waitTimeout h o' runConfig)) True x = (polled, x')
              \<or> 2 \<le> ahead c test (ext w)
                \<and> polls c test (fst (waitTimeout h o' runConfig)) (o_Wait o') (ext w)
                    = (polled, x)
                \<and> (if o_Logs o' \<and> o_Wait o'
                    then logPrint c (ns_Name (Namespace (Config runConfig))) name x
                    else (None, x)) = (None, x')
              \<or> \<not> o_Wait o' \<and> ahead c test (ext w) < 2 \<and> polled = [])"
  then have nd: "\<not> o_Dev o'"
    by blast
  let ?st = "spec_lastPhase TestPhaseNew (map (\<lambda>val. Phase (Status val)) (spec_observed polled))"
  have st: "snd (WaitCondition phaseCondition polled test TestPhaseNew) = ?st"
    by (rule WaitCondition_status)
  from a consider
      (behind) "o_Wait o'" "ahead c test (ext w) < 2"
        "(if o_Logs o'
          then logPrint c (ns_Name (Namespace (Config runConfig))) name (ext w)
          else (None, ext w)) = (None, x)"
        "polls c test (fst (waitTimeout h o' runConfig)) True x = (polled, x')"
    | (ahead) "2 \<le> ahead c test (ext w)"
        "polls c test (fst (waitTimeout h o' runConfig)) (o_Wait o') (ext w) = (polled, x)"
        "(if o_Logs o' \<and> o_Wait o'
          then logPrint c (ns_Name (Namespace (Config runConfig))) name x
          else (None, x)) = (None, x')"
    | (started) "\<not> o_Wait o'" "ahead c test (ext w) < 2" "polled = []"
    by blast
  then show "\<exists>t w'. createAndRunTest_wait h c o' runConfig name test w
                      = Some ((Some t, AsError h ?st name), w')"
  proof cases
    case behind
    show ?thesis
      using createAndRunTest_wait_behind[OF nd behind]
      unfolding st by blast
  next
    case ahead
    show ?thesis
      using createAndRunTest_wait_ahead[OF nd ahead]
      unfolding st by blast
  next
    case started
    have "?st = TestPhaseNew"
      using started(3) by (simp add: spec_lastPhase_def)
    then show ?thesis
      using createAndRunTest_wait_started[OF nd started(1,2), where h = h and runConfig = runConfig and name = name]
      by simp
  qed
qed

theorem watcher_condition_tracks_phase_witness:
  "fst (phaseCondition (TestObj (example_Test\<lparr>Status := (Status example_Test)
                                    \<lparr>Phase := TestPhaseFailed\<rparr>\<rparr>)) TestPhaseNew)
   \<and> \<not> fst (phaseCondition (TestObj (example_Test\<lparr>Status := (Status example_Test)
                                    \<lparr>Phase := TestPhaseRunning\<rparr>\<rparr>)) TestPhaseNew)
   \<and> snd (WaitCondition phaseCondition
            [example_Test\<lparr>Status := (Status example_Test)\<lparr>Phase := TestPhaseRunning\<rparr>\<rparr>,
             example_Test\<lparr>Status := (Status example_Test)\<lparr>Phase := TestPhaseNone\<rparr>\<rparr>]
            example_Test TestPhaseNew) = TestPhaseRunning
   \<and> (\<exists>t w'. createAndRunTest_wait example_Helpers api_Cluster example_options
                 example_RunConfig ''afeature'' example_Test \<lparr>ext = Map.empty, trace = []\<rparr>
               = Some ((Some t, AsError example_Helpers TestPhasePassed ''afeature''), w'))"
proof -
  let ?w = "\<lparr>ext = Map.empty, trace = []\<rparr> :: store world"
  let ?run = "example_Test\<lparr>Status := (Status example_Test)\<lparr>Phase := TestPhaseRunning\<rparr>\<rparr>"
  let ?none = "example_Test\<lparr>Status := (Status example_Test)\<lparr>Phase := TestPhaseNone\<rparr>\<rparr>"
  let ?pass = "example_Test\<lparr>Status := (Status example_Test)\<lparr>Phase := TestPhasePassed\<rparr>\<rparr>"
  let ?fail = "example_Test\<lparr>Status := (Status example_Test)\<lparr>Phase := TestPhaseFailed\<rparr>\<rparr>"
  note T = watcher_condition_tracks_phase[where status = TestPhaseNew and val = example_Test
      and test = example_Test and o' = example_options and c = api_Cluster
      and runConfig = example_RunConfig and name = "''afeature''" and w = ?w
      and h = example_Helpers]
  have a: "fst (phaseCondition (TestObj ?fail) TestPhaseNew)"
    using T[where obj = "TestObj ?fail" and vals = "[]" and polled = "[]"] by simp
  have b: "\<not> fst (phaseCondition (TestObj ?run) TestPhaseNew)"
    using T[where obj = "TestObj ?run" and vals = "[]" and polled = "[]"] by simp
  have c: "snd (WaitCondition phaseCondition [?run, ?none] example_Test TestPhaseNew)
             = TestPhaseRunning"
    using T[where obj = OtherObj and vals = "[]" and polled = "[?run, ?none]"]
    by (simp add: spec_lastPhase_def spec_terminal_def del: WaitCondition.simps)
  have sel: "\<not> o_Dev example_options" "o_Wait example_options"
    "ahead api_Cluster example_Test (ext ?w) < 2"
    "(if o_Logs example_options
      then logPrint api_Cluster (ns_Name (Namespace (Config example_RunConfig)))
             ''afeature'' (ext ?w)
      else (None, ext ?w)) = (None, Map.empty)"
    "polls api_Cluster example_Test
       (fst (waitTimeout example_Helpers example_options example_RunConfig))
       True Map.empty = ([?run, ?pass], Map.empty)"
    by (simp_all add: example_options_def api_Cluster_def)
  have d: "\<exists>t w'. createAndRunTest_wait example_Helpers api_Cluster example_options
                 example_RunConfig ''afeature'' example_Test ?w
               = Some ((Some t, AsError example_Helpers TestPhasePassed ''afeature''), w')"
    using T[where obj = OtherObj and vals = "[]" and polled = "[?run, ?pass]"] sel
    by (simp add: spec_lastPhase_def spec_terminal_def del: WaitCondition.simps)
  from a b c d show ?thesis
    by blast
qed

section \<open>Properties of the create-or-update protocol\<close>

lemma apply_created:
  assumes "c_Create c test0 (ext w0) = ((None, test), x1)"
  shows "createAndRunTest_apply c test0 w0
           = (Inr (test, False), \<lparr>ext = x1, trace = trace w0 @ [ClientCreate test0]\<rparr>)"
  using assms by (simp add: createAndRunTest_apply_def call_Create_def emit_def)

lemma apply_create_failed:
  assumes "c_Create c test0 (ext w0) = ((Some err, test), x1)" and "\<not> IsAlreadyExists err"
  shows "createAndRunTest_apply c test0 w0
           = (Inl err, \<lparr>ext = x1, trace = trace w0 @ [ClientCreate test0]\<rparr>)"
  using assms by (simp add: createAndRunTest_apply_def call_Create_def emit_def)

lemma apply_updated:
  assumes "c_Create c test0 (ext w0) = ((Some err, test), x1)" and "IsAlreadyExists err"
    and "c_Get c (test_Namespace test) (test_Name test) test x1 = ((None, clone), x2)"
    and "c_StatusUpdate c (clone\<lparr>Status := (Status clone)\<lparr>Phase := TestPhaseUpdating\<rparr>\<rparr>) x2
           = ((None, clone'), x3)"
    and "c_Update c (test\<lparr>ResourceVersion := ResourceVersion clone'\<rparr>) x3 = ((None, test3), x4)"
    and "c_StatusUpdate c (test3\<lparr>Status := TestStatus_zero\<rparr>) x4 = ((None, test5), x5)"
  shows "createAndRunTest_apply c test0 w0
           = (Inr (test5, True),
              \<lparr>ext = x5,
               trace = trace w0 @
                 [ClientCreate test0,
                  ClientGet (test_Namespace test) (test_Name test),
                  ClientStatusUpdate (clone\<lparr>Status := (Status clone)\<lparr>Phase := TestPhaseUpdating\<rparr>\<rparr>),
                  ClientUpdate (test\<lparr>ResourceVersion := ResourceVersion clone'\<rparr>),
                  ClientStatusUpdate (test3\<lparr>Status := TestStatus_zero\<rparr>)]\<rparr>)"
  using assms
  by (simp add: createAndRunTest_apply_def call_Create_def call_Get_def call_StatusUpdate_def
      call_Update_def emit_def Let_def)

text \<open>
  The protocol run against the reference API server when the resource exists (stored
  under its own namespace and name): the five calls succeed and the stored object ends
  with the new spec and the zero status.
\<close>

lemma api_apply_existing:
  assumes "s (test_Namespace test0, test_Name test0) = Some cur"
    and "test_Namespace cur = test_Namespace test0" and "test_Name cur = test_Name test0"
  shows "createAndRunTest_apply api_Cluster test0 \<lparr>ext = s, trace = tr\<rparr>
     = (Inr (test0\<lparr>Status := TestStatus_zero,
                   ResourceVersion :=
                     next_version (next_version (next_version (ResourceVersion cur)))\<rparr>, True),
        \<lparr>ext = s((test_Namespace test0, test_Name test0) \<mapsto>
                  test0\<lparr>Status := TestStatus_zero,
                         ResourceVersion :=
                           next_version (next_version (next_version (ResourceVersion cur)))\<rparr>),
         trace = tr @
           [ClientCreate test0,
            ClientGet (test_Namespace test0) (test_Name test0),
            ClientStatusUpdate (cur\<lparr>Status := (Status cur)\<lparr>Phase := TestPhaseUpdating\<rparr>\<rparr>),
            ClientUpdate (test0\<lparr>ResourceVersion := next_version (ResourceVersion cur)\<rparr>),
            ClientStatusUpdate
              (test0\<lparr>Status := TestStatus_zero,
                     ResourceVersion := next_version (next_version (ResourceVersion cur))\<rparr>)]\<rparr>)"
proof -
  let ?k = "(test_Namespace test0, test_Name test0)"
  let ?hold = "cur\<lparr>Status := (Status cur)\<lparr>Phase := TestPhaseUpdating\<rparr>\<rparr>"
  let ?held = "cur\<lparr>Status := (Status cur)\<lparr>Phase := TestPhaseUpdating\<rparr>,
                   ResourceVersion := next_version (ResourceVersion cur)\<rparr>"
  let ?new = "test0\<lparr>ResourceVersion := next_version (ResourceVersion cur)\<rparr>"
  let ?upd = "test0\<lparr>Status := (Status cur)\<lparr>Phase := TestPhaseUpdating\<rparr>,
                    ResourceVersion := next_version (next_version (ResourceVersion cur))\<rparr>"
  let ?fin = "test0\<lparr>Status := TestStatus_zero,
                    ResourceVersion :=
                      next_version (next_version (next_version (ResourceVersion cur)))\<rparr>"
  have 1: "c_Create api_Cluster test0 s
             = ((Some (Error ''AlreadyExists'' 409 ''already exists''), test0), s)"
    using assms(1) by (simp add: api_Cluster_def api_Create_def)
  have 2: "c_Get api_Cluster (test_Namespace test0) (test_Name test0) test0 s = ((None, cur), s)"
    using assms(1) by (simp add: api_Cluster_def api_Get_def)
  have 3: "c_StatusUpdate api_Cluster ?hold s = ((None, ?held), s(?k \<mapsto> ?held))"
    using assms by (simp add: api_Cluster_def api_StatusUpdate_def Let_def)
  have 4: "c_Update api_Cluster (test0\<lparr>ResourceVersion := ResourceVersion ?held\<rparr>)
             (s(?k \<mapsto> ?held)) = ((None, ?upd), s(?k \<mapsto> ?upd))"
    by (simp add: api_Cluster_def api_Update_def Let_def)
  have 5: "c_StatusUpdate api_Cluster (?upd\<lparr>Status := TestStatus_zero\<rparr>) (s(?k \<mapsto> ?upd))
             = ((None, ?fin), s(?k \<mapsto> ?fin))"
    by (simp add: api_Cluster_def api_StatusUpdate_def Let_def)
  have ae: "IsAlreadyExists (Error ''AlreadyExists'' 409 ''already exists'')"
    by (simp add: IsAlreadyExists_def)
  show ?thesis
    using apply_updated[of api_Cluster test0 "\<lparr>ext = s, trace = tr\<rparr>" _ test0 s cur s
        ?held "s(?k \<mapsto> ?held)" ?upd "s(?k \<mapsto> ?upd)" ?fin "s(?k \<mapsto> ?fin)"] 1 2 3 4 5 ae
    by simp
qed


text \<open>A failure of one of the calls that follow \<open>already exists\<close> ends the protocol.\<close>

lemma apply_get_failed:
  assumes "c_Create c test0 (ext w0) = ((Some err, test), x1)" and "IsAlreadyExists err"
    and "c_Get c (test_Namespace test) (test_Name test) test x1 = ((Some e, clone), x2)"
  shows "createAndRunTest_apply c test0 w0
           = (Inl e, \<lparr>ext = x2,
                      trace = trace w0 @ [ClientCreate test0,
                                          ClientGet (test_Namespace test) (test_Name test)]\<rparr>)"
  using assms
  by (simp add: createAndRunTest_apply_def call_Create_def call_Get_def emit_def Let_def)

lemma apply_hold_failed:
  assumes "c_Create c test0 (ext w0) = ((Some err, test), x1)" and "IsAlreadyExists err"
    and "c_Get c (test_Namespace test) (test_Name test) test x1 = ((None, clone), x2)"
    and "c_StatusUpdate c (clone\<lparr>Status := (Status clone)\<lparr>Phase := TestPhaseUpdating\<rparr>\<rparr>) x2
           = ((Some e, clone'), x3)"
  shows "createAndRunTest_apply c test0 w0
           = (Inl e,
              \<lparr>ext = x3,
               trace = trace w0 @
                 [ClientCreate test0,
                  ClientGet (test_Namespace test) (test_Name test),
                  ClientStatusUpdate
                    (clone\<lparr>Status := (Status clone)\<lparr>Phase := TestPhaseUpdating\<rparr>\<rparr>)]\<rparr>)"
  using assms
  by (simp add: createAndRunTest_apply_def call_Create_def call_Get_def call_StatusUpdate_def
      emit_def Let_def)

lemma apply_update_failed:
  assumes "c_Create c test0 (ext w0) = ((Some err, test), x1)" and "IsAlreadyExists err"
    and "c_Get c (test_Namespace test) (test_Name test) test x1 = ((None, clone), x2)"
    and "c_StatusUpdate c (clone\<lparr>Status := (Status clone)\<lparr>Phase := TestPhaseUpdating\<rparr>\<rparr>) x2
           = ((None, clone'), x3)"
    and "c_Update c (test\<lparr>ResourceVersion := ResourceVersion clone'\<rparr>) x3 = ((Some e, test3), x4)"
  shows "createAndRunTest_apply c test0 w0
           = (Inl e,
              \<lparr>ext = x4,
               trace = trace w0 @
                 [ClientCreate test0,
                  ClientGet (test_Namespace test) (test_Name test),
                  ClientStatusUpdate (clone\<lparr>Status := (Status clone)\<lparr>Phase := TestPhaseUpdating\<rparr>\<rparr>),
                  ClientUpdate (test\<lparr>ResourceVersion := ResourceVersion clone'\<rparr>)]\<rparr>)"
  using assms
  by (simp add: createAndRunTest_apply_def call_Create_def call_Get_def call_StatusUpdate_def
      call_Update_def emit_def Let_def)

lemma apply_reset_failed:
  assumes "c_Create c test0 (ext w0) = ((Some err, test), x1)" and "IsAlreadyExists err"
    and "c_Get c (test_Namespace test) (test_Name test) test x1 = ((None, clone), x2)"
    and "c_StatusUpdate c (clone\<lparr>Status := (Status clone)\<lparr>Phase := TestPhaseUpdating\<rparr>\<rparr>) x2
           = ((None, clone'), x3)"
    and "c_Update c (test\<lparr>ResourceVersion := ResourceVersion clone'\<rparr>) x3 = ((None, test3), x4)"
    and "c_StatusUpdate c (test3\<lparr>Status := TestStatus_zero\<rparr>) x4 = ((Some e, test5), x5)"
  shows "createAndRunTest_apply c test0 w0
           = (Inl e,
              \<lparr>ext = x5,
               trace = trace w0 @
                 [ClientCreate test0,
                  ClientGet (test_Namespace test) (test_Name test),
                  ClientStatusUpdate (clone\<lparr>Status := (Status clone)\<lparr>Phase := TestPhaseUpdating\<rparr>\<rparr>),
                  ClientUpdate (test\<lparr>ResourceVersion := ResourceVersion clone'\<rparr>),
                  ClientStatusUpdate (test3\<lparr>Status := TestStatus_zero\<rparr>)]\<rparr>)"
  using assms
  by (simp add: createAndRunTest_apply_def call_Create_def call_Get_def call_StatusUpdate_def
      call_Update_def emit_def Let_def)

text \<open>
  The calls of the protocol: \<open>Create\<close> first, then calls of \<open>Get\<close>, \<open>Update\<close> and the
  status update, of which there are some if and only if \<open>Create\<close> fails with
  \<open>already exists\<close>.
\<close>

lemma apply_calls:
  "\<exists>calls. trace (snd (createAndRunTest_apply c test0 w0)) = trace w0 @ ClientCreate test0 # calls
      \<and> set calls \<subseteq> range (\<lambda>(namespace, name). ClientGet namespace name)
                       \<union> range ClientUpdate \<union> range ClientStatusUpdate
      \<and> (calls \<noteq> [] \<longleftrightarrow>
           (\<exists>err. fst (fst (c_Create c test0 (ext w0))) = Some err \<and> IsAlreadyExists err))"
proof -
  obtain r test x1 where cr: "c_Create c test0 (ext w0) = ((r, test), x1)"
    by (metis surj_pair)
  show ?thesis
  proof (cases r)
    case None
    then show ?thesis using apply_created[of c test0 w0 test x1] cr by simp
  next
    case (Some err)
    show ?thesis
    proof (cases "IsAlreadyExists err")
      case False
      then show ?thesis using apply_create_failed[of c test0 w0 err test x1] cr Some by simp
    next
      case True
      note cr' = cr[unfolded Some]
      have ae: "\<exists>err. fst (fst (c_Create c test0 (ext w0))) = Some err \<and> IsAlreadyExists err"
        using cr' True by simp
      obtain r2 clone x2 where g:
        "c_Get c (test_Namespace test) (test_Name test) test x1 = ((r2, clone), x2)"
        by (metis surj_pair)
      show ?thesis
      proof (cases r2)
        case (Some e)
        show ?thesis
          using ae unfolding apply_get_failed[OF cr' True g[unfolded Some]]
          by (intro exI[of _ "[ClientGet (test_Namespace test) (test_Name test)]"]) auto
      next
        case None
        note g' = g[unfolded None]
        obtain r3 clone' x3 where h:
          "c_StatusUpdate c (clone\<lparr>Status := (Status clone)\<lparr>Phase := TestPhaseUpdating\<rparr>\<rparr>) x2
             = ((r3, clone'), x3)"
          by (metis surj_pair)
        show ?thesis
        proof (cases r3)
          case (Some e)
          show ?thesis
            using ae unfolding apply_hold_failed[OF cr' True g' h[unfolded Some]]
            by (intro exI[of _ "[ClientGet (test_Namespace test) (test_Name test),
                  ClientStatusUpdate
                    (clone\<lparr>Status := (Status clone)\<lparr>Phase := TestPhaseUpdating\<rparr>\<rparr>)]"]) auto
        next
          case None
          note h' = h[unfolded None]
          obtain r4 test3 x4 where u:
            "c_Update c (test\<lparr>ResourceVersion := ResourceVersion clone'\<rparr>) x3 = ((r4, test3), x4)"
            by (metis surj_pair)
          show ?thesis
          proof (cases r4)
            case (Some e)
            show ?thesis
              using ae unfolding apply_update_failed[OF cr' True g' h' u[unfolded Some]]
              by (intro exI[of _ "[ClientGet (test_Namespace test) (test_Name test),
                  ClientStatusUpdate
                    (clone\<lparr>Status := (Status clone)\<lparr>Phase := TestPhaseUpdating\<rparr>\<rparr>),
                  ClientUpdate (test\<lparr>ResourceVersion := ResourceVersion clone'\<rparr>)]"]) auto
          next
            case None
            note u' = u[unfolded None]
            obtain r5 test5 x5 where z:
              "c_StatusUpdate c (test3\<lparr>Status := TestStatus_zero\<rparr>) x4 = ((r5, test5), x5)"
              by (metis surj_pair)
            show ?thesis
            proof (cases r5)
              case (Some e)
              show ?thesis
                using ae unfolding apply_reset_failed[OF cr' True g' h' u' z[unfolded Some]]
                by (intro exI[of _ "[ClientGet (test_Namespace test) (test_Name test),
                  ClientStatusUpdate
                    (clone\<lparr>Status := (Status clone)\<lparr>Phase := TestPhaseUpdating\<rparr>\<rparr>),
                  ClientUpdate (test\<lparr>ResourceVersion := ResourceVersion clone'\<rparr>),
                  ClientStatusUpdate (test3\<lparr>Status := TestStatus_zero\<rparr>)]"]) auto
            next
              case None
              show ?thesis
                using ae unfolding apply_updated[OF cr' True g' h' u' z[unfolded None]]
                by (intro exI[of _ "[ClientGet (test_Namespace test) (test_Name test),
                  ClientStatusUpdate
                    (clone\<lparr>Status := (Status clone)\<lparr>Phase := TestPhaseUpdating\<rparr>\<rparr>),
                  ClientUpdate (test\<lparr>ResourceVersion := ResourceVersion clone'\<rparr>),
                  ClientStatusUpdate (test3\<lparr>Status := TestStatus_zero\<rparr>)]"]) auto
            qed
          qed
        qed
      qed
    qed
  qed
qed

text \<open>
  \<open>createAndRunTest\<close> when the resource is built and no dump is asked: the protocol,
  then the line about the result and the wait.
\<close>

lemma createAndRunTest_applies:
  assumes "createAndRunTest_build h c o' rawName runConfig (ext w) = Inr test0"
    and "o_DumpFormat o' = []"
  shows "createAndRunTest h c o' rawName runConfig w
     = (case createAndRunTest_apply c test0 w of
          (Inl err, w) \<Rightarrow> Some ((None, Some err), w)
        | (Inr (test, existed), w) \<Rightarrow>
            createAndRunTest_wait h c o' runConfig (SanitizeName h rawName) test
              (Println (''Test '' @ quoted (SanitizeName h rawName)
                        @ (if existed then '' updated'' else '' created'')) w))"
  using assms by (simp add: createAndRunTest_def)

lemma createAndRunTest_wait_trace:
  assumes "createAndRunTest_wait h c o' runConfig name test w = Some (out, w')"
  shows "\<exists>es. trace w' = trace w @ es \<and> set es \<subseteq> range Print \<union> range PrintLater"
proof (cases "o_Dev o'")
  case False
  then show ?thesis
    using createAndRunTest_wait_outcome[of o' h c runConfig name test w] assms by auto
next
  case True
  then show ?thesis
    using assms
    by (auto simp: createAndRunTest_wait_def Println_def emit_def Let_def
        split: prod.splits option.splits if_splits)
qed

lemma createAndRunTest_calls:
  assumes "createAndRunTest_build h c o' rawName runConfig (ext w) = Inr test0"
    and "o_DumpFormat o' = []"
    and "createAndRunTest h c o' rawName runConfig w = Some (out, w')"
  shows "\<exists>calls es. trace w' = trace w @ ClientCreate test0 # calls @ es
      \<and> set calls \<subseteq> range (\<lambda>(namespace, name). ClientGet namespace name)
                       \<union> range ClientUpdate \<union> range ClientStatusUpdate
      \<and> set es \<subseteq> range Print \<union> range PrintLater
      \<and> (calls \<noteq> [] \<longleftrightarrow>
           (\<exists>err. fst (fst (c_Create c test0 (ext w))) = Some err \<and> IsAlreadyExists err))"
proof -
  obtain calls where tr: "trace (snd (createAndRunTest_apply c test0 w))
                            = trace w @ ClientCreate test0 # calls"
    and sub: "set calls \<subseteq> range (\<lambda>(namespace, name). ClientGet namespace name)
                       \<union> range ClientUpdate \<union> range ClientStatusUpdate"
    and iff: "calls \<noteq> [] \<longleftrightarrow>
           (\<exists>err. fst (fst (c_Create c test0 (ext w))) = Some err \<and> IsAlreadyExists err)"
    using apply_calls[of c test0 w] by blast
  obtain r wa where ap: "createAndRunTest_apply c test0 w = (r, wa)"
    by (metis surj_pair)
  have trw: "trace wa = trace w @ ClientCreate test0 # calls"
    using tr ap by simp
  show ?thesis
  proof (cases r)
    case (Inl err)
    then have "w' = wa"
      using assms(3) unfolding createAndRunTest_applies[OF assms(1,2)] ap by simp
    then show ?thesis
      using trw sub iff by (intro exI[of _ calls] exI[of _ "[]"]) simp
  next
    case (Inr te)
    obtain test existed where te: "te = (test, existed)"
      by (metis surj_pair)
    let ?line = "''Test '' @ quoted (SanitizeName h rawName)
                   @ (if existed then '' updated'' else '' created'')"
    have "createAndRunTest_wait h c o' runConfig (SanitizeName h rawName) test (Println ?line wa)
            = Some (out, w')"
      using assms(3) unfolding createAndRunTest_applies[OF assms(1,2)] ap Inr te by simp
    then obtain es where es: "trace w' = trace (Println ?line wa) @ es"
      and pr: "set es \<subseteq> range Print \<union> range PrintLater"
      using createAndRunTest_wait_trace by blast
    have "trace w' = trace w @ ClientCreate test0 # calls @ (Print (?line @ [CHR 0x0A]) # es)"
      using es trw by (simp add: Println_def emit_def)
    moreover have "set (Print (?line @ [CHR 0x0A]) # es) \<subseteq> range Print \<union> range PrintLater"
      using pr by auto
    ultimately show ?thesis
      using sub iff by blast
  qed
qed

text \<open>
  On the reference API server the wait changes nothing in the store, and the call
  returns the Test in every mode.
\<close>

lemma api_wait_test:
  "\<exists>t err w'. createAndRunTest_wait h api_Cluster o' runConfig name test w
                 = Some ((Some t, err), w')
      \<and> ext w' = ext w"
proof (cases "o_Dev o'")
  case True
  then show ?thesis
    by (simp add: createAndRunTest_wait_def api_Cluster_def Println_def emit_def Let_def)
next
  case False
  have k: "ahead api_Cluster test (ext w) < 2"
    by (simp add: api_Cluster_def)
  show ?thesis
  proof (cases "o_Wait o'")
    case True
    have lg: "(if o_Logs o'
               then logPrint api_Cluster (ns_Name (Namespace (Config runConfig))) name (ext w)
               else (None, ext w)) = (None, ext w)"
      by (simp add: api_Cluster_def)
    have pl: "polls api_Cluster test (fst (waitTimeout h o' runConfig)) True (ext w)
                = ([test\<lparr>Status := (Status test)\<lparr>Phase := TestPhaseRunning\<rparr>\<rparr>,
                    test\<lparr>Status := (Status test)\<lparr>Phase := TestPhasePassed\<rparr>\<rparr>], ext w)"
      by (simp add: api_Cluster_def)
    show ?thesis
      unfolding createAndRunTest_wait_behind[OF False True k lg pl]
      by (simp add: Println_def emit_def)
  next
    case nw: False
    show ?thesis
      unfolding createAndRunTest_wait_started[OF False nw k]
      by (cases "snd (waitTimeout h o' runConfig)") (simp_all add: Println_def emit_def)
  qed
qed

text \<open>The wait of the example: the polls see the test passed.\<close>

lemma example_wait:
  "createAndRunTest_wait example_Helpers api_Cluster example_options example_RunConfig
      ''afeature'' t \<lparr>ext = s, trace = tr\<rparr>
     = Some ((Some (t\<lparr>Status := (Status t)\<lparr>Phase := TestPhasePassed\<rparr>\<rparr>), None),
             \<lparr>ext = s,
              trace = tr @ [Print (''Test 'afeature' finished with status: Passed''
                                   @ [CHR 0x0A])]\<rparr>)"
proof -
  let ?w = "\<lparr>ext = s, trace = tr\<rparr>"
  let ?run = "t\<lparr>Status := (Status t)\<lparr>Phase := TestPhaseRunning\<rparr>\<rparr>"
  let ?pass = "t\<lparr>Status := (Status t)\<lparr>Phase := TestPhasePassed\<rparr>\<rparr>"
  have sel: "\<not> o_Dev example_options" "o_Wait example_options"
    "AsError example_Helpers TestPhasePassed ''afeature'' = None"
    "o_Timeout example_options = []" "cfg_Timeout (Config example_RunConfig) = []"
    "DefaultTimeout example_Helpers = ''30m''"
    "ParseDuration example_Helpers ''30m'' = Inr 1800000000000"
    by (simp_all add: example_options_def example_Helpers_def example_RunConfig_def)
  have k: "ahead api_Cluster t (ext ?w) < 2"
    by (simp add: api_Cluster_def)
  have lg: "(if o_Logs example_options
             then logPrint api_Cluster (ns_Name (Namespace (Config example_RunConfig)))
                    ''afeature'' (ext ?w)
             else (None, ext ?w)) = (None, s)"
    by (simp add: api_Cluster_def)
  have pl: "polls api_Cluster t (fst (waitTimeout example_Helpers example_options example_RunConfig))
              True s = ([?run, ?pass], s)"
    by (simp add: api_Cluster_def)
  have wc: "WaitCondition phaseCondition [?run, ?pass] t TestPhaseNew = (?pass, TestPhasePassed)"
    by (simp add: phaseCondition_def)
  have wt: "snd (waitTimeout example_Helpers example_options example_RunConfig) = None"
    by (simp add: waitTimeout_def chooseTimeout_def sel)
  show ?thesis
    using createAndRunTest_wait_behind[OF sel(1,2) k lg pl, unfolded wc wt fst_conv snd_conv]
    by (simp add: sel Println_def emit_def quoted_def)
qed

text \<open>
  C1. When the resource is built and no dump is asked, \<open>createAndRunTest\<close> first calls
  \<open>Create\<close> with the new Test; the calls that follow are calls of \<open>Get\<close>, \<open>Update\<close> and
  the status update, and there are some if and only if \<open>Create\<close> fails with an
  \<open>already exists\<close> error; everything after them is printed text. When \<open>Create\<close>
  succeeds, the line \<open>created\<close> is printed and the function goes on to the wait. When
  \<open>Create\<close> fails with another error, that error is returned. When it fails with
  \<open>already exists\<close>, the calls are, in order: \<open>Get\<close> of the object, a status update of
  the fetched object with phase \<open>Updating\<close>, \<open>Update\<close> of the new Test, and a status
  update of the new Test with the zero status; then the line \<open>updated\<close> is printed and
  the function goes on to the wait. The first of these calls that fails ends the
  function with its error. The resource version that \<open>Update\<close> carries is the one that
  the status update with phase \<open>Updating\<close> left in the fetched object, which is the
  fetched version only if that call does not change it. Against the reference API
  server, re-submitting a Test whose namespace and name are already stored returns the
  Test, leaves exactly the same keys in the store (no second resource), and the stored
  object has the new spec and the zero status.
\<close>

theorem create_or_update_protocol:
  "(createAndRunTest_build h c o' rawName runConfig (ext w) = Inr built \<and> o_DumpFormat o' = []
    \<longrightarrow>
      (\<forall>out w'. createAndRunTest h c o' rawName runConfig w = Some (out, w')
         \<longrightarrow> (\<exists>calls es. trace w' = trace w @ ClientCreate built # calls @ es
                \<and> set calls \<subseteq> range (\<lambda>(namespace, name). ClientGet namespace name)
                                 \<union> range ClientUpdate \<union> range ClientStatusUpdate
                \<and> set es \<subseteq> range Print \<union> range PrintLater
                \<and> (calls \<noteq> [] \<longleftrightarrow>
                     (\<exists>err. fst (fst (c_Create c built (ext w))) = Some err
                        \<and> IsAlreadyExists err))))
      \<and> (\<forall>test x1. c_Create c built (ext w) = ((None, test), x1)
           \<longrightarrow> createAndRunTest h c o' rawName runConfig w
                = createAndRunTest_wait h c o' runConfig (SanitizeName h rawName) test
                    \<lparr>ext = x1,
                     trace = trace w @
                       [ClientCreate built,
                        Print (''Test '' @ quoted (SanitizeName h rawName) @ '' created''
                               @ [CHR 0x0A])]\<rparr>)
      \<and> (\<forall>err test x1. c_Create c built (ext w) = ((Some err, test), x1)
             \<and> \<not> IsAlreadyExists err
           \<longrightarrow> createAndRunTest h c o' rawName runConfig w
                = Some ((None, Some err),
                        \<lparr>ext = x1, trace = trace w @ [ClientCreate built]\<rparr>))
      \<and> (\<forall>err test x1 clone x2 clone' x3 test3 x4 test5 x5.
             c_Create c built (ext w) = ((Some err, test), x1) \<and> IsAlreadyExists err
             \<and> c_Get c (test_Namespace test) (test_Name test) test x1 = ((None, clone), x2)
             \<and> c_StatusUpdate c (clone\<lparr>Status := (Status clone)\<lparr>Phase := TestPhaseUpdating\<rparr>\<rparr>) x2
                   = ((None, clone'), x3)
             \<and> c_Update c (test\<lparr>ResourceVersion := ResourceVersion clone'\<rparr>) x3
                   = ((None, test3), x4)
             \<and> c_StatusUpdate c (test3\<lparr>Status := TestStatus_zero\<rparr>) x4 = ((None, test5), x5)
           \<longrightarrow> createAndRunTest h c o' rawName runConfig w
                = createAndRunTest_wait h c o' runConfig (SanitizeName h rawName) test5
                    \<lparr>ext = x5,
                     trace = trace w @
                       [ClientCreate built,
                        ClientGet (test_Namespace test) (test_Name test),
                        ClientStatusUpdate
                          (clone\<lparr>Status := (Status clone)\<lparr>Phase := TestPhaseUpdating\<rparr>\<rparr>),
                        ClientUpdate (test\<lparr>ResourceVersion := ResourceVersion clone'\<rparr>),
                        ClientStatusUpdate (test3\<lparr>Status := TestStatus_zero\<rparr>),
                        Print (''Test '' @ quoted (SanitizeName h rawName) @ '' updated''
                               @ [CHR 0x0A])]\<rparr>)
      \<and> (\<forall>err test x1 e clone x2.
             c_Create c built (ext w) = ((Some err, test), x1) \<and> IsAlreadyExists err
             \<and> c_Get c (test_Namespace test) (test_Name test) test x1 = ((Some e, clone), x2)
           \<longrightarrow> createAndRunTest h c o' rawName runConfig w
                = Some ((None, Some e),
                        \<lparr>ext = x2,
                         trace = trace w @
                           [ClientCreate built,
                            ClientGet (test_Namespace test) (test_Name test)]\<rparr>))
      \<and> (\<forall>err test x1 clone x2 e clone' x3.
             c_Create c built (ext w) = ((Some err, test), x1) \<and> IsAlreadyExists err
             \<and> c_Get c (test_Namespace test) (test_Name test) test x1 = ((None, clone), x2)
             \<and> c_StatusUpdate c (clone\<lparr>Status := (Status clone)\<lparr>Phase := TestPhaseUpdating\<rparr>\<rparr>) x2
                   = ((Some e, clone'), x3)
           \<longrightarrow> createAndRunTest h c o' rawName runConfig w
                = Some ((None, Some e),
                        \<lparr>ext = x3,
                         trace = trace w @
                           [ClientCreate built,
                            ClientGet (test_Namespace test) (test_Name test),
                            ClientStatusUpdate
                              (clone\<lparr>Status := (Status clone)\<lparr>Phase := TestPhaseUpdating\<rparr>\<rparr>)]\<rparr>))
      \<and> (\<forall>err test x1 clone x2 clone' x3 e test3 x4.
             c_Create c built (ext w) = ((Some err, test), x1) \<and> IsAlreadyExists err
             \<and> c_Get c (test_Namespace test) (test_Name test) test x1 = ((None, clone), x2)
             \<and> c_StatusUpdate c (clone\<lparr>Status := (Status clone)\<lparr>Phase := TestPhaseUpdating\<rparr>\<rparr>) x2
                   = ((None, clone'), x3)
             \<and> c_Update c (test\<lparr>ResourceVersion := ResourceVersion clone'\<rparr>) x3
                   = ((Some e, test3), x4)
           \<longrightarrow> createAndRunTest h c o' rawName runConfig w
                = Some ((None, Some e),
                        \<lparr>ext = x4,
                         trace = trace w @
                           [ClientCreate built,
                            ClientGet (test_Namespace test) (test_Name test),
                            ClientStatusUpdate
                              (clone\<lparr>Status := (Status clone)\<lparr>Phase := TestPhaseUpdating\<rparr>\<rparr>),
                            ClientUpdate (test\<lparr>ResourceVersion := ResourceVersion clone'\<rparr>)]\<rparr>))
      \<and> (\<forall>err test x1 clone x2 clone' x3 test3 x4 e test5 x5.
             c_Create c built (ext w) = ((Some err, test), x1) \<and> IsAlreadyExists err
             \<and> c_Get c (test_Namespace test) (test_Name test) test x1 = ((None, clone), x2)
             \<and> c_StatusUpdate c (clone\<lparr>Status := (Status clone)\<lparr>Phase := TestPhaseUpdating\<rparr>\<rparr>) x2
                   = ((None, clone'), x3)
             \<and> c_Update c (test\<lparr>ResourceVersion := ResourceVersion clone'\<rparr>) x3
                   = ((None, test3), x4)
             \<and> c_StatusUpdate c (test3\<lparr>Status := TestStatus_zero\<rparr>) x4 = ((Some e, test5), x5)
           \<longrightarrow> createAndRunTest h c o' rawName runConfig w
                = Some ((None, Some e),
                        \<lparr>ext = x5,
                         trace = trace w @
                           [ClientCreate built,
                            ClientGet (test_Namespace test) (test_Name test),
                            ClientStatusUpdate
                              (clone\<lparr>Status := (Status clone)\<lparr>Phase := TestPhaseUpdating\<rparr>\<rparr>),
                            ClientUpdate (test\<lparr>ResourceVersion := ResourceVersion clone'\<rparr>),
                            ClientStatusUpdate (test3\<lparr>Status := TestStatus_zero\<rparr>)]\<rparr>)))
   \<and> (createAndRunTest_build h api_Cluster o' rawName runConfig s = Inr built
        \<and> o_DumpFormat o' = []
        \<and> s (test_Namespace built, test_Name built) = Some cur
        \<and> test_Namespace cur = test_Namespace built \<and> test_Name cur = test_Name built
      \<longrightarrow> (\<exists>t err w' stored.
             createAndRunTest h api_Cluster o' rawName runConfig \<lparr>ext = s, trace = tr\<rparr>
               = Some ((Some t, err), w')
             \<and> ext w' (test_Namespace built, test_Name built) = Some stored
             \<and> Status stored = TestStatus_zero \<and> Spec stored = Spec built
             \<and> dom (ext w') = dom s))"
proof (intro conjI impI allI)
  fix out w'
  assume b: "createAndRunTest_build h c o' rawName runConfig (ext w) = Inr built
               \<and> o_DumpFormat o' = []"
    and r: "createAndRunTest h c o' rawName runConfig w = Some (out, w')"
  show "\<exists>calls es. trace w' = trace w @ ClientCreate built # calls @ es
                \<and> set calls \<subseteq> range (\<lambda>(namespace, name). ClientGet namespace name)
                                 \<union> range ClientUpdate \<union> range ClientStatusUpdate
                \<and> set es \<subseteq> range Print \<union> range PrintLater
                \<and> (calls \<noteq> [] \<longleftrightarrow>
                     (\<exists>err. fst (fst (c_Create c built (ext w))) = Some err
                        \<and> IsAlreadyExists err))"
    using createAndRunTest_calls[of h c o' rawName runConfig w built out w'] b r by blast
next
  fix test x1
  assume b: "createAndRunTest_build h c o' rawName runConfig (ext w) = Inr built
               \<and> o_DumpFormat o' = []"
    and a: "c_Create c built (ext w) = ((None, test), x1)"
  from b have b1: "createAndRunTest_build h c o' rawName runConfig (ext w) = Inr built"
    and b2: "o_DumpFormat o' = []"
    by blast+
  show "createAndRunTest h c o' rawName runConfig w
                = createAndRunTest_wait h c o' runConfig (SanitizeName h rawName) test
                    \<lparr>ext = x1,
                     trace = trace w @
                       [ClientCreate built,
                        Print (''Test '' @ quoted (SanitizeName h rawName) @ '' created''
                               @ [CHR 0x0A])]\<rparr>"
    unfolding createAndRunTest_applies[OF b1 b2] apply_created[OF a]
    by (simp add: Println_def emit_def)
next
  fix err test x1
  assume b: "createAndRunTest_build h c o' rawName runConfig (ext w) = Inr built
               \<and> o_DumpFormat o' = []"
    and a: "c_Create c built (ext w) = ((Some err, test), x1) \<and> \<not> IsAlreadyExists err"
  from b have b1: "createAndRunTest_build h c o' rawName runConfig (ext w) = Inr built"
    and b2: "o_DumpFormat o' = []"
    by blast+
  from a have a1: "c_Create c built (ext w) = ((Some err, test), x1)"
    and a2: "\<not> IsAlreadyExists err"
    by blast+
  show "createAndRunTest h c o' rawName runConfig w
                = Some ((None, Some err),
                        \<lparr>ext = x1, trace = trace w @ [ClientCreate built]\<rparr>)"
    unfolding createAndRunTest_applies[OF b1 b2] apply_create_failed[OF a1 a2]
    by simp
next
  fix err test x1 clone x2 clone' x3 test3 x4 test5 x5
  assume b: "createAndRunTest_build h c o' rawName runConfig (ext w) = Inr built
               \<and> o_DumpFormat o' = []"
    and a: "c_Create c built (ext w) = ((Some err, test), x1) \<and> IsAlreadyExists err
             \<and> c_Get c (test_Namespace test) (test_Name test) test x1 = ((None, clone), x2)
             \<and> c_StatusUpdate c (clone\<lparr>Status := (Status clone)\<lparr>Phase := TestPhaseUpdating\<rparr>\<rparr>) x2
                   = ((None, clone'), x3)
             \<and> c_Update c (test\<lparr>ResourceVersion := ResourceVersion clone'\<rparr>) x3
                   = ((None, test3), x4)
             \<and> c_StatusUpdate c (test3\<lparr>Status := TestStatus_zero\<rparr>) x4 = ((None, test5), x5)"
  from b have b1: "createAndRunTest_build h c o' rawName runConfig (ext w) = Inr built"
    and b2: "o_DumpFormat o' = []"
    by blast+
  have ap: "createAndRunTest_apply c built w
           = (Inr (test5, True),
              \<lparr>ext = x5,
               trace = trace w @
                 [ClientCreate built,
                  ClientGet (test_Namespace test) (test_Name test),
                  ClientStatusUpdate (clone\<lparr>Status := (Status clone)\<lparr>Phase := TestPhaseUpdating\<rparr>\<rparr>),
                  ClientUpdate (test\<lparr>ResourceVersion := ResourceVersion clone'\<rparr>),
                  ClientStatusUpdate (test3\<lparr>Status := TestStatus_zero\<rparr>)]\<rparr>)"
    by (rule apply_updated) (use a in blast)+
  show "createAndRunTest h c o' rawName runConfig w
                = createAndRunTest_wait h c o' runConfig (SanitizeName h rawName) test5
                    \<lparr>ext = x5,
                     trace = trace w @
                       [ClientCreate built,
                        ClientGet (test_Namespace test) (test_Name test),
                        ClientStatusUpdate
                          (clone\<lparr>Status := (Status clone)\<lparr>Phase := TestPhaseUpdating\<rparr>\<rparr>),
                        ClientUpdate (test\<lparr>ResourceVersion := ResourceVersion clone'\<rparr>),
                        ClientStatusUpdate (test3\<lparr>Status := TestStatus_zero\<rparr>),
                        Print (''Test '' @ quoted (SanitizeName h rawName) @ '' updated''
                               @ [CHR 0x0A])]\<rparr>"
    unfolding createAndRunTest_applies[OF b1 b2] ap
    by (simp add: Println_def emit_def)
next
  fix err test x1 e clone x2
  assume b: "createAndRunTest_build h c o' rawName runConfig (ext w) = Inr built
               \<and> o_DumpFormat o' = []"
    and a: "c_Create c built (ext w) = ((Some err, test), x1) \<and> IsAlreadyExists err
             \<and> c_Get c (test_Namespace test) (test_Name test) test x1 = ((Some e, clone), x2)"
  from b have b1: "createAndRunTest_build h c o' rawName runConfig (ext w) = Inr built"
    and b2: "o_DumpFormat o' = []"
    by blast+
  have ap: "createAndRunTest_apply c built w
           = (Inl e, \<lparr>ext = x2,
                      trace = trace w @ [ClientCreate built,
                                          ClientGet (test_Namespace test) (test_Name test)]\<rparr>)"
    by (rule apply_get_failed) (use a in blast)+
  show "createAndRunTest h c o' rawName runConfig w
                = Some ((None, Some e),
                        \<lparr>ext = x2,
                         trace = trace w @
                           [ClientCreate built,
                            ClientGet (test_Namespace test) (test_Name test)]\<rparr>)"
    unfolding createAndRunTest_applies[OF b1 b2] ap by simp
next
  fix err test x1 clone x2 e clone' x3
  assume b: "createAndRunTest_build h c o' rawName runConfig (ext w) = Inr built
               \<and> o_DumpFormat o' = []"
    and a: "c_Create c built (ext w) = ((Some err, test), x1) \<and> IsAlreadyExists err
             \<and> c_Get c (test_Namespace test) (test_Name test) test x1 = ((None, clone), x2)
             \<and> c_StatusUpdate c (clone\<lparr>Status := (Status clone)\<lparr>Phase := TestPhaseUpdating\<rparr>\<rparr>) x2
                   = ((Some e, clone'), x3)"
  from b have b1: "createAndRunTest_build h c o' rawName runConfig (ext w) = Inr built"
    and b2: "o_DumpFormat o' = []"
    by blast+
  have ap: "createAndRunTest_apply c built w
           = (Inl e,
              \<lparr>ext = x3,
               trace = trace w @
                 [ClientCreate built,
                  ClientGet (test_Namespace test) (test_Name test),
                  ClientStatusUpdate
                    (clone\<lparr>Status := (Status clone)\<lparr>Phase := TestPhaseUpdating\<rparr>\<rparr>)]\<rparr>)"
    by (rule apply_hold_failed) (use a in blast)+
  show "createAndRunTest h c o' rawName runConfig w
                = Some ((None, Some e),
                        \<lparr>ext = x3,
                         trace = trace w @
                           [ClientCreate built,
                            ClientGet (test_Namespace test) (test_Name test),
                            ClientStatusUpdate
                              (clone\<lparr>Status := (Status clone)\<lparr>Phase := TestPhaseUpdating\<rparr>\<rparr>)]\<rparr>)"
    unfolding createAndRunTest_applies[OF b1 b2] ap by simp
next
  fix err test x1 clone x2 clone' x3 e test3 x4
  assume b: "createAndRunTest_build h c o' rawName runConfig (ext w) = Inr built
               \<and> o_DumpFormat o' = []"
    and a: "c_Create c built (ext w) = ((Some err, test), x1) \<and> IsAlreadyExists err
             \<and> c_Get c (test_Namespace test) (test_Name test) test x1 = ((None, clone), x2)
             \<and> c_StatusUpdate c (clone\<lparr>Status := (Status clone)\<lparr>Phase := TestPhaseUpdating\<rparr>\<rparr>) x2
                   = ((None, clone'), x3)
             \<and> c_Update c (test\<lparr>ResourceVersion := ResourceVersion clone'\<rparr>) x3
                   = ((Some e, test3), x4)"
  from b have b1: "createAndRunTest_build h c o' rawName runConfig (ext w) = Inr built"
    and b2: "o_DumpFormat o' = []"
    by blast+
  have ap: "createAndRunTest_apply c built w
           = (Inl e,
              \<lparr>ext = x4,
               trace = trace w @
                 [ClientCreate built,
                  ClientGet (test_Namespace test) (test_Name test),
                  ClientStatusUpdate (clone\<lparr>Status := (Status clone)\<lparr>Phase := TestPhaseUpdating\<rparr>\<rparr>),
                  ClientUpdate (test\<lparr>ResourceVersion := ResourceVersion clone'\<rparr>)]\<rparr>)"
    by (rule apply_update_failed) (use a in blast)+
  show "createAndRunTest h c o' rawName runConfig w
                = Some ((None, Some e),
                        \<lparr>ext = x4,
                         trace = trace w @
                           [ClientCreate built,
                            ClientGet (test_Namespace test) (test_Name test),
                            ClientStatusUpdate
                              (clone\<lparr>Status := (Status clone)\<lparr>Phase := TestPhaseUpdating\<rparr>\<rparr>),
                            ClientUpdate (test\<lparr>ResourceVersion := ResourceVersion clone'\<rparr>)]\<rparr>)"
    unfolding createAndRunTest_applies[OF b1 b2] ap by simp
next
  fix err test x1 clone x2 clone' x3 test3 x4 e test5 x5
  assume b: "createAndRunTest_build h c o' rawName runConfig (ext w) = Inr built
               \<and> o_DumpFormat o' = []"
    and a: "c_Create c built (ext w) = ((Some err, test), x1) \<and> IsAlreadyExists err
             \<and> c_Get c (test_Namespace test) (test_Name test) test x1 = ((None, clone), x2)
             \<and> c_StatusUpdate c (clone\<lparr>Status := (Status clone)\<lparr>Phase := TestPhaseUpdating\<rparr>\<rparr>) x2
                   = ((None, clone'), x3)
             \<and> c_Update c (test\<lparr>ResourceVersion := ResourceVersion clone'\<rparr>) x3
                   = ((None, test3), x4)
             \<and> c_StatusUpdate c (test3\<lparr>Status := TestStatus_zero\<rparr>) x4 = ((Some e, test5), x5)"
  from b have b1: "createAndRunTest_build h c o' rawName runConfig (ext w) = Inr built"
    and b2: "o_DumpFormat o' = []"
    by blast+
  have ap: "createAndRunTest_apply c built w
           = (Inl e,
              \<lparr>ext = x5,
               trace = trace w @
                 [ClientCreate built,
                  ClientGet (test_Namespace test) (test_Name test),
                  ClientStatusUpdate (clone\<lparr>Status := (Status clone)\<lparr>Phase := TestPhaseUpdating\<rparr>\<rparr>),
                  ClientUpdate (test\<lparr>ResourceVersion := ResourceVersion clone'\<rparr>),
                  ClientStatusUpdate (test3\<lparr>Status := TestStatus_zero\<rparr>)]\<rparr>)"
    by (rule apply_reset_failed) (use a in blast)+
  show "createAndRunTest h c o' rawName runConfig w
                = Some ((None, Some e),
                        \<lparr>ext = x5,
                         trace = trace w @
                           [ClientCreate built,
                            ClientGet (test_Namespace test) (test_Name test),
                            ClientStatusUpdate
                              (clone\<lparr>Status := (Status clone)\<lparr>Phase := TestPhaseUpdating\<rparr>\<rparr>),
                            ClientUpdate (test\<lparr>ResourceVersion := ResourceVersion clone'\<rparr>),
                            ClientStatusUpdate (test3\<lparr>Status := TestStatus_zero\<rparr>)]\<rparr>)"
    unfolding createAndRunTest_applies[OF b1 b2] ap by simp
next
  assume a: "createAndRunTest_build h api_Cluster o' rawName runConfig s = Inr built
        \<and> o_DumpFormat o' = []
        \<and> s (test_Namespace built, test_Name built) = Some cur
        \<and> test_Namespace cur = test_Namespace built \<and> test_Name cur = test_Name built"
  let ?fin = "built\<lparr>Status := TestStatus_zero,
                    ResourceVersion :=
                      next_version (next_version (next_version (ResourceVersion cur)))\<rparr>"
  let ?k = "(test_Namespace built, test_Name built)"
  let ?w0 = "\<lparr>ext = s, trace = tr\<rparr>"
  from a have b1: "createAndRunTest_build h api_Cluster o' rawName runConfig (ext ?w0) = Inr built"
    and b2: "o_DumpFormat o' = []"
    and cur: "s ?k = Some cur" "test_Namespace cur = test_Namespace built"
      "test_Name cur = test_Name built"
    by simp_all
  have dom: "dom (s(?k \<mapsto> ?fin)) = dom s"
    using cur(1) by auto
  obtain wa where ap: "createAndRunTest_apply api_Cluster built ?w0 = (Inr (?fin, True), wa)"
    and wa: "ext wa = s(?k \<mapsto> ?fin)"
    using api_apply_existing[of s built cur tr] cur by simp
  let ?w1 = "Println (''Test '' @ quoted (SanitizeName h rawName) @ '' updated'') wa"
  have e1: "ext ?w1 = s(?k \<mapsto> ?fin)"
    using wa by (simp add: Println_def emit_def)
  obtain t err w' where
    wt: "createAndRunTest_wait h api_Cluster o' runConfig (SanitizeName h rawName) ?fin ?w1
           = Some ((Some t, err), w')"
    and ew: "ext w' = ext ?w1"
    using api_wait_test[of h o' runConfig "SanitizeName h rawName" ?fin ?w1] by blast
  have "createAndRunTest h api_Cluster o' rawName runConfig ?w0 = Some ((Some t, err), w')"
    unfolding createAndRunTest_applies[OF b1 b2] ap using wt by simp
  moreover have "ext w' ?k = Some ?fin" "dom (ext w') = dom s"
    using ew e1 dom by simp_all
  moreover have "Status ?fin = TestStatus_zero" "Spec ?fin = Spec built"
    by simp_all
  ultimately show "\<exists>t err w' stored.
             createAndRunTest h api_Cluster o' rawName runConfig \<lparr>ext = s, trace = tr\<rparr>
               = Some ((Some t, err), w')
             \<and> ext w' (test_Namespace built, test_Name built) = Some stored
             \<and> Status stored = TestStatus_zero \<and> Spec stored = Spec built
             \<and> dom (ext w') = dom s"
    by blast
qed

theorem create_or_update_protocol_witness:
  "createAndRunTest example_Helpers api_Cluster example_options ''a.feature'' example_RunConfig
      \<lparr>ext = Map.empty, trace = []\<rparr>
     = Some ((Some (example_Test\<lparr>ResourceVersion := ''1'',
                                 Status := \<lparr>Phase = TestPhasePassed, Results = TestSuite_zero\<rparr>\<rparr>),
              None),
             \<lparr>ext = [(''tests'', ''afeature'') \<mapsto> example_Test\<lparr>ResourceVersion := ''1''\<rparr>],
              trace = [ClientCreate example_Test,
                       Print (''Test 'afeature' created'' @ [CHR 0x0A]),
                       Print (''Test 'afeature' finished with status: Passed'' @ [CHR 0x0A])]\<rparr>)
   \<and> createAndRunTest example_Helpers api_Cluster example_options ''a.feature'' example_RunConfig
       \<lparr>ext = [(''tests'', ''afeature'') \<mapsto>
                 example_Test\<lparr>Status := \<lparr>Phase = TestPhasePassed, Results = TestSuite_zero\<rparr>,
                              ResourceVersion := ''7''\<rparr>],
        trace = []\<rparr>
     = Some ((Some (example_Test\<lparr>Status := \<lparr>Phase = TestPhasePassed, Results = TestSuite_zero\<rparr>,
                                 ResourceVersion := ''1117''\<rparr>),
              None),
             \<lparr>ext = [(''tests'', ''afeature'') \<mapsto>
                       example_Test\<lparr>Status := TestStatus_zero, ResourceVersion := ''1117''\<rparr>],
              trace =
                [ClientCreate example_Test,
                 ClientGet ''tests'' ''afeature'',
                 ClientStatusUpdate
                   (example_Test\<lparr>Status := \<lparr>Phase = TestPhaseUpdating, Results = TestSuite_zero\<rparr>,
                                 ResourceVersion := ''7''\<rparr>),
                 ClientUpdate (example_Test\<lparr>ResourceVersion := ''17''\<rparr>),
                 ClientStatusUpdate
                   (example_Test\<lparr>Status := TestStatus_zero, ResourceVersion := ''117''\<rparr>),
                 Print (''Test 'afeature' updated'' @ [CHR 0x0A]),
                 Print (''Test 'afeature' finished with status: Passed'' @ [CHR 0x0A])]\<rparr>)
   \<and> (\<exists>t err w' stored.
        createAndRunTest example_Helpers api_Cluster example_options ''a.feature''
          example_RunConfig
          \<lparr>ext = [(''tests'', ''afeature'') \<mapsto>
                    example_Test\<lparr>Status := \<lparr>Phase = TestPhasePassed, Results = TestSuite_zero\<rparr>,
                                 ResourceVersion := ''7''\<rparr>],
           trace = []\<rparr>
          = Some ((Some t, err), w')
        \<and> ext w' (''tests'', ''afeature'') = Some stored
        \<and> Status stored = TestStatus_zero \<and> Spec stored = Spec example_Test
        \<and> dom (ext w') = {(''tests'', ''afeature'')})"
proof -
  let ?k = "(''tests'', ''afeature'')"
  let ?old = "example_Test\<lparr>Status := \<lparr>Phase = TestPhasePassed, Results = TestSuite_zero\<rparr>,
                           ResourceVersion := ''7''\<rparr>"
  let ?hold = "example_Test\<lparr>Status := \<lparr>Phase = TestPhaseUpdating, Results = TestSuite_zero\<rparr>,
                            ResourceVersion := ''7''\<rparr>"
  let ?held = "example_Test\<lparr>Status := \<lparr>Phase = TestPhaseUpdating, Results = TestSuite_zero\<rparr>,
                            ResourceVersion := ''17''\<rparr>"
  let ?upd = "example_Test\<lparr>Status := \<lparr>Phase = TestPhaseUpdating, Results = TestSuite_zero\<rparr>,
                           ResourceVersion := ''117''\<rparr>"
  let ?fin = "example_Test\<lparr>Status := TestStatus_zero, ResourceVersion := ''1117''\<rparr>"
  let ?t1 = "example_Test\<lparr>ResourceVersion := ''1''\<rparr>"
  let ?s = "[?k \<mapsto> ?old]"
  let ?w0 = "\<lparr>ext = Map.empty, trace = []\<rparr> :: store world"
  let ?w1 = "\<lparr>ext = ?s, trace = []\<rparr>"
  have key: "test_Namespace example_Test = ''tests''" "test_Name example_Test = ''afeature''"
    by (simp_all add: example_Test_def)
  have b0: "createAndRunTest_build example_Helpers api_Cluster example_options ''a.feature''
              example_RunConfig (ext ?w0) = Inr example_Test"
    and b1: "createAndRunTest_build example_Helpers api_Cluster example_options ''a.feature''
              example_RunConfig (ext ?w1) = Inr example_Test"
    by (simp_all add: example_build)
  have nd: "o_DumpFormat example_options = []"
    by (simp add: example_options_def)
  have sn: "SanitizeName example_Helpers ''a.feature'' = ''afeature''"
    by (simp add: example_Helpers_def)
  have 0: "c_Create api_Cluster example_Test (ext ?w0) = ((None, ?t1), [?k \<mapsto> ?t1])"
    by (simp add: api_Cluster_def api_Create_def key Let_def)
  have 1: "c_Create api_Cluster example_Test (ext ?w1)
             = ((Some (Error ''AlreadyExists'' 409 ''already exists''), example_Test), ?s)"
    by (simp add: api_Cluster_def api_Create_def key Let_def)
  have 2: "c_Get api_Cluster (test_Namespace example_Test) (test_Name example_Test)
             example_Test ?s = ((None, ?old), ?s)"
    by (simp add: api_Cluster_def api_Get_def key)
  have 3: "c_StatusUpdate api_Cluster (?old\<lparr>Status := (Status ?old)\<lparr>Phase := TestPhaseUpdating\<rparr>\<rparr>) ?s
             = ((None, ?held), [?k \<mapsto> ?held])"
    by (simp add: api_Cluster_def api_StatusUpdate_def key next_version_def Let_def)
  have 4: "c_Update api_Cluster (example_Test\<lparr>ResourceVersion := ResourceVersion ?held\<rparr>)
             [?k \<mapsto> ?held] = ((None, ?upd), [?k \<mapsto> ?upd])"
    by (simp add: api_Cluster_def api_Update_def key next_version_def Let_def)
  have 5: "c_StatusUpdate api_Cluster (?upd\<lparr>Status := TestStatus_zero\<rparr>) [?k \<mapsto> ?upd]
             = ((None, ?fin), [?k \<mapsto> ?fin])"
    by (simp add: api_Cluster_def api_StatusUpdate_def key next_version_def Let_def)
  have ae: "IsAlreadyExists (Error ''AlreadyExists'' 409 ''already exists'')"
    by (simp add: IsAlreadyExists_def)
  have st: "Status example_Test = TestStatus_zero"
    by (simp add: example_Test_def)
  note P0 = create_or_update_protocol[where h = example_Helpers and c = api_Cluster
      and o' = example_options and rawName = "''a.feature''" and runConfig = example_RunConfig
      and w = ?w0 and built = example_Test, THEN conjunct1, THEN mp, OF conjI[OF b0 nd]]
  note P1 = create_or_update_protocol[where h = example_Helpers and c = api_Cluster
      and o' = example_options and rawName = "''a.feature''" and runConfig = example_RunConfig
      and w = ?w1 and built = example_Test, THEN conjunct1, THEN mp, OF conjI[OF b1 nd]]
  note Q = create_or_update_protocol[where h = example_Helpers
      and o' = example_options and rawName = "''a.feature''" and runConfig = example_RunConfig
      and s = ?s and built = example_Test and cur = ?old and tr = "[]", THEN conjunct2]
  have a: "createAndRunTest example_Helpers api_Cluster example_options ''a.feature''
      example_RunConfig ?w0
     = Some ((Some (example_Test\<lparr>ResourceVersion := ''1'',
                                 Status := \<lparr>Phase = TestPhasePassed, Results = TestSuite_zero\<rparr>\<rparr>),
              None),
             \<lparr>ext = [?k \<mapsto> ?t1],
              trace = [ClientCreate example_Test,
                       Print (''Test 'afeature' created'' @ [CHR 0x0A]),
                       Print (''Test 'afeature' finished with status: Passed'' @ [CHR 0x0A])]\<rparr>)"
    unfolding P0[THEN conjunct2, THEN conjunct1, rule_format, OF 0]
    by (simp add: sn quoted_def example_wait st TestStatus_zero_def)
  have b: "createAndRunTest example_Helpers api_Cluster example_options ''a.feature''
      example_RunConfig ?w1
     = Some ((Some (example_Test\<lparr>Status := \<lparr>Phase = TestPhasePassed, Results = TestSuite_zero\<rparr>,
                                 ResourceVersion := ''1117''\<rparr>),
              None),
             \<lparr>ext = [?k \<mapsto> ?fin],
              trace = [ClientCreate example_Test, ClientGet ''tests'' ''afeature'',
                       ClientStatusUpdate ?hold,
                       ClientUpdate (example_Test\<lparr>ResourceVersion := ''17''\<rparr>),
                       ClientStatusUpdate
                         (example_Test\<lparr>Status := TestStatus_zero, ResourceVersion := ''117''\<rparr>),
                       Print (''Test 'afeature' updated'' @ [CHR 0x0A]),
                       Print (''Test 'afeature' finished with status: Passed''
                              @ [CHR 0x0A])]\<rparr>)"
    unfolding P1[THEN conjunct2, THEN conjunct2, THEN conjunct2, THEN conjunct1, rule_format,
        OF conjI[OF 1 conjI[OF ae conjI[OF 2 conjI[OF 3 conjI[OF 4 5]]]]]]
    by (simp add: sn quoted_def example_wait key TestStatus_zero_def)
  have c: "\<exists>t err w' stored.
        createAndRunTest example_Helpers api_Cluster example_options ''a.feature''
          example_RunConfig ?w1 = Some ((Some t, err), w')
        \<and> ext w' ?k = Some stored
        \<and> Status stored = TestStatus_zero \<and> Spec stored = Spec example_Test
        \<and> dom (ext w') = {?k}"
    using Q b1 nd by (simp add: key)
  from a b c show ?thesis
    by blast
qed

text \<open>
  The resource version that \<open>Update\<close> carries, on the reference API server: the stored
  object is fetched with the version \<open>7\<close>, the status update that holds it leaves the
  version \<open>17\<close> in the fetched object, and \<open>Update\<close> is called with \<open>17\<close>. The server
  would refuse an \<open>Update\<close> that carries the fetched version.
\<close>

theorem update_carries_held_version:
  "createAndRunTest example_Helpers api_Cluster example_options ''a.feature'' example_RunConfig
       \<lparr>ext = [(''tests'', ''afeature'') \<mapsto>
                 example_Test\<lparr>Status := \<lparr>Phase = TestPhasePassed, Results = TestSuite_zero\<rparr>,
                              ResourceVersion := ''7''\<rparr>],
        trace = []\<rparr>
     = Some ((Some (example_Test\<lparr>Status := \<lparr>Phase = TestPhasePassed, Results = TestSuite_zero\<rparr>,
                                 ResourceVersion := ''1117''\<rparr>),
              None),
             \<lparr>ext = [(''tests'', ''afeature'') \<mapsto>
                       example_Test\<lparr>Status := TestStatus_zero, ResourceVersion := ''1117''\<rparr>],
              trace =
                [ClientCreate example_Test,
                 ClientGet ''tests'' ''afeature'',
                 ClientStatusUpdate
                   (example_Test\<lparr>Status := \<lparr>Phase = TestPhaseUpdating, Results = TestSuite_zero\<rparr>,
                                 ResourceVersion := ''7''\<rparr>),
                 ClientUpdate (example_Test\<lparr>ResourceVersion := ''17''\<rparr>),
                 ClientStatusUpdate
                   (example_Test\<lparr>Status := TestStatus_zero, ResourceVersion := ''117''\<rparr>),
                 Print (''Test 'afeature' updated'' @ [CHR 0x0A]),
                 Print (''Test 'afeature' finished with status: Passed'' @ [CHR 0x0A])]\<rparr>)
   \<and> c_Get api_Cluster ''tests'' ''afeature'' example_Test
        [(''tests'', ''afeature'') \<mapsto>
           example_Test\<lparr>Status := \<lparr>Phase = TestPhasePassed, Results = TestSuite_zero\<rparr>,
                        ResourceVersion := ''7''\<rparr>]
       = ((None, example_Test\<lparr>Status := \<lparr>Phase = TestPhasePassed, Results = TestSuite_zero\<rparr>,
                              ResourceVersion := ''7''\<rparr>),
          [(''tests'', ''afeature'') \<mapsto>
             example_Test\<lparr>Status := \<lparr>Phase = TestPhasePassed, Results = TestSuite_zero\<rparr>,
                          ResourceVersion := ''7''\<rparr>])
   \<and> ResourceVersion (example_Test\<lparr>ResourceVersion := ''17''\<rparr>)
       \<noteq> ResourceVersion
           (example_Test\<lparr>Status := \<lparr>Phase = TestPhasePassed, Results = TestSuite_zero\<rparr>,
                         ResourceVersion := ''7''\<rparr>)
   \<and> fst (fst (c_Update api_Cluster (example_Test\<lparr>ResourceVersion := ''7''\<rparr>)
                 [(''tests'', ''afeature'') \<mapsto>
                    example_Test\<lparr>Status := \<lparr>Phase = TestPhaseUpdating, Results = TestSuite_zero\<rparr>,
                                 ResourceVersion := ''17''\<rparr>]))
       = Some (Error ''Conflict'' 409 ''the object has been modified'')"
proof -
  let ?k = "(''tests'', ''afeature'')"
  let ?old = "example_Test\<lparr>Status := \<lparr>Phase = TestPhasePassed, Results = TestSuite_zero\<rparr>,
                           ResourceVersion := ''7''\<rparr>"
  let ?held = "example_Test\<lparr>Status := \<lparr>Phase = TestPhaseUpdating, Results = TestSuite_zero\<rparr>,
                            ResourceVersion := ''17''\<rparr>"
  let ?fin = "example_Test\<lparr>Status := TestStatus_zero, ResourceVersion := ''1117''\<rparr>"
  let ?s = "[?k \<mapsto> ?old]"
  let ?w1 = "\<lparr>ext = ?s, trace = []\<rparr>"
  have key: "test_Namespace example_Test = ''tests''" "test_Name example_Test = ''afeature''"
    by (simp_all add: example_Test_def)
  have b1: "createAndRunTest_build example_Helpers api_Cluster example_options ''a.feature''
              example_RunConfig (ext ?w1) = Inr example_Test"
    by (simp add: example_build)
  have nd: "o_DumpFormat example_options = []"
    by (simp add: example_options_def)
  have sn: "SanitizeName example_Helpers ''a.feature'' = ''afeature''"
    by (simp add: example_Helpers_def)
  have ap: "createAndRunTest_apply api_Cluster example_Test ?w1
     = (Inr (?fin, True),
        \<lparr>ext = [?k \<mapsto> ?fin],
         trace =
           [ClientCreate example_Test,
            ClientGet ''tests'' ''afeature'',
            ClientStatusUpdate
              (example_Test\<lparr>Status := \<lparr>Phase = TestPhaseUpdating, Results = TestSuite_zero\<rparr>,
                            ResourceVersion := ''7''\<rparr>),
            ClientUpdate (example_Test\<lparr>ResourceVersion := ''17''\<rparr>),
            ClientStatusUpdate
              (example_Test\<lparr>Status := TestStatus_zero, ResourceVersion := ''117''\<rparr>)]\<rparr>)"
    using api_apply_existing[of ?s example_Test ?old "[]"]
    by (simp add: key next_version_def)
  have a: "createAndRunTest example_Helpers api_Cluster example_options ''a.feature''
      example_RunConfig ?w1
     = Some ((Some (example_Test\<lparr>Status := \<lparr>Phase = TestPhasePassed, Results = TestSuite_zero\<rparr>,
                                 ResourceVersion := ''1117''\<rparr>),
              None),
             \<lparr>ext = [?k \<mapsto> ?fin],
              trace =
                [ClientCreate example_Test,
                 ClientGet ''tests'' ''afeature'',
                 ClientStatusUpdate
                   (example_Test\<lparr>Status := \<lparr>Phase = TestPhaseUpdating, Results = TestSuite_zero\<rparr>,
                                 ResourceVersion := ''7''\<rparr>),
                 ClientUpdate (example_Test\<lparr>ResourceVersion := ''17''\<rparr>),
                 ClientStatusUpdate
                   (example_Test\<lparr>Status := TestStatus_zero, ResourceVersion := ''117''\<rparr>),
                 Print (''Test 'afeature' updated'' @ [CHR 0x0A]),
                 Print (''Test 'afeature' finished with status: Passed'' @ [CHR 0x0A])]\<rparr>)"
    unfolding createAndRunTest_applies[OF b1 nd] ap
    by (simp add: sn quoted_def Println_def emit_def example_wait TestStatus_zero_def)
  have g: "c_Get api_Cluster ''tests'' ''afeature'' example_Test ?s = ((None, ?old), ?s)"
    by (simp add: api_Cluster_def api_Get_def)
  have n: "ResourceVersion (example_Test\<lparr>ResourceVersion := ''17''\<rparr>) \<noteq> ResourceVersion ?old"
    by simp
  have u: "fst (fst (c_Update api_Cluster (example_Test\<lparr>ResourceVersion := ''7''\<rparr>)
                       [?k \<mapsto> ?held]))
             = Some (Error ''Conflict'' 409 ''the object has been modified'')"
    by (simp add: api_Cluster_def api_Update_def key)
  from a g n u show ?thesis
    by blast
qed

section \<open>Properties of the steps\<close>




lemma runSteps_step_fails:
  assumes "runSteps_step h st namespace baseDir idx step w = Some ((Some err, created), w')"
  shows "runSteps_loop h st namespace baseDir idx (step # rest) files w
           = Some ((Some err, created @ files), w')"
  using assms by simp







section \<open>Properties of \<open>runTest\<close>\<close>









section \<open>The example environment at work\<close>












section \<open>The temporary namespace in \<open>runTest\<close> and \<open>runTestGroup\<close>\<close>

text \<open>
  What the two paths defer once \<open>createTempNamespace\<close> has returned a namespace: the
  single test defers the deletion exactly when \<open>AutoRemove\<close> and \<open>Wait\<close> are set; the group
  defers it only if, in addition, no error was returned.
\<close>

lemma runTest_namespace_defers:
  assumes "Temporary (Namespace (Config runConfig))"
    and "createTempNamespace h op o' runConfig w = Some ((Some namespace, err), runConfig', w')"
  shows "runTest_namespace h op o' runConfig w
     = Some (err, runConfig', w',
             if AutoRemove (Namespace (Config runConfig')) \<and> o_Wait o'
             then [DeferDeleteTempNamespace namespace] else [])"
  using assms by (simp add: runTest_namespace_def)

lemma runTestGroup_namespace_defers:
  assumes "Temporary (Namespace (Config runConfig))"
    and "createTempNamespace h op o' runConfig w = Some ((Some namespace, err), runConfig', w')"
  shows "runTestGroup_namespace h op o' runConfig w
     = Some (err, runConfig', w',
             if err = None \<and> AutoRemove (Namespace (Config runConfig')) \<and> o_Wait o'
             then [DeferDeleteTempNamespace namespace] else [])"
  using assms by (cases err) (simp_all add: runTestGroup_namespace_def)

lemma example_createTempNamespace:
  "createTempNamespace example_Helpers example_Operator example_options
     example_RunConfig_temporary \<lparr>ext = Map.empty, trace = []\<rparr>
   = Some ((Some ''yaks-0001'', Some (Error ''Forbidden'' 403 ''instances is forbidden'')),
           setNamespaceName ''yaks-0001'' example_RunConfig_temporary,
           \<lparr>ext = Map.empty,
            trace = [Print (''Creating new test namespace yaks-0001'' @ [CHR 0x0A])]\<rparr>)"
  by (simp add: createTempNamespace_def initializeTempNamespace_def example_Operator_def
      Println_def emit_def IsNotFound_def Let_def)


text \<open>
  C7. A directory run in which the temporary namespace is created and the operator
  cannot be set up (here the instances cannot be listed), with \<open>AutoRemove\<close> and \<open>Wait\<close>
  set: \<open>runTest\<close> on a file defers the deletion and deletes the namespace when it
  returns; \<open>runTestGroup\<close> on the directory of that file returns with no deferred call
  and never deletes the namespace.
\<close>

theorem group_keeps_namespace_on_setup_error:
  "runTest_namespace example_Helpers example_Operator example_options
      example_RunConfig_temporary \<lparr>ext = Map.empty, trace = []\<rparr>
     = Some (Some (Error ''Forbidden'' 403 ''instances is forbidden''),
             setNamespaceName ''yaks-0001'' example_RunConfig_temporary,
             \<lparr>ext = Map.empty,
              trace = [Print (''Creating new test namespace yaks-0001'' @ [CHR 0x0A])]\<rparr>,
             [DeferDeleteTempNamespace ''yaks-0001''])
   \<and> runTestGroup_namespace example_Helpers example_Operator example_options
      example_RunConfig_temporary \<lparr>ext = Map.empty, trace = []\<rparr>
     = Some (Some (Error ''Forbidden'' 403 ''instances is forbidden''),
             setNamespaceName ''yaks-0001'' example_RunConfig_temporary,
             \<lparr>ext = Map.empty,
              trace = [Print (''Creating new test namespace yaks-0001'' @ [CHR 0x0A])]\<rparr>,
             [])
   \<and> runTest example_Helpers api_Cluster
       (example_Setup\<lparr>LoadConfig := (\<lambda>file s. Inr example_RunConfig_temporary)\<rparr>)
       example_Operator example_Steps example_Report example_options ''features/a.feature''
       \<lparr>Suites = []\<rparr> \<lparr>ext = Map.empty, trace = []\<rparr>
     = Some (example_options,
             \<lparr>Suites = [\<lparr>Tests = [], Errors = [''Forbidden - instances is forbidden'']\<rparr>]\<rparr>,
             \<lparr>ext = Map.empty,
              trace = [Print (''Creating new test namespace yaks-0001'' @ [CHR 0x0A]),
                       DeleteTempNamespace ''yaks-0001'',
                       Print (''AutoRemove namespace yaks-0001'' @ [CHR 0x0A])]\<rparr>)
   \<and> runTestGroup example_Helpers api_Cluster
       (example_Setup\<lparr>LoadConfig := (\<lambda>file s. Inr example_RunConfig_temporary)\<rparr>)
       example_Operator example_Steps example_Report example_options ''features''
       [File ''a.feature''] \<lparr>Suites = []\<rparr> \<lparr>ext = Map.empty, trace = []\<rparr>
     = Some (example_options,
             \<lparr>Suites = [\<lparr>Tests = [], Errors = [''Forbidden - instances is forbidden'']\<rparr>]\<rparr>,
             \<lparr>ext = Map.empty,
              trace = [Print (''Creating new test namespace yaks-0001'' @ [CHR 0x0A])]\<rparr>)"
proof -
  let ?h = example_Helpers and ?st = example_Steps and ?op = example_Operator
    and ?rp = example_Report and ?o = example_options
  let ?rc = example_RunConfig_temporary
  let ?rc' = "setNamespaceName ''yaks-0001'' example_RunConfig_temporary"
  let ?su = "example_Setup\<lparr>LoadConfig := (\<lambda>file s. Inr ?rc)\<rparr>"
  let ?w = "\<lparr>ext = Map.empty, trace = []\<rparr> :: store world"
  let ?w1 = "\<lparr>ext = Map.empty,
              trace = [Print (''Creating new test namespace yaks-0001'' @ [CHR 0x0A])]\<rparr>
             :: store world"
  let ?err = "Error ''Forbidden'' 403 ''instances is forbidden''"
  let ?res = "\<lparr>Suites = [\<lparr>Tests = [], Errors = [''Forbidden - instances is forbidden'']\<rparr>]\<rparr>"
  have tmp: "Temporary (Namespace (Config ?rc))"
    by (simp add: example_RunConfig_temporary_def)
  have flags: "AutoRemove (Namespace (Config ?rc'))" "o_Wait ?o"
    "ns_Name (Namespace (Config ?rc')) = ''yaks-0001''"
    by (simp_all add: example_RunConfig_temporary_def setNamespaceName_def example_options_def)
  have single: "runTest_namespace ?h ?op ?o ?rc ?w
                  = Some (Some ?err, ?rc', ?w1, [DeferDeleteTempNamespace ''yaks-0001''])"
    using runTest_namespace_defers[OF tmp example_createTempNamespace] flags by simp
  have group: "runTestGroup_namespace ?h ?op ?o ?rc ?w = Some (Some ?err, ?rc', ?w1, [])"
    using runTestGroup_namespace_defers[OF tmp example_createTempNamespace] by simp
  have client: "GetCmdClient example_Setup s = None" for s
    by (simp add: example_Setup_def)
  have cfg: "getRunConfig ?su ?o source isDir s = Inr ?rc" for source isDir s
    by (simp add: getRunConfig_def example_Setup_def example_RunConfig_temporary_def
        example_RunConfig_def)
  have hte: "handleTestError ?rp namespace source \<lparr>Suites = []\<rparr> ?err w' = (?res, w')"
    for namespace source and w' :: "store world"
    by (simp add: handleTestError_def handleTestResult_def example_Report_def
        AppendTestResults_def TestSuite_zero_def Let_def)
  have body: "runTest_body ?h api_Cluster ?su ?op ?st ?rp ?o ''features/a.feature''
                \<lparr>Suites = []\<rparr> ?w
              = Some (?o, ?res, ?w1, [DeferDeleteTempNamespace ''yaks-0001''])"
    by (simp add: runTest_body_def client cfg single hte)
  have del: "deleteTempNamespace ?op namespace \<lparr>ext = s, trace = tr\<rparr>
      = Some \<lparr>ext = s,
              trace = tr @ [DeleteTempNamespace namespace,
                            Print (''AutoRemove namespace '' @ namespace @ [CHR 0x0A])]\<rparr>"
    for namespace and s :: store and tr
    by (simp add: deleteTempNamespace_def example_Operator_def Println_def emit_def)
  have one: "runTest ?h api_Cluster ?su ?op ?st ?rp ?o ''features/a.feature'' \<lparr>Suites = []\<rparr> ?w
      = Some (?o, ?res,
              \<lparr>ext = Map.empty,
               trace = [Print (''Creating new test namespace yaks-0001'' @ [CHR 0x0A]),
                        DeleteTempNamespace ''yaks-0001'',
                        Print (''AutoRemove namespace yaks-0001'' @ [CHR 0x0A])]\<rparr>)"
    by (simp add: runTest_def body del)
  have early: "runTestGroup_setup ?h ?su ?op ?st ?rp ?o ''features'' \<lparr>Suites = []\<rparr> ?w
                 = Some (Inl (?o, ?res, ?w1, []))"
    by (simp add: runTestGroup_setup_def client cfg group hte)
  have dir: "runTestGroup ?h api_Cluster ?su ?op ?st ?rp ?o ''features'' [File ''a.feature'']
               \<lparr>Suites = []\<rparr> ?w = Some (?o, ?res, ?w1)"
    by (simp add: early)
  from single group one dir show ?thesis
    by blast
qed

section \<open>Properties of the group run\<close>





















end
